theory Spec2Isabelle
  imports Main "HOL-Library.Word"
begin

unbundle bit_operations_syntax

section \<open>The guest module as the host sees it\<close>

text \<open>
  The adapter talks to a WebAssembly instance through three things only: the export table
  (\<open>ExportedFunction\<close>, \<open>nil\<close> for a missing name), the invocation of an exported
  function (\<open>fn.Call\<close>, which returns result words or an error) and the bounds-checked
  access to linear memory (\<open>Memory().Read\<close>, \<open>Memory().Write\<close>). What the guest
  computes is opaque, so the behaviour of every export is a parameter of the model
  (\<open>run\<close>), over an arbitrary type \<open>'g\<close> of guest-internal state.

  Go strings are byte sequences: string payloads are \<open>8 word list\<close>. Export names and
  error messages are Isabelle strings.
\<close>

type_synonym u32 = "32 word"
type_synonym u64 = "64 word"
type_synonym bytes = "8 word list"

text \<open>An \<open>api.Function\<close> handle: the index of the function inside the instance.\<close>

type_synonym Function = nat

text \<open>
  \<open>ErrEmptyString\<close> and \<open>ErrInvalidUrl\<close> are the two package-level error values;
  \<open>ErrorsNew msg\<close> is an ad-hoc \<open>errors.New(msg)\<close>; \<open>CallError e\<close> is the error that
  \<open>fn.Call\<close> returned. \<open>PanicIndex\<close> is not a returned error: it is the run-time panic of
  \<open>results[0]\<close> on an empty result slice, which unwinds through every caller (running
  the deferred calls on the way).
\<close>

datatype error =
    ErrEmptyString
  | ErrInvalidUrl
  | ErrorsNew string
  | CallError string
  | PanicIndex

text \<open>The mutable part of an instance: its linear memory and the guest's own state.\<close>

record 'g Instance =
  memory :: bytes
  internals :: 'g

text \<open>
  A \<open>world\<close> is the instance together with the log of export invocations made so far
  (the function called and its argument words, oldest first). The log is what a guest-side
  call counter of a test double would observe.
\<close>

record 'g world =
  inst :: "'g Instance"
  calls :: "(Function \<times> u64 list) list"

text \<open>The immutable part: the export table and what each function does when called.\<close>

record 'g Module =
  ExportedFunction :: "string \<Rightarrow> Function option"
  run :: "Function \<Rightarrow> u64 list \<Rightarrow> 'g Instance \<Rightarrow> (string + u64 list) \<times> 'g Instance"

text \<open>\<open>fn.Call(ctx, args...)\<close>: runs the guest function and logs the invocation.\<close>

definition Call ::
  "'g Module \<Rightarrow> Function \<Rightarrow> u64 list \<Rightarrow> 'g world \<Rightarrow> (error + u64 list) \<times> 'g world" where
  "Call M fn args w =
     (case run M fn args (inst w) of
        (Inl e, i') \<Rightarrow> (Inl (CallError e), \<lparr>inst = i', calls = calls w @ [(fn, args)]\<rparr>)
      | (Inr results, i') \<Rightarrow> (Inr results, \<lparr>inst = i', calls = calls w @ [(fn, args)]\<rparr>))"

text \<open>
  \<open>Memory().Read(offset, byteCount)\<close> and \<open>Memory().Write(offset, v)\<close> of the WebAssembly
  runtime: both succeed exactly when the range lies inside the linear memory; \<open>Write\<close>
  copies \<open>v\<close> over the range and changes nothing else.
\<close>

definition Memory_Read :: "'g world \<Rightarrow> u32 \<Rightarrow> u32 \<Rightarrow> bytes option" where
  "Memory_Read w offset byteCount =
     (if unat offset + unat byteCount \<le> length (memory (inst w))
      then Some (take (unat byteCount) (drop (unat offset) (memory (inst w))))
      else None)"

definition Memory_Write :: "'g world \<Rightarrow> u32 \<Rightarrow> bytes \<Rightarrow> 'g world option" where
  "Memory_Write w offset v =
     (if unat offset + length v \<le> length (memory (inst w))
      then Some (w\<lparr>inst := (inst w)\<lparr>memory :=
                  take (unat offset) (memory (inst w)) @ v @
                  drop (unat offset + length v) (memory (inst w))\<rparr>\<rparr>)
      else None)"

section \<open>The single shared instance (goadawasm.go)\<close>

text \<open>
  Every exported operation of this variant runs between \<open>wasmMutex.Lock()\<close> and its deferred
  \<open>Unlock()\<close>, so operations never overlap: each is a function from the world before to the
  world after. \<open>ensureWasmInit\<close> instantiates the embedded module once (or panics the
  process); the functions below are the code after it has returned, with \<open>M\<close> and the world
  standing for \<open>wasmModule\<close>.
\<close>

definition wasmMalloc :: "'g Module \<Rightarrow> u32 \<Rightarrow> 'g world \<Rightarrow> (error + u32) \<times> 'g world" where
  "wasmMalloc M sz w =
     (case ExportedFunction M ''malloc'' of
        None \<Rightarrow> (Inl (ErrorsNew ''malloc function not found''), w)
      | Some malloc \<Rightarrow>
          (case Call M malloc [ucast sz] w of
             (Inl err, w') \<Rightarrow> (Inl err, w')
           | (Inr [], w') \<Rightarrow> (Inl PanicIndex, w')
           | (Inr (r # _), w') \<Rightarrow> (Inr (ucast r), w')))"

text \<open>The returned \<open>error\<close> of \<open>wasmFree\<close> is \<open>None\<close> for \<open>nil\<close>.\<close>

definition wasmFree :: "'g Module \<Rightarrow> u32 \<Rightarrow> 'g world \<Rightarrow> error option \<times> 'g world" where
  "wasmFree M ptr w =
     (case ExportedFunction M ''free'' of
        None \<Rightarrow> (Some (ErrorsNew ''free function not found''), w)
      | Some free' \<Rightarrow>
          (case Call M free' [ucast ptr] w of
             (Inl err, w') \<Rightarrow> (Some err, w')
           | (Inr _, w') \<Rightarrow> (None, w')))"

text \<open>\<open>uint32(len(s))\<close> truncates the length to 32 bits.\<close>

definition writeStringToWasm :: "'g Module \<Rightarrow> bytes \<Rightarrow> 'g world \<Rightarrow> (error + u32) \<times> 'g world" where
  "writeStringToWasm M s w =
     (if length s = 0 then (Inr 0, w)
      else
        (case wasmMalloc M (of_nat (length s)) w of
           (Inl err, w') \<Rightarrow> (Inl err, w')
         | (Inr ptr, w') \<Rightarrow>
             (case Memory_Write w' ptr s of
                None \<Rightarrow> (Inl (ErrorsNew ''failed to write string to WASM memory''),
                          snd (wasmFree M ptr w'))
              | Some w'' \<Rightarrow> (Inr ptr, w''))))"

text \<open>
  \<open>readAdaString\<close>: everything after \<open>defer wasmFree(resultPtr)\<close> computes the returned pair,
  then the deferred call runs on the world that part left behind.
\<close>

definition readAdaString ::
  "'g Module \<Rightarrow> Function \<Rightarrow> u32 \<Rightarrow> 'g world \<Rightarrow> (error + bytes) \<times> 'g world" where
  "readAdaString M fn urlPtr w =
     (case wasmMalloc M 8 w of
        (Inl err, w1) \<Rightarrow> (Inl err, w1)
      | (Inr resultPtr, w1) \<Rightarrow>
          (let (res, w3) =
             (case Call M fn [ucast resultPtr, ucast urlPtr] w1 of
                (Inl err, w2) \<Rightarrow> (Inl err, w2)
              | (Inr _, w2) \<Rightarrow>
                  (case Memory_Read w2 resultPtr 8 of
                     None \<Rightarrow> (Inl (ErrorsNew ''failed to read result struct from memory''), w2)
                   | Some resultBytes \<Rightarrow>
                       (let bufferPtr = (ucast (resultBytes ! 0) OR push_bit 8 (ucast (resultBytes ! 1))
                                         OR push_bit 16 (ucast (resultBytes ! 2))
                                         OR push_bit 24 (ucast (resultBytes ! 3)) :: u32);
                            len = (ucast (resultBytes ! 4) OR push_bit 8 (ucast (resultBytes ! 5))
                                         OR push_bit 16 (ucast (resultBytes ! 6))
                                         OR push_bit 24 (ucast (resultBytes ! 7)) :: u32)
                        in if bufferPtr = 0 \<or> len = 0 then (Inr [], w2)
                           else (case Memory_Read w2 bufferPtr len of
                                   None \<Rightarrow> (Inl (ErrorsNew ''failed to read string from memory''), w2)
                                 | Some stringBytes \<Rightarrow> (Inr stringBytes, w2)))))
           in (res, snd (wasmFree M resultPtr w3))))"

text \<open>
  \<open>callAdaBoolFunction\<close> returns a \<open>bool\<close>; the only \<open>Inl\<close> it can produce is the panic of
  \<open>results[0]\<close>.
\<close>

definition callAdaBoolFunction ::
  "'g Module \<Rightarrow> string \<Rightarrow> u32 \<Rightarrow> 'g world \<Rightarrow> (error + bool) \<times> 'g world" where
  "callAdaBoolFunction M funcName urlPtr w =
     (case ExportedFunction M funcName of
        None \<Rightarrow> (Inr False, w)
      | Some fn \<Rightarrow>
          (case Call M fn [ucast urlPtr] w of
             (Inl err, w') \<Rightarrow> (Inr False, w')
           | (Inr [], w') \<Rightarrow> (Inl PanicIndex, w')
           | (Inr (r # _), w') \<Rightarrow> (Inr (r \<noteq> 0), w')))"

text \<open>The handle: \<open>type Url struct { cpointer uint32 }\<close>.\<close>

record Url =
  cpointer :: u32

text \<open>
  \<open>free\<close> is both what \<open>Free\<close> calls and the finalizer registered by
  \<open>runtime.SetFinalizer(url, free)\<close>; it updates the handle in place, so the model returns
  the handle after the call.
\<close>

definition free :: "'g Module \<Rightarrow> Url \<Rightarrow> 'g world \<Rightarrow> Url \<times> 'g world" where
  "free M u w =
     (if cpointer u \<noteq> 0 then
        (case ExportedFunction M ''ada_free'' of
           None \<Rightarrow> (u\<lparr>cpointer := 0\<rparr>, w)
         | Some adaFree \<Rightarrow> (u\<lparr>cpointer := 0\<rparr>, snd (Call M adaFree [ucast (cpointer u)] w)))
      else (u, w))"

definition New :: "'g Module \<Rightarrow> bytes \<Rightarrow> 'g world \<Rightarrow> (error + Url) \<times> 'g world" where
  "New M urlstring w =
     (if length urlstring = 0 then (Inl ErrEmptyString, w)
      else
        (case writeStringToWasm M urlstring w of
           (Inl err, w1) \<Rightarrow> (Inl err, w1)
         | (Inr urlPtr, w1) \<Rightarrow>
             (let (res, w4) =
                (case ExportedFunction M ''ada_parse'' of
                   None \<Rightarrow> (Inl (ErrorsNew ''ada_parse function not found''), w1)
                 | Some parseFunc \<Rightarrow>
                     (case Call M parseFunc [ucast urlPtr, of_nat (length urlstring)] w1 of
                        (Inl err, w2) \<Rightarrow> (Inl err, w2)
                      | (Inr [], w2) \<Rightarrow> (Inl PanicIndex, w2)
                      | (Inr (r # _), w2) \<Rightarrow>
                          (let urlObjPtr = (ucast r :: u32)
                           in if urlObjPtr = 0 then (Inl ErrInvalidUrl, w2)
                              else
                                (case callAdaBoolFunction M ''ada_is_valid'' urlObjPtr w2 of
                                   (Inl panic, w3) \<Rightarrow> (Inl panic, w3)
                                 | (Inr False, w3) \<Rightarrow>
                                     (case ExportedFunction M ''ada_free'' of
                                        None \<Rightarrow> (Inl ErrInvalidUrl, w3)
                                      | Some adaFree \<Rightarrow>
                                          (Inl ErrInvalidUrl,
                                           snd (Call M adaFree [ucast urlObjPtr] w3)))
                                 | (Inr True, w3) \<Rightarrow> (Inr \<lparr>cpointer = urlObjPtr\<rparr>, w3)))))
              in (res, snd (wasmFree M urlPtr w4)))))"

text \<open>
  In \<open>NewWithBase\<close> two deferred frees are pending once both strings are written; they run
  last-registered first: \<open>basePtr\<close>, then \<open>urlPtr\<close>.
\<close>

definition NewWithBase ::
  "'g Module \<Rightarrow> bytes \<Rightarrow> bytes \<Rightarrow> 'g world \<Rightarrow> (error + Url) \<times> 'g world" where
  "NewWithBase M urlstring basestring w =
     (if length urlstring = 0 \<or> length basestring = 0 then (Inl ErrEmptyString, w)
      else
        (case writeStringToWasm M urlstring w of
           (Inl err, w1) \<Rightarrow> (Inl err, w1)
         | (Inr urlPtr, w1) \<Rightarrow>
             (let (res, w6) =
                (case writeStringToWasm M basestring w1 of
                   (Inl err, w1') \<Rightarrow> (Inl err, w1')
                 | (Inr basePtr, w1') \<Rightarrow>
                     (let (res, w5) =
                        (case ExportedFunction M ''ada_parse_with_base'' of
                           None \<Rightarrow> (Inl (ErrorsNew ''ada_parse_with_base function not found''), w1')
                         | Some parseFunc \<Rightarrow>
                             (case Call M parseFunc
                                     [ucast urlPtr, of_nat (length urlstring),
                                      ucast basePtr, of_nat (length basestring)] w1' of
                                (Inl err, w2) \<Rightarrow> (Inl err, w2)
                              | (Inr [], w2) \<Rightarrow> (Inl PanicIndex, w2)
                              | (Inr (r # _), w2) \<Rightarrow>
                                  (let urlObjPtr = (ucast r :: u32)
                                   in if urlObjPtr = 0 then (Inl ErrInvalidUrl, w2)
                                      else
                                        (case callAdaBoolFunction M ''ada_is_valid'' urlObjPtr w2 of
                                           (Inl panic, w3) \<Rightarrow> (Inl panic, w3)
                                         | (Inr False, w3) \<Rightarrow>
                                             (case ExportedFunction M ''ada_free'' of
                                                None \<Rightarrow> (Inl ErrInvalidUrl, w3)
                                              | Some adaFree \<Rightarrow>
                                                  (Inl ErrInvalidUrl,
                                                   snd (Call M adaFree [ucast urlObjPtr] w3)))
                                         | (Inr True, w3) \<Rightarrow>
                                             (Inr \<lparr>cpointer = urlObjPtr\<rparr>, w3)))))
                      in (res, snd (wasmFree M basePtr w5))))
              in (res, snd (wasmFree M urlPtr w6)))))"

text \<open>\<open>Free\<close>: \<open>runtime.SetFinalizer(u, nil)\<close> touches neither handle nor guest; then \<open>free(u)\<close>.\<close>

definition Free :: "'g Module \<Rightarrow> Url \<Rightarrow> 'g world \<Rightarrow> Url \<times> 'g world" where
  "Free M u w = free M u w"

text \<open>
  The ten boolean predicates are one line each: \<open>callAdaBoolFunction\<close> on the predicate's
  export and the handle's pointer.
\<close>

datatype predicate =
    Valid | HasCredentials | HasEmptyHostname | HasHostname | HasNonEmptyUsername
  | HasNonEmptyPassword | HasPort | HasPassword | HasHash | HasSearch

fun predicate_export :: "predicate \<Rightarrow> string" where
  "predicate_export Valid = ''ada_is_valid''"
| "predicate_export HasCredentials = ''ada_has_credentials''"
| "predicate_export HasEmptyHostname = ''ada_has_empty_hostname''"
| "predicate_export HasHostname = ''ada_has_hostname''"
| "predicate_export HasNonEmptyUsername = ''ada_has_non_empty_username''"
| "predicate_export HasNonEmptyPassword = ''ada_has_non_empty_password''"
| "predicate_export HasPort = ''ada_has_port''"
| "predicate_export HasPassword = ''ada_has_password''"
| "predicate_export HasHash = ''ada_has_hash''"
| "predicate_export HasSearch = ''ada_has_search''"

definition Url_predicate ::
  "'g Module \<Rightarrow> predicate \<Rightarrow> Url \<Rightarrow> 'g world \<Rightarrow> (error + bool) \<times> 'g world" where
  "Url_predicate M q u w = callAdaBoolFunction M (predicate_export q) (cpointer u) w"

text \<open>
  The ten field accessors share one body, up to the export's name. Every error return of
  \<open>readAdaString\<close> carries the empty string as its value, and the accessor drops the error
  (\<open>result, _ := readAdaString(fn, u.cpointer)\<close>); a panic is not a return and passes through.
\<close>

datatype accessor =
    Href | Username | Password | Port | Hash | Host | Hostname | Pathname | Search | Protocol

fun accessor_export :: "accessor \<Rightarrow> string" where
  "accessor_export Href = ''ada_get_href''"
| "accessor_export Username = ''ada_get_username''"
| "accessor_export Password = ''ada_get_password''"
| "accessor_export Port = ''ada_get_port''"
| "accessor_export Hash = ''ada_get_hash''"
| "accessor_export Host = ''ada_get_host''"
| "accessor_export Hostname = ''ada_get_hostname''"
| "accessor_export Pathname = ''ada_get_pathname''"
| "accessor_export Search = ''ada_get_search''"
| "accessor_export Protocol = ''ada_get_protocol''"

definition Url_accessor ::
  "'g Module \<Rightarrow> accessor \<Rightarrow> Url \<Rightarrow> 'g world \<Rightarrow> (error + bytes) \<times> 'g world" where
  "Url_accessor M a u w =
     (case ExportedFunction M (accessor_export a) of
        None \<Rightarrow> (Inr [], w)
      | Some fn \<Rightarrow>
          (case readAdaString M fn (cpointer u) w of
             (Inl err, w') \<Rightarrow> (if err = PanicIndex then (Inl PanicIndex, w') else (Inr [], w'))
           | (Inr result, w') \<Rightarrow> (Inr result, w')))"

text \<open>The two setter helpers; \<open>defer wasmFree(valuePtr)\<close> runs after the guest call.\<close>

definition allSetterBoolWithLock ::
  "'g Module \<Rightarrow> string \<Rightarrow> bytes \<Rightarrow> Url \<Rightarrow> 'g world \<Rightarrow> (error + bool) \<times> 'g world" where
  "allSetterBoolWithLock M funcName val u w =
     (case ExportedFunction M funcName of
        None \<Rightarrow> (Inr False, w)
      | Some fn \<Rightarrow>
          (case writeStringToWasm M val w of
             (Inl err, w1) \<Rightarrow> (if err = PanicIndex then (Inl PanicIndex, w1) else (Inr False, w1))
           | (Inr valuePtr, w1) \<Rightarrow>
               (let (res, w3) =
                  (case Call M fn [ucast (cpointer u), ucast valuePtr, of_nat (length val)] w1 of
                     (Inl err, w2) \<Rightarrow> (Inr False, w2)
                   | (Inr [], w2) \<Rightarrow> (Inl PanicIndex, w2)
                   | (Inr (r # _), w2) \<Rightarrow> (Inr (r \<noteq> 0), w2))
                in (res, snd (wasmFree M valuePtr w3)))))"

definition callSetterVoidWithLock ::
  "'g Module \<Rightarrow> string \<Rightarrow> bytes \<Rightarrow> Url \<Rightarrow> 'g world \<Rightarrow> (error + unit) \<times> 'g world" where
  "callSetterVoidWithLock M funcName val u w =
     (case ExportedFunction M funcName of
        None \<Rightarrow> (Inr (), w)
      | Some fn \<Rightarrow>
          (case writeStringToWasm M val w of
             (Inl err, w1) \<Rightarrow> (if err = PanicIndex then (Inl PanicIndex, w1) else (Inr (), w1))
           | (Inr valuePtr, w1) \<Rightarrow>
               (Inr (),
                snd (wasmFree M valuePtr
                  (snd (Call M fn [ucast (cpointer u), ucast valuePtr, of_nat (length val)] w1))))))"

datatype setter =
    SetHref | SetHost | SetHostname | SetProtocol | SetUsername | SetPassword | SetPort
  | SetPathname

fun setter_export :: "setter \<Rightarrow> string" where
  "setter_export SetHref = ''ada_set_href''"
| "setter_export SetHost = ''ada_set_host''"
| "setter_export SetHostname = ''ada_set_hostname''"
| "setter_export SetProtocol = ''ada_set_protocol''"
| "setter_export SetUsername = ''ada_set_username''"
| "setter_export SetPassword = ''ada_set_password''"
| "setter_export SetPort = ''ada_set_port''"
| "setter_export SetPathname = ''ada_set_pathname''"

definition Url_setter ::
  "'g Module \<Rightarrow> setter \<Rightarrow> bytes \<Rightarrow> Url \<Rightarrow> 'g world \<Rightarrow> (error + bool) \<times> 'g world" where
  "Url_setter M t s u w = allSetterBoolWithLock M (setter_export t) s u w"

definition SetSearch :: "'g Module \<Rightarrow> bytes \<Rightarrow> Url \<Rightarrow> 'g world \<Rightarrow> (error + unit) \<times> 'g world" where
  "SetSearch M s u w = callSetterVoidWithLock M ''ada_set_search'' s u w"

definition SetHash :: "'g Module \<Rightarrow> bytes \<Rightarrow> Url \<Rightarrow> 'g world \<Rightarrow> (error + unit) \<times> 'g world" where
  "SetHash M s u w = callSetterVoidWithLock M ''ada_set_hash'' s u w"

section \<open>One instance per parser (the Parser variant)\<close>

text \<open>
  \<open>type Parser struct { ctx; module; funcCache map[string]api.Function; mutex sync.RWMutex }\<close>.
  The state of a parser is the world of its own instance and its function cache. A handle
  of this variant holds a reference to the parser that made it; the operations on a handle
  therefore take that parser's state and return it updated.
\<close>

record 'g Parser =
  module :: "'g world"
  funcCache :: "string \<rightharpoonup> Function"

text \<open>
  \<open>NewParser\<close>, given what \<open>InstantiateModule\<close> returned: a fresh instance with an empty
  cache, or the instantiation error.
\<close>

definition NewParser :: "string + 'g world \<Rightarrow> error + 'g Parser" where
  "NewParser instantiated =
     (case instantiated of
        Inl err \<Rightarrow> Inl (ErrorsNew (''failed to instantiate Ada WASM module: '' @ err))
      | Inr w \<Rightarrow> Inr \<lparr>module = w, funcCache = Map.empty\<rparr>)"

text \<open>
  \<open>getFunction\<close> in its two critical sections. The first, under \<open>RLock\<close>, only reads the
  cache. The second, \<open>getFunction_locked\<close>, is everything between \<open>p.mutex.Lock()\<close> and the
  deferred \<open>Unlock()\<close>: it runs on the parser as it is when the exclusive lock is granted,
  which another caller may have changed since the read lock was released.
\<close>

definition getFunction_locked ::
  "'g Module \<Rightarrow> string \<Rightarrow> 'g Parser \<Rightarrow> Function option \<times> 'g Parser" where
  "getFunction_locked M name p =
     (case funcCache p name of
        Some fn \<Rightarrow> (Some fn, p)
      | None \<Rightarrow>
          (case ExportedFunction M name of
             None \<Rightarrow> (None, p)
           | Some fn \<Rightarrow> (Some fn, p\<lparr>funcCache := (funcCache p)(name \<mapsto> fn)\<rparr>)))"

definition getFunction ::
  "'g Module \<Rightarrow> string \<Rightarrow> 'g Parser \<Rightarrow> Function option \<times> 'g Parser" where
  "getFunction M name p =
     (case funcCache p name of
        Some fn \<Rightarrow> (Some fn, p)
      | None \<Rightarrow> getFunction_locked M name p)"

text \<open>\<open>fn.Call(p.ctx, args...)\<close> on the parser's instance.\<close>

definition Parser_Call ::
  "'g Module \<Rightarrow> Function \<Rightarrow> u64 list \<Rightarrow> 'g Parser \<Rightarrow> (error + u64 list) \<times> 'g Parser" where
  "Parser_Call M fn args p =
     (case Call M fn args (module p) of (res, w') \<Rightarrow> (res, p\<lparr>module := w'\<rparr>))"

definition Parser_wasmMalloc ::
  "'g Module \<Rightarrow> u32 \<Rightarrow> 'g Parser \<Rightarrow> (error + u32) \<times> 'g Parser" where
  "Parser_wasmMalloc M sz p =
     (case getFunction M ''malloc'' p of
        (None, p0) \<Rightarrow> (Inl (ErrorsNew ''malloc function not found''), p0)
      | (Some malloc, p0) \<Rightarrow>
          (case Parser_Call M malloc [ucast sz] p0 of
             (Inl err, p') \<Rightarrow> (Inl err, p')
           | (Inr [], p') \<Rightarrow> (Inl PanicIndex, p')
           | (Inr (r # _), p') \<Rightarrow> (Inr (ucast r), p')))"

definition Parser_wasmFree ::
  "'g Module \<Rightarrow> u32 \<Rightarrow> 'g Parser \<Rightarrow> error option \<times> 'g Parser" where
  "Parser_wasmFree M ptr p =
     (case getFunction M ''free'' p of
        (None, p0) \<Rightarrow> (Some (ErrorsNew ''free function not found''), p0)
      | (Some free', p0) \<Rightarrow>
          (case Parser_Call M free' [ucast ptr] p0 of
             (Inl err, p') \<Rightarrow> (Some err, p')
           | (Inr _, p') \<Rightarrow> (None, p')))"

definition Parser_writeStringToWasm ::
  "'g Module \<Rightarrow> bytes \<Rightarrow> 'g Parser \<Rightarrow> (error + u32) \<times> 'g Parser" where
  "Parser_writeStringToWasm M s p =
     (if length s = 0 then (Inr 0, p)
      else
        (case Parser_wasmMalloc M (of_nat (length s)) p of
           (Inl err, p') \<Rightarrow> (Inl err, p')
         | (Inr ptr, p') \<Rightarrow>
             (case Memory_Write (module p') ptr s of
                None \<Rightarrow> (Inl (ErrorsNew ''failed to write string to WASM memory''),
                          snd (Parser_wasmFree M ptr p'))
              | Some w'' \<Rightarrow> (Inr ptr, p'\<lparr>module := w''\<rparr>))))"

definition Parser_readAdaString ::
  "'g Module \<Rightarrow> Function \<Rightarrow> u32 \<Rightarrow> 'g Parser \<Rightarrow> (error + bytes) \<times> 'g Parser" where
  "Parser_readAdaString M fn urlPtr p =
     (case Parser_wasmMalloc M 8 p of
        (Inl err, p1) \<Rightarrow> (Inl err, p1)
      | (Inr resultPtr, p1) \<Rightarrow>
          (let (res, p3) =
             (case Parser_Call M fn [ucast resultPtr, ucast urlPtr] p1 of
                (Inl err, p2) \<Rightarrow> (Inl err, p2)
              | (Inr _, p2) \<Rightarrow>
                  (case Memory_Read (module p2) resultPtr 8 of
                     None \<Rightarrow> (Inl (ErrorsNew ''failed to read result struct from memory''), p2)
                   | Some resultBytes \<Rightarrow>
                       (let bufferPtr = (ucast (resultBytes ! 0) OR push_bit 8 (ucast (resultBytes ! 1))
                                         OR push_bit 16 (ucast (resultBytes ! 2))
                                         OR push_bit 24 (ucast (resultBytes ! 3)) :: u32);
                            len = (ucast (resultBytes ! 4) OR push_bit 8 (ucast (resultBytes ! 5))
                                         OR push_bit 16 (ucast (resultBytes ! 6))
                                         OR push_bit 24 (ucast (resultBytes ! 7)) :: u32)
                        in if bufferPtr = 0 \<or> len = 0 then (Inr [], p2)
                           else (case Memory_Read (module p2) bufferPtr len of
                                   None \<Rightarrow> (Inl (ErrorsNew ''failed to read string from memory''), p2)
                                 | Some stringBytes \<Rightarrow> (Inr stringBytes, p2)))))
           in (res, snd (Parser_wasmFree M resultPtr p3))))"

definition Parser_callAdaBoolFunction ::
  "'g Module \<Rightarrow> string \<Rightarrow> u32 \<Rightarrow> 'g Parser \<Rightarrow> (error + bool) \<times> 'g Parser" where
  "Parser_callAdaBoolFunction M funcName urlPtr p =
     (case getFunction M funcName p of
        (None, p0) \<Rightarrow> (Inr False, p0)
      | (Some fn, p0) \<Rightarrow>
          (case Parser_Call M fn [ucast urlPtr] p0 of
             (Inl err, p') \<Rightarrow> (Inr False, p')
           | (Inr [], p') \<Rightarrow> (Inl PanicIndex, p')
           | (Inr (r # _), p') \<Rightarrow> (Inr (r \<noteq> 0), p')))"

text \<open>\<open>(*Url).ada_free\<close>, the release of this variant and its finalizer.\<close>

definition ada_free :: "'g Module \<Rightarrow> Url \<Rightarrow> 'g Parser \<Rightarrow> Url \<times> 'g Parser" where
  "ada_free M u p =
     (if cpointer u \<noteq> 0 then
        (case getFunction M ''ada_free'' p of
           (None, p0) \<Rightarrow> (u\<lparr>cpointer := 0\<rparr>, p0)
         | (Some adaFree, p0) \<Rightarrow>
             (u\<lparr>cpointer := 0\<rparr>, snd (Parser_Call M adaFree [ucast (cpointer u)] p0)))
      else (u, p))"

definition Parser_New :: "'g Module \<Rightarrow> bytes \<Rightarrow> 'g Parser \<Rightarrow> (error + Url) \<times> 'g Parser" where
  "Parser_New M urlstring p =
     (if length urlstring = 0 then (Inl ErrEmptyString, p)
      else
        (case Parser_writeStringToWasm M urlstring p of
           (Inl err, p1) \<Rightarrow> (Inl err, p1)
         | (Inr urlPtr, p1) \<Rightarrow>
             (let (res, p4) =
                (case getFunction M ''ada_parse'' p1 of
                   (None, p1') \<Rightarrow> (Inl (ErrorsNew ''ada_parse function not found''), p1')
                 | (Some parseFunc, p1') \<Rightarrow>
                     (case Parser_Call M parseFunc [ucast urlPtr, of_nat (length urlstring)] p1' of
                        (Inl err, p2) \<Rightarrow> (Inl err, p2)
                      | (Inr [], p2) \<Rightarrow> (Inl PanicIndex, p2)
                      | (Inr (r # _), p2) \<Rightarrow>
                          (let urlObjPtr = (ucast r :: u32)
                           in if urlObjPtr = 0 then (Inl ErrInvalidUrl, p2)
                              else
                                (case Parser_callAdaBoolFunction M ''ada_is_valid'' urlObjPtr p2 of
                                   (Inl panic, p3) \<Rightarrow> (Inl panic, p3)
                                 | (Inr False, p3) \<Rightarrow>
                                     (case getFunction M ''ada_free'' p3 of
                                        (None, p3') \<Rightarrow> (Inl ErrInvalidUrl, p3')
                                      | (Some adaFree, p3') \<Rightarrow>
                                          (Inl ErrInvalidUrl,
                                           snd (Parser_Call M adaFree [ucast urlObjPtr] p3')))
                                 | (Inr True, p3) \<Rightarrow> (Inr \<lparr>cpointer = urlObjPtr\<rparr>, p3)))))
              in (res, snd (Parser_wasmFree M urlPtr p4)))))"

definition Parser_NewWithBase ::
  "'g Module \<Rightarrow> bytes \<Rightarrow> bytes \<Rightarrow> 'g Parser \<Rightarrow> (error + Url) \<times> 'g Parser" where
  "Parser_NewWithBase M urlstring basestring p =
     (if length urlstring = 0 \<or> length basestring = 0 then (Inl ErrEmptyString, p)
      else
        (case Parser_writeStringToWasm M urlstring p of
           (Inl err, p1) \<Rightarrow> (Inl err, p1)
         | (Inr urlPtr, p1) \<Rightarrow>
             (let (res, p6) =
                (case Parser_writeStringToWasm M basestring p1 of
                   (Inl err, p1') \<Rightarrow> (Inl err, p1')
                 | (Inr basePtr, p1') \<Rightarrow>
                     (let (res, p5) =
                        (case getFunction M ''ada_parse_with_base'' p1' of
                           (None, p1'') \<Rightarrow>
                             (Inl (ErrorsNew ''ada_parse_with_base function not found''), p1'')
                         | (Some parseFunc, p1'') \<Rightarrow>
                             (case Parser_Call M parseFunc
                                     [ucast urlPtr, of_nat (length urlstring),
                                      ucast basePtr, of_nat (length basestring)] p1'' of
                                (Inl err, p2) \<Rightarrow> (Inl err, p2)
                              | (Inr [], p2) \<Rightarrow> (Inl PanicIndex, p2)
                              | (Inr (r # _), p2) \<Rightarrow>
                                  (let urlObjPtr = (ucast r :: u32)
                                   in if urlObjPtr = 0 then (Inl ErrInvalidUrl, p2)
                                      else
                                        (case Parser_callAdaBoolFunction M ''ada_is_valid''
                                                urlObjPtr p2 of
                                           (Inl panic, p3) \<Rightarrow> (Inl panic, p3)
                                         | (Inr False, p3) \<Rightarrow>
                                             (case getFunction M ''ada_free'' p3 of
                                                (None, p3') \<Rightarrow> (Inl ErrInvalidUrl, p3')
                                              | (Some adaFree, p3') \<Rightarrow>
                                                  (Inl ErrInvalidUrl,
                                                   snd (Parser_Call M adaFree [ucast urlObjPtr] p3')))
                                         | (Inr True, p3) \<Rightarrow>
                                             (Inr \<lparr>cpointer = urlObjPtr\<rparr>, p3)))))
                      in (res, snd (Parser_wasmFree M basePtr p5))))
              in (res, snd (Parser_wasmFree M urlPtr p6)))))"

definition Parser_Free :: "'g Module \<Rightarrow> Url \<Rightarrow> 'g Parser \<Rightarrow> Url \<times> 'g Parser" where
  "Parser_Free M u p = ada_free M u p"

definition Parser_predicate ::
  "'g Module \<Rightarrow> predicate \<Rightarrow> Url \<Rightarrow> 'g Parser \<Rightarrow> (error + bool) \<times> 'g Parser" where
  "Parser_predicate M q u p = Parser_callAdaBoolFunction M (predicate_export q) (cpointer u) p"

definition Parser_accessor ::
  "'g Module \<Rightarrow> accessor \<Rightarrow> Url \<Rightarrow> 'g Parser \<Rightarrow> (error + bytes) \<times> 'g Parser" where
  "Parser_accessor M a u p =
     (case getFunction M (accessor_export a) p of
        (None, p0) \<Rightarrow> (Inr [], p0)
      | (Some fn, p0) \<Rightarrow>
          (case Parser_readAdaString M fn (cpointer u) p0 of
             (Inl err, p') \<Rightarrow> (if err = PanicIndex then (Inl PanicIndex, p') else (Inr [], p'))
           | (Inr result, p') \<Rightarrow> (Inr result, p')))"

definition callSetterBool ::
  "'g Module \<Rightarrow> string \<Rightarrow> bytes \<Rightarrow> Url \<Rightarrow> 'g Parser \<Rightarrow> (error + bool) \<times> 'g Parser" where
  "callSetterBool M funcName val u p =
     (case getFunction M funcName p of
        (None, p0) \<Rightarrow> (Inr False, p0)
      | (Some fn, p0) \<Rightarrow>
          (case Parser_writeStringToWasm M val p0 of
             (Inl err, p1) \<Rightarrow> (if err = PanicIndex then (Inl PanicIndex, p1) else (Inr False, p1))
           | (Inr valuePtr, p1) \<Rightarrow>
               (let (res, p3) =
                  (case Parser_Call M fn [ucast (cpointer u), ucast valuePtr, of_nat (length val)] p1 of
                     (Inl err, p2) \<Rightarrow> (Inr False, p2)
                   | (Inr [], p2) \<Rightarrow> (Inl PanicIndex, p2)
                   | (Inr (r # _), p2) \<Rightarrow> (Inr (r \<noteq> 0), p2))
                in (res, snd (Parser_wasmFree M valuePtr p3)))))"

definition callSetterVoid ::
  "'g Module \<Rightarrow> string \<Rightarrow> bytes \<Rightarrow> Url \<Rightarrow> 'g Parser \<Rightarrow> (error + unit) \<times> 'g Parser" where
  "callSetterVoid M funcName val u p =
     (case getFunction M funcName p of
        (None, p0) \<Rightarrow> (Inr (), p0)
      | (Some fn, p0) \<Rightarrow>
          (case Parser_writeStringToWasm M val p0 of
             (Inl err, p1) \<Rightarrow> (if err = PanicIndex then (Inl PanicIndex, p1) else (Inr (), p1))
           | (Inr valuePtr, p1) \<Rightarrow>
               (Inr (),
                snd (Parser_wasmFree M valuePtr
                  (snd (Parser_Call M fn
                          [ucast (cpointer u), ucast valuePtr, of_nat (length val)] p1))))))"

definition Parser_setter ::
  "'g Module \<Rightarrow> setter \<Rightarrow> bytes \<Rightarrow> Url \<Rightarrow> 'g Parser \<Rightarrow> (error + bool) \<times> 'g Parser" where
  "Parser_setter M t s u p = callSetterBool M (setter_export t) s u p"

definition Parser_SetSearch ::
  "'g Module \<Rightarrow> bytes \<Rightarrow> Url \<Rightarrow> 'g Parser \<Rightarrow> (error + unit) \<times> 'g Parser" where
  "Parser_SetSearch M s u p = callSetterVoid M ''ada_set_search'' s u p"

definition Parser_SetHash ::
  "'g Module \<Rightarrow> bytes \<Rightarrow> Url \<Rightarrow> 'g Parser \<Rightarrow> (error + unit) \<times> 'g Parser" where
  "Parser_SetHash M s u p = callSetterVoid M ''ada_set_hash'' s u p"

section \<open>A test double for the guest\<close>

text \<open>
  A small guest to run the adapter against. Its state is the next free address of a bump
  allocator (function 0, \<open>malloc\<close>); \<open>free\<close> and \<open>ada_free\<close> (functions 1 and 4) do nothing
  and return nothing. \<open>ada_parse\<close> and \<open>ada_parse_with_base\<close> (2 and 7) look at the first
  byte of the input: \<open>h\<close> gives a valid object at address 32, \<open>b\<close> an object at address 40
  that \<open>ada_is_valid\<close> (3) rejects, anything else the null pointer. \<open>ada_get_href\<close> (5)
  stores the result struct \<open>{pointer = 1, length = 2}\<close> at the address it is given.
  \<open>ada_has_hash\<close> and \<open>ada_get_host\<close> (6) trap. \<open>ada_set_protocol\<close> (8) always succeeds;
  \<open>ada_set_search\<close> and \<open>ada_set_hash\<close> return nothing. \<open>ada_has_port\<close> and the other exports
  are missing.
\<close>

definition td_exports :: "string \<Rightarrow> Function option" where
  "td_exports name =
     (if name = ''malloc'' then Some 0
      else if name = ''free'' then Some 1
      else if name = ''ada_parse'' then Some 2
      else if name = ''ada_is_valid'' then Some 3
      else if name = ''ada_free'' then Some 4
      else if name = ''ada_get_href'' then Some 5
      else if name = ''ada_has_hash'' \<or> name = ''ada_get_host'' then Some 6
      else if name = ''ada_parse_with_base'' then Some 7
      else if name = ''ada_set_protocol'' then Some 8
      else if name = ''ada_set_search'' \<or> name = ''ada_set_hash'' then Some 1
      else None)"

definition td_run ::
  "Function \<Rightarrow> u64 list \<Rightarrow> u32 Instance \<Rightarrow> (string + u64 list) \<times> u32 Instance" where
  "td_run fn args i =
     (if fn = 0 then
        (case args of
           [sz] \<Rightarrow> (Inr [ucast (internals i)], i\<lparr>internals := internals i + ucast sz\<rparr>)
         | _ \<Rightarrow> (Inl ''bad arguments'', i))
      else if fn = 1 \<or> fn = 4 then (Inr [], i)
      else if fn = 2 then
        (case args of
           [ptr, len] \<Rightarrow>
             (case drop (unat ptr) (memory i) of
                [] \<Rightarrow> (Inr [0], i)
              | b # _ \<Rightarrow> (Inr [if b = 104 then 32 else if b = 98 then 40 else 0], i))
         | _ \<Rightarrow> (Inl ''bad arguments'', i))
      else if fn = 3 then
        (case args of
           [obj] \<Rightarrow> (Inr [if obj = 40 then 0 else 1], i)
         | _ \<Rightarrow> (Inl ''bad arguments'', i))
      else if fn = 5 then
        (case args of
           [resultPtr, obj] \<Rightarrow>
             (Inr [], i\<lparr>memory := take (unat resultPtr) (memory i) @ [1, 0, 0, 0, 2, 0, 0, 0] @
                                   drop (unat resultPtr + 8) (memory i)\<rparr>)
         | _ \<Rightarrow> (Inl ''bad arguments'', i))
      else if fn = 7 then
        (case args of
           [ptr, len, basePtr, baseLen] \<Rightarrow>
             (case drop (unat ptr) (memory i) of
                [] \<Rightarrow> (Inr [0], i)
              | b # _ \<Rightarrow> (Inr [if b = 104 then 32 else if b = 98 then 40 else 0], i))
         | _ \<Rightarrow> (Inl ''bad arguments'', i))
      else if fn = 8 then (Inr [1], i)
      else (Inl ''trap'', i))"

definition td :: "u32 Module" where
  "td = \<lparr>ExportedFunction = td_exports, run = td_run\<rparr>"

text \<open>The same guest without its \<open>free\<close> and \<open>ada_free\<close> exports.\<close>

definition td_nofree :: "u32 Module" where
  "td_nofree =
     \<lparr>ExportedFunction = (\<lambda>name. if name = ''free'' \<or> name = ''ada_free'' then None
                                 else td_exports name),
      run = td_run\<rparr>"

text \<open>Sixteen bytes of linear memory, the allocator at address 8, nothing called yet.\<close>

definition td_world :: "u32 world" where
  "td_world =
     \<lparr>inst = \<lparr>memory = [0, 7, 9, 0, 0, 0, 0, 0, 0, 0, 0, 0, 0, 0, 0, 0], internals = 8\<rparr>,
      calls = []\<rparr>"

definition td_parser :: "u32 Parser" where
  "td_parser = \<lparr>module = td_world, funcCache = Map.empty\<rparr>"

text \<open>
  The guest-side free counter: how many logged invocations went to the function exported
  as \<open>ada_free\<close>.
\<close>

definition ada_free_count :: "'g Module \<Rightarrow> 'g world \<Rightarrow> nat" where
  "ada_free_count M w =
     length (filter (\<lambda>c. ExportedFunction M ''ada_free'' = Some (fst c)) (calls w))"

section \<open>How the two variants relate\<close>

text \<open>
  A parser's cache is sound when every entry is an export of the module under the same
  name. \<open>NewParser\<close> starts with the empty cache and only \<open>getFunction\<close> writes to it, so
  every parser the code can reach has a sound cache.
\<close>

definition cache_ok :: "'g Module \<Rightarrow> 'g Parser \<Rightarrow> bool" where
  "cache_ok M p \<longleftrightarrow> funcCache p \<subseteq>\<^sub>m ExportedFunction M"

text \<open>
  An outcome \<open>X\<close> of a parser operation started in \<open>p\<close> corresponds to an outcome \<open>Y\<close> of the
  shared-instance operation when both return the same value and leave the same world, and
  the parser's cache is still sound and has lost nothing.
\<close>

definition corresponds ::
  "'g Module \<Rightarrow> 'g Parser \<Rightarrow> 'a \<times> 'g Parser \<Rightarrow> 'a \<times> 'g world \<Rightarrow> bool" where
  "corresponds M p X Y \<longleftrightarrow>
     fst X = fst Y \<and> module (snd X) = snd Y \<and> cache_ok M (snd X)
     \<and> funcCache p \<subseteq>\<^sub>m funcCache (snd X)"

section \<open>The result struct, in the specification's words\<close>

text \<open>
  The value of a byte sequence read as a little-endian unsigned number (the first byte is
  the least significant), and that value as a 32-bit field.
\<close>

fun le_nat :: "bytes \<Rightarrow> nat" where
  "le_nat [] = 0"
| "le_nat (b # bs) = unat b + 256 * le_nat bs"

definition le_uint32 :: "bytes \<Rightarrow> u32" where
  "le_uint32 bs = of_nat (le_nat bs)"

section \<open>Sequences of operations on one parser\<close>

text \<open>
  Everything a client can do with a parser and its handles while the instance lives, as
  data, so that a property of the cache can be stated for every sequence of operations.
  (\<open>Close\<close>, which ends the life of the instance, only calls \<open>p.module.Close\<close>.)
\<close>

datatype operation =
    Op_getFunction string
  | Op_New bytes
  | Op_NewWithBase bytes bytes
  | Op_Free Url
  | Op_predicate predicate Url
  | Op_accessor accessor Url
  | Op_setter setter bytes Url
  | Op_SetSearch bytes Url
  | Op_SetHash bytes Url

fun perform :: "'g Module \<Rightarrow> operation \<Rightarrow> 'g Parser \<Rightarrow> 'g Parser" where
  "perform M (Op_getFunction name) p = snd (getFunction M name p)"
| "perform M (Op_New s) p = snd (Parser_New M s p)"
| "perform M (Op_NewWithBase s b) p = snd (Parser_NewWithBase M s b p)"
| "perform M (Op_Free u) p = snd (Parser_Free M u p)"
| "perform M (Op_predicate q u) p = snd (Parser_predicate M q u p)"
| "perform M (Op_accessor a u) p = snd (Parser_accessor M a u p)"
| "perform M (Op_setter t v u) p = snd (Parser_setter M t v u p)"
| "perform M (Op_SetSearch v u) p = snd (Parser_SetSearch M v u p)"
| "perform M (Op_SetHash v u) p = snd (Parser_SetHash M v u p)"

fun perform_all :: "'g Module \<Rightarrow> operation list \<Rightarrow> 'g Parser \<Rightarrow> 'g Parser" where
  "perform_all M [] p = p"
| "perform_all M (op # ops) p = perform_all M ops (perform M op p)"

section \<open>Concurrent callers of getFunction\<close>

text \<open>
  \<open>getFunction\<close> statement by statement, for several goroutines sharing one parser. Each
  caller is at one of these points:
  \<^item> \<open>Start\<close>: about to \<open>p.mutex.RLock()\<close>;
  \<^item> \<open>Reading\<close>: holds the read lock, about to read \<open>p.funcCache[name]\<close>;
  \<^item> \<open>ReadDone r\<close>: holds the read lock and has read \<open>r\<close>, about to \<open>RUnlock()\<close> and to
    return if \<open>r\<close> is a hit;
  \<^item> \<open>Waiting\<close>: missed, about to \<open>p.mutex.Lock()\<close>;
  \<^item> \<open>Locked\<close>: holds the exclusive lock, about to read the cache again;
  \<^item> \<open>Missed\<close>: holds the exclusive lock and missed again, about to call
    \<open>p.module.ExportedFunction(name)\<close> and to store what it finds;
  \<^item> \<open>Unlocking r\<close>: holds the exclusive lock, about to return \<open>r\<close> through the deferred
    \<open>Unlock()\<close>;
  \<^item> \<open>Returned r\<close>: has returned \<open>r\<close>.
\<close>

datatype pc =
    Start
  | Reading
  | ReadDone "Function option"
  | Waiting
  | Locked
  | Missed
  | Unlocking "Function option"
  | Returned "Function option"

fun holds_read :: "pc \<Rightarrow> bool" where
  "holds_read Reading = True"
| "holds_read (ReadDone r) = True"
| "holds_read _ = False"

fun holds_write :: "pc \<Rightarrow> bool" where
  "holds_write Locked = True"
| "holds_write Missed = True"
| "holds_write (Unlocking r) = True"
| "holds_write _ = False"

text \<open>The shared cache and the callers, each with the name it resolves.\<close>

record shared =
  cache :: "string \<rightharpoonup> Function"
  callers :: "(string \<times> pc) list"

text \<open>
  The read/write mutex by its contract: \<open>RLock\<close> is granted when nobody holds the exclusive
  lock, \<open>Lock\<close> when nobody holds any lock.
\<close>

definition may_RLock :: "shared \<Rightarrow> bool" where
  "may_RLock c \<longleftrightarrow> list_all (\<lambda>x. \<not> holds_write (snd x)) (callers c)"

definition may_Lock :: "shared \<Rightarrow> bool" where
  "may_Lock c \<longleftrightarrow>
     list_all (\<lambda>x. \<not> holds_write (snd x) \<and> \<not> holds_read (snd x)) (callers c)"

text \<open>
  The next statement of a caller resolving \<open>name\<close>: the cache and the caller's position
  after it. A caller whose lock is not granted stays where it is.
\<close>

fun statement ::
  "'g Module \<Rightarrow> shared \<Rightarrow> string \<Rightarrow> pc \<Rightarrow> (string \<rightharpoonup> Function) \<times> pc" where
  "statement M c name Start = (cache c, if may_RLock c then Reading else Start)"
| "statement M c name Reading = (cache c, ReadDone (cache c name))"
| "statement M c name (ReadDone r) =
     (cache c, case r of Some fn \<Rightarrow> Returned (Some fn) | None \<Rightarrow> Waiting)"
| "statement M c name Waiting = (cache c, if may_Lock c then Locked else Waiting)"
| "statement M c name Locked =
     (cache c, case cache c name of Some fn \<Rightarrow> Unlocking (Some fn) | None \<Rightarrow> Missed)"
| "statement M c name Missed =
     (case ExportedFunction M name of
        None \<Rightarrow> (cache c, Unlocking None)
      | Some fn \<Rightarrow> ((cache c)(name \<mapsto> fn), Unlocking (Some fn)))"
| "statement M c name (Unlocking r) = (cache c, Returned r)"
| "statement M c name (Returned r) = (cache c, Returned r)"

text \<open>Caller \<open>i\<close> executes its next statement; a schedule is the order in which callers run.\<close>

definition step :: "'g Module \<Rightarrow> nat \<Rightarrow> shared \<Rightarrow> shared" where
  "step M i c =
     (if i < length (callers c) then
        (case callers c ! i of
           (name, at) \<Rightarrow>
             (case statement M c name at of
                (cache', at') \<Rightarrow> \<lparr>cache = cache', callers = (callers c)[i := (name, at')]\<rparr>))
      else c)"

fun schedule :: "'g Module \<Rightarrow> nat list \<Rightarrow> shared \<Rightarrow> shared" where
  "schedule M [] c = c"
| "schedule M (i # is) c = schedule M is (step M i c)"

text \<open>All callers at the start of \<open>getFunction\<close>.\<close>

definition entering :: "(string \<rightharpoonup> Function) \<Rightarrow> string list \<Rightarrow> shared" where
  "entering c0 names = \<lparr>cache = c0, callers = map (\<lambda>name. (name, Start)) names\<rparr>"

text \<open>
  What a caller knows at each point is still true of the shared cache: a hit it has read
  is still there; after missing under the exclusive lock the name is still absent; what
  it is about to return, or has returned, is what the cache holds for the name, and a
  \<open>nil\<close> result means the module has no such export.
\<close>

fun at_ok :: "'g Module \<Rightarrow> (string \<rightharpoonup> Function) \<Rightarrow> string \<Rightarrow> pc \<Rightarrow> bool" where
  "at_ok M ch name (ReadDone r) = (r = None \<or> ch name = r)"
| "at_ok M ch name Missed = (ch name = None)"
| "at_ok M ch name (Unlocking r) = (ch name = r \<and> (r = None \<longrightarrow> ExportedFunction M name = None))"
| "at_ok M ch name (Returned r) = (ch name = r \<and> (r = None \<longrightarrow> ExportedFunction M name = None))"
| "at_ok M ch name _ = True"

text \<open>A caller holding the exclusive lock is the only caller holding any lock.\<close>

definition exclusive :: "shared \<Rightarrow> bool" where
  "exclusive c \<longleftrightarrow>
     (\<forall>i < length (callers c). \<forall>j < length (callers c).
        holds_write (snd (callers c ! i)) \<longrightarrow>
        holds_write (snd (callers c ! j)) \<or> holds_read (snd (callers c ! j)) \<longrightarrow> i = j)"

definition coherent :: "'g Module \<Rightarrow> shared \<Rightarrow> bool" where
  "coherent M c \<longleftrightarrow>
     exclusive c \<and>
     (\<forall>i < length (callers c). at_ok M (cache c) (fst (callers c ! i)) (snd (callers c ! i)))"

section \<open>Unfolding the model on the test double\<close>

lemmas td_defs = td_def td_nofree_def td_exports_def td_run_def td_world_def td_parser_def

lemmas shared_defs =
  Call_def Memory_Read_def Memory_Write_def wasmMalloc_def wasmFree_def writeStringToWasm_def
  readAdaString_def callAdaBoolFunction_def free_def New_def NewWithBase_def Free_def
  Url_predicate_def Url_accessor_def allSetterBoolWithLock_def callSetterVoidWithLock_def
  Url_setter_def SetSearch_def SetHash_def

lemma cache_ok_td_parser: "cache_ok td td_parser"
  by (simp add: cache_ok_def td_parser_def)

section \<open>What a call leaves in the log\<close>

lemma Call_calls: "calls (snd (Call M fn args w)) = calls w @ [(fn, args)]"
  by (simp add: Call_def split: prod.splits sum.splits)

lemma Parser_Call_alt:
  "Parser_Call M fn args p =
     (fst (Call M fn args (module p)), p\<lparr>module := snd (Call M fn args (module p))\<rparr>)"
  by (simp add: Parser_Call_def split: prod.splits)

lemma wasmFree_calls:
  "calls (snd (wasmFree M ptr w)) =
     calls w @ (case ExportedFunction M ''free'' of
                  None \<Rightarrow> []
                | Some f \<Rightarrow> [(f, [ucast ptr])])"
proof (cases "ExportedFunction M ''free''")
  case None
  then show ?thesis by (simp add: wasmFree_def)
next
  case (Some f)
  obtain r w' where c: "Call M f [ucast ptr] w = (r, w')" by (cases "Call M f [ucast ptr] w")
  with Call_calls [of M f "[ucast ptr]" w] have "calls w' = calls w @ [(f, [ucast ptr])]" by simp
  with Some c show ?thesis by (simp add: wasmFree_def split: sum.splits)
qed

lemma getFunction_module: "module (snd (getFunction M name p)) = module p"
  by (simp add: getFunction_def getFunction_locked_def split: option.splits)

lemma Parser_wasmFree_calls:
  "calls (module (snd (Parser_wasmFree M ptr p))) =
     calls (module p) @ (case fst (getFunction M ''free'' p) of
                  None \<Rightarrow> []
                | Some f \<Rightarrow> [(f, [ucast ptr])])"
proof -
  obtain g p0 where g: "getFunction M ''free'' p = (g, p0)" by (cases "getFunction M ''free'' p")
  with getFunction_module [of M "''free''" p] have m: "module p0 = module p" by simp
  show ?thesis
  proof (cases g)
    case None
    with g m show ?thesis by (simp add: Parser_wasmFree_def)
  next
    case (Some f)
    with g m Call_calls [of M f "[ucast ptr]" "module p"] show ?thesis
      by (simp add: Parser_wasmFree_def Parser_Call_alt split: sum.splits)
  qed
qed

section \<open>Release of a handle\<close>

lemma free_cleared: "cpointer (fst (free M u w)) = 0"
  by (simp add: free_def split: option.splits)

lemma free_of_cleared: "cpointer u = 0 \<Longrightarrow> free M u w = (u, w)"
  by (simp add: free_def)

lemma free_calls:
  "calls (snd (free M u w)) =
     calls w @ (if cpointer u = 0 then []
                else (case ExportedFunction M ''ada_free'' of
                        None \<Rightarrow> []
                      | Some adaFree \<Rightarrow> [(adaFree, [ucast (cpointer u)])]))"
  by (simp add: free_def Call_calls split: option.splits)

lemma free_count_le: "ada_free_count M (snd (free M u w)) \<le> ada_free_count M w + 1"
  by (auto simp add: ada_free_count_def free_calls split: option.splits)

lemma ada_free_cleared: "cpointer (fst (ada_free M u p)) = 0"
  by (simp add: ada_free_def split: option.splits prod.splits)

lemma ada_free_of_cleared: "cpointer u = 0 \<Longrightarrow> ada_free M u p = (u, p)"
  by (simp add: ada_free_def)

text \<open>
  C1. The first release of a handle, whether the explicit \<open>Free\<close> or the finalizer (\<open>free\<close>
  in the shared-instance variant, \<open>ada_free\<close> in the parser variant), leaves the handle's
  pointer field at the null sentinel 0, after at most one guest call: \<open>ada_free\<close> on the
  handle's pointer, when that pointer is not 0 and the export exists. Any later release attempt on that handle, explicit
  or by the finalizer and in whatever state \<open>w'\<close> the guest then is, returns the handle and
  the world untouched: nothing is called in the guest. Hence a handle freed twice adds
  nothing to the guest-side \<open>ada_free\<close> counter the second time, and at most one to it
  altogether.
\<close>

theorem release_clears_pointer_and_second_release_calls_nothing:
  "cpointer (fst (free M u w)) = 0
   \<and> cpointer (fst (Free M u w)) = 0
   \<and> calls (snd (Free M u w)) =
       calls w @ (if cpointer u = 0 then []
                  else (case ExportedFunction M ''ada_free'' of
                          None \<Rightarrow> []
                        | Some adaFree \<Rightarrow> [(adaFree, [ucast (cpointer u)])]))
   \<and> free M (fst (free M u w)) w' = (fst (free M u w), w')
   \<and> Free M (fst (free M u w)) w' = (fst (free M u w), w')
   \<and> free M (fst (Free M u w)) w' = (fst (Free M u w), w')
   \<and> Free M (fst (Free M u w)) w' = (fst (Free M u w), w')
   \<and> ada_free_count M (snd (Free M (fst (Free M u w)) (snd (Free M u w))))
       = ada_free_count M (snd (Free M u w))
   \<and> ada_free_count M (snd (Free M (fst (Free M u w)) (snd (Free M u w))))
       \<le> ada_free_count M w + 1
   \<and> cpointer (fst (ada_free M u p)) = 0
   \<and> cpointer (fst (Parser_Free M u p)) = 0
   \<and> ada_free M (fst (ada_free M u p)) p' = (fst (ada_free M u p), p')
   \<and> Parser_Free M (fst (ada_free M u p)) p' = (fst (ada_free M u p), p')
   \<and> ada_free M (fst (Parser_Free M u p)) p' = (fst (Parser_Free M u p), p')
   \<and> Parser_Free M (fst (Parser_Free M u p)) p' = (fst (Parser_Free M u p), p')"
  using free_count_le [of M u w] free_calls [of M u w]
  by (simp add: Free_def Parser_Free_def free_cleared free_of_cleared
        ada_free_cleared ada_free_of_cleared)

section \<open>Empty input\<close>

text \<open>
  C5. \<open>New\<close> on the empty string returns \<open>ErrEmptyString\<close> and no handle, whatever the
  module exports and whatever state the instance (and, in the parser variant, the function
  cache) is in; the state comes back unchanged, so nothing was called in the guest and
  nothing was written to its memory.
\<close>

theorem New_empty_string_is_ErrEmptyString:
  "New M [] w = (Inl ErrEmptyString, w) \<and> Parser_New M [] p = (Inl ErrEmptyString, p)"
  by (simp add: New_def Parser_New_def)

text \<open>
  C10. \<open>NewWithBase\<close> returns \<open>ErrEmptyString\<close> as soon as either the URL string or the base
  string is empty, in both variants, and returns the state unchanged: the guest is not
  called and its memory is not written.
\<close>

theorem NewWithBase_empty_string_is_ErrEmptyString:
  "urlstring = [] \<or> basestring = [] \<Longrightarrow>
     NewWithBase M urlstring basestring w = (Inl ErrEmptyString, w)
     \<and> Parser_NewWithBase M urlstring basestring p = (Inl ErrEmptyString, p)"
  by (auto simp add: NewWithBase_def Parser_NewWithBase_def)

theorem NewWithBase_empty_string_is_ErrEmptyString_witness:
  "(([104, 105] :: bytes) = [] \<or> ([] :: bytes) = [])
   \<and> NewWithBase td [104, 105] [] td_world = (Inl ErrEmptyString, td_world)
   \<and> Parser_NewWithBase td [104, 105] [] td_parser = (Inl ErrEmptyString, td_parser)
   \<and> (([] :: bytes) = [] \<or> ([104, 105] :: bytes) = [])
   \<and> NewWithBase td [] [104, 105] td_world = (Inl ErrEmptyString, td_world)
   \<and> Parser_NewWithBase td [] [104, 105] td_parser = (Inl ErrEmptyString, td_parser)"
proof -
  have h1: "([104, 105] :: bytes) = [] \<or> ([] :: bytes) = []" by simp
  have h2: "([] :: bytes) = [] \<or> ([104, 105] :: bytes) = []" by simp
  from NewWithBase_empty_string_is_ErrEmptyString [OF h1, of td td_world td_parser]
       NewWithBase_empty_string_is_ErrEmptyString [OF h2, of td td_world td_parser]
  show ?thesis by simp
qed

section \<open>Release of a guest allocation\<close>

text \<open>
  C7, as the code has it. \<open>wasmFree\<close> has no null check: for every pointer, the null
  sentinel 0 included, it invokes the guest's \<open>free\<close> export exactly once with that pointer
  whenever the export exists. It calls nothing only when the export is missing, and then
  returns the error "free function not found". In the parser variant the export is the
  one \<open>getFunction\<close> resolves.
\<close>

theorem wasmFree_calls_guest_free_for_every_pointer:
  "(ExportedFunction M ''free'' = Some f \<longrightarrow>
      calls (snd (wasmFree M ptr w)) = calls w @ [(f, [ucast ptr])]
      \<and> calls (snd (wasmFree M 0 w)) = calls w @ [(f, [0])])
   \<and> (ExportedFunction M ''free'' = None \<longrightarrow>
      wasmFree M ptr w = (Some (ErrorsNew ''free function not found''), w))
   \<and> (fst (getFunction M ''free'' p) = Some f \<longrightarrow>
      calls (module (snd (Parser_wasmFree M ptr p))) = calls (module p) @ [(f, [ucast ptr])]
      \<and> calls (module (snd (Parser_wasmFree M 0 p))) = calls (module p) @ [(f, [0])])
   \<and> (fst (getFunction M ''free'' p) = None \<longrightarrow>
      fst (Parser_wasmFree M ptr p) = Some (ErrorsNew ''free function not found'')
      \<and> module (snd (Parser_wasmFree M ptr p)) = module p)"
proof -
  have a: "fst (getFunction M ''free'' p) = None \<Longrightarrow>
      fst (Parser_wasmFree M ptr p) = Some (ErrorsNew ''free function not found'')"
    by (auto simp add: Parser_wasmFree_def split: prod.splits)
  have b: "fst (getFunction M ''free'' p) = None \<Longrightarrow>
      module (snd (Parser_wasmFree M ptr p)) = module p"
    using getFunction_module [of M "''free''" p]
    by (auto simp add: Parser_wasmFree_def split: prod.splits)
  have c: "ExportedFunction M ''free'' = None \<Longrightarrow>
      wasmFree M ptr w = (Some (ErrorsNew ''free function not found''), w)"
    by (simp add: wasmFree_def)
  show ?thesis
    using a b c wasmFree_calls [of M ptr w] wasmFree_calls [of M 0 w]
      Parser_wasmFree_calls [of M ptr p] Parser_wasmFree_calls [of M 0 p]
    by simp
qed

theorem wasmFree_calls_guest_free_for_every_pointer_witness:
  "ExportedFunction td ''free'' = Some 1
   \<and> calls (snd (wasmFree td 0 td_world)) = calls td_world @ [(1, [0])]
   \<and> fst (getFunction td ''free'' td_parser) = Some 1
   \<and> calls (module (snd (Parser_wasmFree td 0 td_parser))) = calls (module td_parser) @ [(1, [0])]
   \<and> ExportedFunction td_nofree ''free'' = None
   \<and> wasmFree td_nofree 0 td_world = (Some (ErrorsNew ''free function not found''), td_world)
   \<and> fst (getFunction td_nofree ''free'' td_parser) = None
   \<and> module (snd (Parser_wasmFree td_nofree 0 td_parser)) = module td_parser"
proof -
  have h1: "ExportedFunction td ''free'' = Some 1" by (simp add: td_def td_exports_def)
  have h2: "fst (getFunction td ''free'' td_parser) = Some 1"
    by (simp add: getFunction_def getFunction_locked_def td_parser_def td_def td_exports_def)
  have h3: "ExportedFunction td_nofree ''free'' = None" by (simp add: td_nofree_def)
  have h4: "fst (getFunction td_nofree ''free'' td_parser) = None"
    by (simp add: getFunction_def getFunction_locked_def td_parser_def td_nofree_def)
  from h1 h2 h3 h4
    wasmFree_calls_guest_free_for_every_pointer [of td 1 0 td_world td_parser]
    wasmFree_calls_guest_free_for_every_pointer [of td_nofree 1 0 td_world td_parser]
  show ?thesis by simp
qed

text \<open>
  C7 as the specification words it (no guest deallocator call for pointer zero) fails: on
  the test double, \<open>wasmFree\<close> of the null sentinel calls the guest's \<open>free\<close> (function 1)
  with argument 0, in both variants.
\<close>

theorem wasmFree_null_calls_guest_free:
  "calls td_world = []
   \<and> calls (snd (wasmFree td 0 td_world)) = [(1, [0])]
   \<and> calls (module (snd (Parser_wasmFree td 0 td_parser))) = [(1, [0])]"
  by (simp add: wasmFree_def Parser_wasmFree_def getFunction_def getFunction_locked_def
        Parser_Call_alt Call_def td_def td_exports_def td_run_def td_world_def td_parser_def)

section \<open>The parser variant does what the shared-instance variant does\<close>

text \<open>
  With a sound cache, \<open>getFunction\<close> answers as the export table does, and every operation
  of the parser variant returns the same value and leaves the same world as its
  shared-instance counterpart run on the parser's instance.
\<close>

lemma corresponds_from:
  "funcCache p \<subseteq>\<^sub>m funcCache p1 \<Longrightarrow> corresponds M p1 X Y \<Longrightarrow> corresponds M p X Y"
  by (auto simp add: corresponds_def intro: map_le_trans)

lemma getFunction_ok:
  assumes "cache_ok M p"
  shows "corresponds M p (getFunction M name p) (ExportedFunction M name, module p)"
proof (cases "funcCache p name")
  case None
  then have "funcCache p \<subseteq>\<^sub>m (funcCache p)(name \<mapsto> fn)" for fn
    by (auto simp add: map_le_def)
  moreover have "ExportedFunction M name = Some fn \<Longrightarrow>
      (funcCache p)(name \<mapsto> fn) \<subseteq>\<^sub>m ExportedFunction M" for fn
    using assms by (auto simp add: cache_ok_def map_le_def)
  ultimately show ?thesis
    using None assms
    by (auto simp add: getFunction_def getFunction_locked_def corresponds_def cache_ok_def
          split: option.splits)
next
  case (Some fn)
  with assms have "ExportedFunction M name = Some fn"
    by (auto simp add: cache_ok_def map_le_def dom_def)
  with Some assms show ?thesis
    by (simp add: getFunction_def corresponds_def)
qed

lemma getFunction_okE:
  assumes "cache_ok M p"
  obtains p0 where "getFunction M name p = (ExportedFunction M name, p0)"
    and "module p0 = module p" and "cache_ok M p0" and "funcCache p \<subseteq>\<^sub>m funcCache p0"
  using getFunction_ok [OF assms, of name]
  by (cases "getFunction M name p") (auto simp add: corresponds_def)

lemma Parser_Call_ok:
  "cache_ok M p \<Longrightarrow> corresponds M p (Parser_Call M fn args p) (Call M fn args (module p))"
  by (simp add: Parser_Call_def corresponds_def cache_ok_def split: prod.splits)

lemma Parser_wasmMalloc_ok:
  assumes "cache_ok M p"
  shows "corresponds M p (Parser_wasmMalloc M sz p) (wasmMalloc M sz (module p))"
proof -
  obtain p0 where g: "getFunction M ''malloc'' p = (ExportedFunction M ''malloc'', p0)"
    and m: "module p0 = module p" and c: "cache_ok M p0" and l: "funcCache p \<subseteq>\<^sub>m funcCache p0"
    using assms by (rule getFunction_okE)
  show ?thesis
    using g m c l
    by (auto simp add: Parser_wasmMalloc_def wasmMalloc_def Parser_Call_def corresponds_def
          cache_ok_def split: option.splits prod.splits sum.splits list.splits)
qed

lemma Parser_wasmFree_ok:
  assumes "cache_ok M p"
  shows "corresponds M p (Parser_wasmFree M ptr p) (wasmFree M ptr (module p))"
proof -
  obtain p0 where g: "getFunction M ''free'' p = (ExportedFunction M ''free'', p0)"
    and m: "module p0 = module p" and c: "cache_ok M p0" and l: "funcCache p \<subseteq>\<^sub>m funcCache p0"
    using assms by (rule getFunction_okE)
  show ?thesis
    using g m c l
    by (auto simp add: Parser_wasmFree_def wasmFree_def Parser_Call_def corresponds_def
          cache_ok_def split: option.splits prod.splits sum.splits list.splits)
qed

lemma correspondsE:
  assumes "corresponds M p X Y"
  obtains r p' where "X = (r, p')" and "Y = (r, module p')" and "cache_ok M p'"
    and "funcCache p \<subseteq>\<^sub>m funcCache p'"
  using assms by (cases X; cases Y) (auto simp add: corresponds_def)

lemma Parser_writeStringToWasm_ok:
  assumes "cache_ok M p"
  shows "corresponds M p (Parser_writeStringToWasm M s p) (writeStringToWasm M s (module p))"
proof (cases "length s = 0")
  case True
  with assms show ?thesis
    by (simp add: Parser_writeStringToWasm_def writeStringToWasm_def corresponds_def)
next
  case False
  from Parser_wasmMalloc_ok [OF assms, of "of_nat (length s)"]
  obtain r p' where x: "Parser_wasmMalloc M (of_nat (length s)) p = (r, p')"
    and y: "wasmMalloc M (of_nat (length s)) (module p) = (r, module p')"
    and c: "cache_ok M p'" and l: "funcCache p \<subseteq>\<^sub>m funcCache p'"
    by (rule correspondsE)
  show ?thesis
  proof (cases r)
    case (Inl err)
    with False x y c l show ?thesis
      by (simp add: Parser_writeStringToWasm_def writeStringToWasm_def corresponds_def)
  next
    case (Inr ptr)
    show ?thesis
    proof (cases "Memory_Write (module p') ptr s")
      case None
      from Parser_wasmFree_ok [OF c, of ptr] l
      have "corresponds M p (Parser_wasmFree M ptr p') (wasmFree M ptr (module p'))"
        by (rule corresponds_from [rotated])
      with None Inr False x y show ?thesis
        by (simp add: Parser_writeStringToWasm_def writeStringToWasm_def corresponds_def)
    next
      case (Some w'')
      with Inr False x y c l show ?thesis
        by (simp add: Parser_writeStringToWasm_def writeStringToWasm_def corresponds_def
              cache_ok_def)
    qed
  qed
qed


lemma corresponds_fst: "corresponds M p X Y \<Longrightarrow> fst X = fst Y"
  by (simp add: corresponds_def)
lemma corresponds_module: "corresponds M p X Y \<Longrightarrow> module (snd X) = snd Y"
  by (simp add: corresponds_def)
lemma corresponds_cache_ok: "corresponds M p X Y \<Longrightarrow> cache_ok M (snd X)"
  by (simp add: corresponds_def)
lemma corresponds_mono:
  "corresponds M p X Y \<Longrightarrow> funcCache q \<subseteq>\<^sub>m funcCache p \<Longrightarrow> funcCache q \<subseteq>\<^sub>m funcCache (snd X)"
  by (auto simp add: corresponds_def intro: map_le_trans)

lemmas getFunction_proj =
  getFunction_ok [THEN corresponds_fst, simplified]
  getFunction_ok [THEN corresponds_module, simplified]
  getFunction_ok [THEN corresponds_cache_ok]
  getFunction_ok [THEN corresponds_mono]

lemmas Parser_Call_proj =
  Parser_Call_ok [THEN corresponds_fst]
  Parser_Call_ok [THEN corresponds_module]
  Parser_Call_ok [THEN corresponds_cache_ok]
  Parser_Call_ok [THEN corresponds_mono]

lemmas Parser_wasmMalloc_proj =
  Parser_wasmMalloc_ok [THEN corresponds_fst]
  Parser_wasmMalloc_ok [THEN corresponds_module]
  Parser_wasmMalloc_ok [THEN corresponds_cache_ok]
  Parser_wasmMalloc_ok [THEN corresponds_mono]

lemmas Parser_wasmFree_proj =
  Parser_wasmFree_ok [THEN corresponds_fst]
  Parser_wasmFree_ok [THEN corresponds_module]
  Parser_wasmFree_ok [THEN corresponds_cache_ok]
  Parser_wasmFree_ok [THEN corresponds_mono]

lemmas Parser_writeStringToWasm_proj =
  Parser_writeStringToWasm_ok [THEN corresponds_fst]
  Parser_writeStringToWasm_ok [THEN corresponds_module]
  Parser_writeStringToWasm_ok [THEN corresponds_cache_ok]
  Parser_writeStringToWasm_ok [THEN corresponds_mono]


lemma Parser_readAdaString_ok:
  assumes "cache_ok M p"
  shows "corresponds M p (Parser_readAdaString M fn urlPtr p) (readAdaString M fn urlPtr (module p))"
  using assms
  unfolding corresponds_def Parser_readAdaString_def readAdaString_def
  by (simp add: case_prod_beta Let_def Parser_wasmMalloc_proj Parser_Call_proj Parser_wasmFree_proj
        split: sum.split option.split)

lemma Parser_callAdaBoolFunction_ok:
  assumes "cache_ok M p"
  shows "corresponds M p (Parser_callAdaBoolFunction M name urlPtr p)
           (callAdaBoolFunction M name urlPtr (module p))"
  using assms
  unfolding corresponds_def Parser_callAdaBoolFunction_def callAdaBoolFunction_def
  by (simp add: case_prod_beta Let_def getFunction_proj Parser_Call_proj
        split: sum.split option.split list.split)


lemmas Parser_readAdaString_proj =
  Parser_readAdaString_ok [THEN corresponds_fst]
  Parser_readAdaString_ok [THEN corresponds_module]
  Parser_readAdaString_ok [THEN corresponds_cache_ok]
  Parser_readAdaString_ok [THEN corresponds_mono]

lemmas Parser_callAdaBoolFunction_proj =
  Parser_callAdaBoolFunction_ok [THEN corresponds_fst]
  Parser_callAdaBoolFunction_ok [THEN corresponds_module]
  Parser_callAdaBoolFunction_ok [THEN corresponds_cache_ok]
  Parser_callAdaBoolFunction_ok [THEN corresponds_mono]

lemma ada_free_ok:
  assumes "cache_ok M p"
  shows "corresponds M p (ada_free M u p) (free M u (module p))"
  using assms
  unfolding corresponds_def ada_free_def free_def
  by (simp add: case_prod_beta getFunction_proj Parser_Call_proj split: option.split)

lemma Parser_New_ok:
  assumes "cache_ok M p"
  shows "corresponds M p (Parser_New M s p) (New M s (module p))"
  using assms
  unfolding corresponds_def Parser_New_def New_def
  by (simp add: case_prod_beta Let_def getFunction_proj Parser_Call_proj
        Parser_writeStringToWasm_proj Parser_callAdaBoolFunction_proj Parser_wasmFree_proj
        split: sum.split option.split list.split bool.split)

lemma Parser_NewWithBase_ok:
  assumes "cache_ok M p"
  shows "corresponds M p (Parser_NewWithBase M s b p) (NewWithBase M s b (module p))"
  using assms
  unfolding corresponds_def Parser_NewWithBase_def NewWithBase_def
  by (simp add: case_prod_beta Let_def getFunction_proj Parser_Call_proj
        Parser_writeStringToWasm_proj Parser_callAdaBoolFunction_proj Parser_wasmFree_proj
        split: sum.split option.split list.split bool.split)

lemma Parser_accessor_ok:
  assumes "cache_ok M p"
  shows "corresponds M p (Parser_accessor M a u p) (Url_accessor M a u (module p))"
  using assms
  unfolding corresponds_def Parser_accessor_def Url_accessor_def
  by (simp add: case_prod_beta getFunction_proj Parser_readAdaString_proj
        split: sum.split option.split)

lemma callSetterBool_ok:
  assumes "cache_ok M p"
  shows "corresponds M p (callSetterBool M name v u p) (allSetterBoolWithLock M name v u (module p))"
  using assms
  unfolding corresponds_def callSetterBool_def allSetterBoolWithLock_def
  by (simp add: case_prod_beta Let_def getFunction_proj Parser_Call_proj
        Parser_writeStringToWasm_proj Parser_wasmFree_proj
        split: sum.split option.split list.split)

lemma callSetterVoid_ok:
  assumes "cache_ok M p"
  shows "corresponds M p (callSetterVoid M name v u p) (callSetterVoidWithLock M name v u (module p))"
  using assms
  unfolding corresponds_def callSetterVoid_def callSetterVoidWithLock_def
  by (simp add: case_prod_beta Let_def getFunction_proj Parser_Call_proj
        Parser_writeStringToWasm_proj Parser_wasmFree_proj
        split: sum.split option.split list.split)


section \<open>Writing a string into guest memory\<close>

lemma wasmMalloc_calls:
  "calls (snd (wasmMalloc M sz w)) =
     calls w @ (case ExportedFunction M ''malloc'' of
                  None \<Rightarrow> []
                | Some f \<Rightarrow> [(f, [ucast sz])])"
proof (cases "ExportedFunction M ''malloc''")
  case None
  then show ?thesis by (simp add: wasmMalloc_def)
next
  case (Some f)
  obtain r w' where c: "Call M f [ucast sz] w = (r, w')" by (cases "Call M f [ucast sz] w")
  with Call_calls [of M f "[ucast sz]" w] have "calls w' = calls w @ [(f, [ucast sz])]" by simp
  with Some c show ?thesis by (simp add: wasmMalloc_def split: sum.splits list.splits)
qed

lemma Memory_Write_calls: "Memory_Write w ptr s = Some w' \<Longrightarrow> calls w' = calls w"
  by (auto simp add: Memory_Write_def split: if_splits)

lemma Memory_Write_SomeD:
  assumes "Memory_Write w ptr s = Some w'"
  shows "unat ptr + length s \<le> length (memory (inst w))"
    and "memory (inst w') =
           take (unat ptr) (memory (inst w)) @ s @ drop (unat ptr + length s) (memory (inst w))"
    and "internals (inst w') = internals (inst w)"
    and "calls w' = calls w"
    and "length (memory (inst w')) = length (memory (inst w))"
    and "take (length s) (drop (unat ptr) (memory (inst w'))) = s"
  using assms by (auto simp add: Memory_Write_def split: if_splits)

lemma Memory_Read_after_Write:
  assumes "Memory_Write w ptr s = Some w'" and "length s < 2 ^ 32"
  shows "Memory_Read w' ptr (of_nat (length s)) = Some s"
proof -
  from assms(2) have u: "unat (of_nat (length s) :: u32) = length s"
    by (simp add: unat_of_nat)
  from Memory_Write_SomeD(1,5,6) [OF assms(1)] u show ?thesis
    by (simp add: Memory_Read_def)
qed

lemma writeStringToWasm_first_call:
  assumes "s \<noteq> []" and "ExportedFunction M ''malloc'' = Some malloc"
  shows "take (Suc (length (calls w))) (calls (snd (writeStringToWasm M s w))) =
           calls w @ [(malloc, [ucast (of_nat (length s) :: u32)])]"
proof -
  obtain r w1 where m: "wasmMalloc M (of_nat (length s)) w = (r, w1)"
    by (cases "wasmMalloc M (of_nat (length s)) w")
  with wasmMalloc_calls [of M "of_nat (length s)" w] assms(2)
  have c1: "calls w1 = calls w @ [(malloc, [ucast (of_nat (length s) :: u32)])]" by simp
  show ?thesis
  proof (cases r)
    case (Inl err)
    with m c1 assms(1) show ?thesis by (simp add: writeStringToWasm_def)
  next
    case (Inr ptr)
    show ?thesis
    proof (cases "Memory_Write w1 ptr s")
      case None
      with Inr m c1 assms(1) wasmFree_calls [of M ptr w1] show ?thesis
        by (simp add: writeStringToWasm_def)
    next
      case (Some w'')
      with Inr m c1 assms(1) Memory_Write_calls [OF Some] show ?thesis
        by (simp add: writeStringToWasm_def)
    qed
  qed
qed

lemma writeStringToWasm_success:
  assumes "s \<noteq> []" and "writeStringToWasm M s w = (Inr ptr, w')"
  shows "\<exists>w1. wasmMalloc M (of_nat (length s)) w = (Inr ptr, w1) \<and> Memory_Write w1 ptr s = Some w'"
  using assms
  by (auto simp add: writeStringToWasm_def split: prod.splits sum.splits option.splits)

lemma writeStringToWasm_write_failure:
  assumes "s \<noteq> []" and "wasmMalloc M (of_nat (length s)) w = (Inr ptr, w1)"
    and "Memory_Write w1 ptr s = None"
  shows "writeStringToWasm M s w =
           (Inl (ErrorsNew ''failed to write string to WASM memory''), snd (wasmFree M ptr w1))"
  using assms by (simp add: writeStringToWasm_def)

lemma wasmMalloc_from_call:
  assumes "ExportedFunction M ''malloc'' = Some malloc"
    and "Call M malloc [ucast sz] w = (Inr (r # rs), w1)"
  shows "wasmMalloc M sz w = (Inr (ucast r), w1)"
  using assms by (simp add: wasmMalloc_def)

lemma writeStringToWasm_copies:
  assumes "s \<noteq> []" and "wasmMalloc M (of_nat (length s)) w = (Inr ptr, w1)"
    and "unat ptr + length s \<le> length (memory (inst w1))"
  shows "writeStringToWasm M s w =
           (Inr ptr, w1\<lparr>inst := (inst w1)\<lparr>memory :=
              take (unat ptr) (memory (inst w1)) @ s @
              drop (unat ptr + length s) (memory (inst w1))\<rparr>\<rparr>)"
    and "Memory_Write w1 ptr s = Some (snd (writeStringToWasm M s w))"
  using assms by (simp_all add: writeStringToWasm_def Memory_Write_def)

lemma writeStringToWasm_range_outside:
  assumes "s \<noteq> []" and "wasmMalloc M (of_nat (length s)) w = (Inr ptr, w1)"
    and "length (memory (inst w1)) < unat ptr + length s"
  shows "writeStringToWasm M s w =
           (Inl (ErrorsNew ''failed to write string to WASM memory''), snd (wasmFree M ptr w1))"
  using assms by (simp add: writeStringToWasm_def Memory_Write_def)

lemma writeStringToWasm_malloc_fails:
  assumes "s \<noteq> []" and "wasmMalloc M (of_nat (length s)) w = (Inl err, w1)"
  shows "writeStringToWasm M s w = (Inl err, w1)"
  using assms by (simp add: writeStringToWasm_def)

text \<open>
  C3 as the specification words it (exactly \<open>len(s)\<close> bytes are allocated) fails for a
  string of 2^32 + 1 bytes: \<open>uint32(len(s))\<close> is 1, so the guest allocator (function 0 of the
  test double) is asked for one byte; the write of the whole string then fails and the
  block is released (function 1).
\<close>

theorem writeStringToWasm_long_string_asks_for_one_byte:
  "length (replicate 4294967297 (97 :: 8 word)) = 4294967297
   \<and> ExportedFunction td ''malloc'' = Some 0
   \<and> calls (snd (writeStringToWasm td (replicate 4294967297 97) td_world)) = [(0, [1]), (1, [8])]"
  by (simp add: writeStringToWasm_def wasmMalloc_def wasmFree_def Call_def Memory_Write_def
        td_def td_exports_def td_run_def td_world_def)


text \<open>
  C3, as the code has it. \<open>writeStringToWasm\<close> on the empty string returns the null sentinel
  and leaves the state as it was (nothing is called). On a non-empty string \<open>s\<close> the first
  guest call is \<open>malloc\<close> with the size \<open>uint32(len(s))\<close>, that is \<open>len(s)\<close> modulo 2^32: exactly
  \<open>len(s)\<close> whenever the string is shorter than 2^32 bytes. The allocation then determines
  the result. If it fails, its error is returned and nothing is written. If it returns a
  pointer and the \<open>len(s)\<close> bytes at that pointer lie inside the memory, the pointer is
  returned and the world is the world after the allocation with the bytes of \<open>s\<close>, and
  nothing else (no terminator), copied over that range, so that reading \<open>len(s)\<close> bytes back
  at the pointer gives \<open>s\<close>; in particular this is what happens when the guest's \<open>malloc\<close>
  answers with that pointer as its first result word. If the range does not lie inside the
  memory, the write fails and the error is returned after \<open>wasmFree\<close> ran on the block just
  allocated, which is the one guest call after the allocation when \<open>free\<close> is exported.
  Conversely, whenever a pointer is returned, the allocation returned it, the range was
  inside the memory, and the memory is the one described: its size, the guest's state and
  the call log are as the allocation left them. The parser variant returns the same value
  and leaves the same world.
\<close>

theorem writeStringToWasm_allocates_truncated_length_and_copies:
  "writeStringToWasm M [] w = (Inr 0, w)
   \<and> Parser_writeStringToWasm M [] p = (Inr 0, p)
   \<and> (s \<noteq> [] \<longrightarrow> ExportedFunction M ''malloc'' = Some malloc \<longrightarrow>
        take (Suc (length (calls w))) (calls (snd (writeStringToWasm M s w))) =
          calls w @ [(malloc, [ucast (of_nat (length s) :: u32)])]
        \<and> unat (of_nat (length s) :: u32) = length s mod 2 ^ 32)
   \<and> (s \<noteq> [] \<longrightarrow> writeStringToWasm M s w = (Inr ptr, w') \<longrightarrow>
        (\<exists>w1. wasmMalloc M (of_nat (length s)) w = (Inr ptr, w1)
              \<and> unat ptr + length s \<le> length (memory (inst w1))
              \<and> memory (inst w') =
                  take (unat ptr) (memory (inst w1)) @ s @
                  drop (unat ptr + length s) (memory (inst w1))
              \<and> internals (inst w') = internals (inst w1)
              \<and> calls w' = calls w1)
        \<and> take (length s) (drop (unat ptr) (memory (inst w'))) = s
        \<and> (length s < 2 ^ 32 \<longrightarrow> Memory_Read w' ptr (of_nat (length s)) = Some s))
   \<and> (s \<noteq> [] \<longrightarrow> wasmMalloc M (of_nat (length s)) w = (Inr ptr, w1) \<longrightarrow>
        Memory_Write w1 ptr s = None \<longrightarrow>
        writeStringToWasm M s w =
          (Inl (ErrorsNew ''failed to write string to WASM memory''), snd (wasmFree M ptr w1))
        \<and> calls (snd (writeStringToWasm M s w)) =
            calls w1 @ (case ExportedFunction M ''free'' of
                          None \<Rightarrow> []
                        | Some f \<Rightarrow> [(f, [ucast ptr])]))
   \<and> (cache_ok M p \<longrightarrow>
        fst (Parser_writeStringToWasm M s p) = fst (writeStringToWasm M s (module p))
        \<and> module (snd (Parser_writeStringToWasm M s p)) = snd (writeStringToWasm M s (module p)))
   \<and> (s \<noteq> [] \<longrightarrow> wasmMalloc M (of_nat (length s)) w = (Inr ptr, w1) \<longrightarrow>
        unat ptr + length s \<le> length (memory (inst w1)) \<longrightarrow>
        writeStringToWasm M s w =
          (Inr ptr, w1\<lparr>inst := (inst w1)\<lparr>memory :=
             take (unat ptr) (memory (inst w1)) @ s @
             drop (unat ptr + length s) (memory (inst w1))\<rparr>\<rparr>)
        \<and> (length s < 2 ^ 32 \<longrightarrow>
             Memory_Read (snd (writeStringToWasm M s w)) ptr (of_nat (length s)) = Some s))
   \<and> (s \<noteq> [] \<longrightarrow> wasmMalloc M (of_nat (length s)) w = (Inr ptr, w1) \<longrightarrow>
        length (memory (inst w1)) < unat ptr + length s \<longrightarrow>
        writeStringToWasm M s w =
          (Inl (ErrorsNew ''failed to write string to WASM memory''), snd (wasmFree M ptr w1)))
   \<and> (s \<noteq> [] \<longrightarrow> wasmMalloc M (of_nat (length s)) w = (Inl err, w1) \<longrightarrow>
        writeStringToWasm M s w = (Inl err, w1))
   \<and> (s \<noteq> [] \<longrightarrow> ExportedFunction M ''malloc'' = Some malloc \<longrightarrow>
        Call M malloc [ucast (of_nat (length s) :: u32)] w = (Inr (r # rs), w2) \<longrightarrow>
        unat (ucast r :: u32) + length s \<le> length (memory (inst w2)) \<longrightarrow>
        writeStringToWasm M s w =
          (Inr (ucast r), w2\<lparr>inst := (inst w2)\<lparr>memory :=
             take (unat (ucast r :: u32)) (memory (inst w2)) @ s @
             drop (unat (ucast r :: u32) + length s) (memory (inst w2))\<rparr>\<rparr>))"
proof -
  have a: "writeStringToWasm M [] w = (Inr 0, w)" by (simp add: writeStringToWasm_def)
  have a': "Parser_writeStringToWasm M [] p = (Inr 0, p)"
    by (simp add: Parser_writeStringToWasm_def)
  have b: "unat (of_nat (length s) :: u32) = length s mod 2 ^ 32"
    by (simp add: unat_of_nat)
  have c: "\<exists>w1. wasmMalloc M (of_nat (length s)) w = (Inr ptr, w1)
              \<and> unat ptr + length s \<le> length (memory (inst w1))
              \<and> memory (inst w') =
                  take (unat ptr) (memory (inst w1)) @ s @
                  drop (unat ptr + length s) (memory (inst w1))
              \<and> internals (inst w') = internals (inst w1)
              \<and> calls w' = calls w1"
    and d: "take (length s) (drop (unat ptr) (memory (inst w'))) = s"
    and e: "length s < 2 ^ 32 \<Longrightarrow> Memory_Read w' ptr (of_nat (length s)) = Some s"
    if "s \<noteq> []" and "writeStringToWasm M s w = (Inr ptr, w')"
  proof -
    from writeStringToWasm_success [OF that] obtain w1
      where m: "wasmMalloc M (of_nat (length s)) w = (Inr ptr, w1)"
        and wr: "Memory_Write w1 ptr s = Some w'" by blast
    from m Memory_Write_SomeD(1-4) [OF wr]
    show "\<exists>w1. wasmMalloc M (of_nat (length s)) w = (Inr ptr, w1)
              \<and> unat ptr + length s \<le> length (memory (inst w1))
              \<and> memory (inst w') =
                  take (unat ptr) (memory (inst w1)) @ s @
                  drop (unat ptr + length s) (memory (inst w1))
              \<and> internals (inst w') = internals (inst w1)
              \<and> calls w' = calls w1"
      by blast
    from wr show "take (length s) (drop (unat ptr) (memory (inst w'))) = s"
      by (rule Memory_Write_SomeD)
    show "Memory_Read w' ptr (of_nat (length s)) = Some s" if "length s < 2 ^ 32"
      using wr that by (rule Memory_Read_after_Write)
  qed
  have f: "writeStringToWasm M s w =
          (Inl (ErrorsNew ''failed to write string to WASM memory''), snd (wasmFree M ptr w1))"
    and g: "calls (snd (writeStringToWasm M s w)) =
            calls w1 @ (case ExportedFunction M ''free'' of
                          None \<Rightarrow> []
                        | Some f \<Rightarrow> [(f, [ucast ptr])])"
    if "s \<noteq> []" and "wasmMalloc M (of_nat (length s)) w = (Inr ptr, w1)"
      and "Memory_Write w1 ptr s = None"
    using writeStringToWasm_write_failure [OF that] wasmFree_calls [of M ptr w1] by simp_all
  note h = Parser_writeStringToWasm_proj(1,2) [of M p s]
  have i: "writeStringToWasm M s w =
          (Inr ptr, w1\<lparr>inst := (inst w1)\<lparr>memory :=
             take (unat ptr) (memory (inst w1)) @ s @
             drop (unat ptr + length s) (memory (inst w1))\<rparr>\<rparr>)"
    and j: "length s < 2 ^ 32 \<Longrightarrow>
             Memory_Read (snd (writeStringToWasm M s w)) ptr (of_nat (length s)) = Some s"
    if "s \<noteq> []" and "wasmMalloc M (of_nat (length s)) w = (Inr ptr, w1)"
      and "unat ptr + length s \<le> length (memory (inst w1))"
  proof -
    show "writeStringToWasm M s w =
          (Inr ptr, w1\<lparr>inst := (inst w1)\<lparr>memory :=
             take (unat ptr) (memory (inst w1)) @ s @
             drop (unat ptr + length s) (memory (inst w1))\<rparr>\<rparr>)"
      using that by (rule writeStringToWasm_copies(1))
    show "Memory_Read (snd (writeStringToWasm M s w)) ptr (of_nat (length s)) = Some s"
      if "length s < 2 ^ 32"
      using writeStringToWasm_copies(2) [OF \<open>s \<noteq> []\<close> \<open>wasmMalloc M (of_nat (length s)) w = (Inr ptr, w1)\<close>
          \<open>unat ptr + length s \<le> length (memory (inst w1))\<close>] that
      by (rule Memory_Read_after_Write)
  qed
  have k: "writeStringToWasm M s w =
          (Inl (ErrorsNew ''failed to write string to WASM memory''), snd (wasmFree M ptr w1))"
    if "s \<noteq> []" and "wasmMalloc M (of_nat (length s)) w = (Inr ptr, w1)"
      and "length (memory (inst w1)) < unat ptr + length s"
    using that by (rule writeStringToWasm_range_outside)
  have l: "writeStringToWasm M s w = (Inl err, w1)"
    if "s \<noteq> []" and "wasmMalloc M (of_nat (length s)) w = (Inl err, w1)"
    using that by (rule writeStringToWasm_malloc_fails)
  have m: "writeStringToWasm M s w =
          (Inr (ucast r), w2\<lparr>inst := (inst w2)\<lparr>memory :=
             take (unat (ucast r :: u32)) (memory (inst w2)) @ s @
             drop (unat (ucast r :: u32) + length s) (memory (inst w2))\<rparr>\<rparr>)"
    if "s \<noteq> []" and "ExportedFunction M ''malloc'' = Some malloc"
      and "Call M malloc [ucast (of_nat (length s) :: u32)] w = (Inr (r # rs), w2)"
      and "unat (ucast r :: u32) + length s \<le> length (memory (inst w2))"
    using that(1) wasmMalloc_from_call [OF that(2,3)] that(4)
    by (rule writeStringToWasm_copies(1))
  show ?thesis
    apply (intro conjI impI)
    using a apply blast
    using a' apply blast
    using writeStringToWasm_first_call [of s M malloc w] apply blast
    using b apply blast
    using c apply blast
    using d apply blast
    using e apply blast
    using f apply blast
    using g apply blast
    using h apply blast
    using h apply blast
    using i apply blast
    using j apply blast
    using k apply blast
    using l apply blast
    using m apply blast
    done
qed


theorem writeStringToWasm_allocates_truncated_length_and_copies_witness:
  "([104, 105] :: bytes) \<noteq> []
   \<and> ExportedFunction td ''malloc'' = Some 0
   \<and> length ([104, 105] :: bytes) < 2 ^ 32
   \<and> cache_ok td td_parser
   \<and> writeStringToWasm td [104, 105] td_world =
       (Inr 8, \<lparr>inst = \<lparr>memory = [0, 7, 9, 0, 0, 0, 0, 0, 104, 105, 0, 0, 0, 0, 0, 0],
                        internals = 10\<rparr>,
                 calls = [(0, [2])]\<rparr>)
   \<and> Memory_Read \<lparr>inst = \<lparr>memory = [0, 7, 9, 0, 0, 0, 0, 0, 104, 105, 0, 0, 0, 0, 0, 0],
                           internals = 10 :: u32\<rparr>,
                    calls = [(0, [2])]\<rparr> 8 2 = Some [104, 105]
   \<and> fst (Parser_writeStringToWasm td [104, 105] td_parser) = Inr 8
   \<and> ([1, 2, 3, 4, 5, 6, 7, 8, 9] :: bytes) \<noteq> []
   \<and> wasmMalloc td 9 td_world =
       (Inr 8, \<lparr>inst = \<lparr>memory = [0, 7, 9, 0, 0, 0, 0, 0, 0, 0, 0, 0, 0, 0, 0, 0],
                        internals = 17\<rparr>,
                 calls = [(0, [9])]\<rparr>)
   \<and> Memory_Write \<lparr>inst = \<lparr>memory = [0, 7, 9, 0, 0, 0, 0, 0, 0, 0, 0, 0, 0, 0, 0, 0],
                            internals = 17 :: u32\<rparr>,
                     calls = [(0, [9])]\<rparr> 8 [1, 2, 3, 4, 5, 6, 7, 8, 9] = None
   \<and> fst (writeStringToWasm td [1, 2, 3, 4, 5, 6, 7, 8, 9] td_world) =
       Inl (ErrorsNew ''failed to write string to WASM memory'')
   \<and> calls (snd (writeStringToWasm td [1, 2, 3, 4, 5, 6, 7, 8, 9] td_world)) =
       [(0, [9]), (1, [8])]
   \<and> ([104, 101, 108, 108, 111] :: bytes) \<noteq> []
   \<and> length ([104, 101, 108, 108, 111] :: bytes) < 2 ^ 32
   \<and> Call td 0 [5] td_world =
       (Inr [8], \<lparr>inst = \<lparr>memory = [0, 7, 9, 0, 0, 0, 0, 0, 0, 0, 0, 0, 0, 0, 0, 0],
                          internals = 13\<rparr>,
                   calls = [(0, [5])]\<rparr>)
   \<and> wasmMalloc td 5 td_world =
       (Inr 8, \<lparr>inst = \<lparr>memory = [0, 7, 9, 0, 0, 0, 0, 0, 0, 0, 0, 0, 0, 0, 0, 0],
                        internals = 13\<rparr>,
                 calls = [(0, [5])]\<rparr>)
   \<and> writeStringToWasm td [104, 101, 108, 108, 111] td_world =
       (Inr 8, \<lparr>inst = \<lparr>memory = [0, 7, 9, 0, 0, 0, 0, 0, 104, 101, 108, 108, 111, 0, 0, 0],
                        internals = 13\<rparr>,
                 calls = [(0, [5])]\<rparr>)
   \<and> Memory_Read (snd (writeStringToWasm td [104, 101, 108, 108, 111] td_world)) 8 5 =
       Some [104, 101, 108, 108, 111]
   \<and> snd (wasmFree td 8 \<lparr>inst = \<lparr>memory = [0, 7, 9, 0, 0, 0, 0, 0, 0, 0, 0, 0, 0, 0, 0, 0],
                                  internals = 17 :: u32\<rparr>,
                           calls = [(0, [9])]\<rparr>) =
       \<lparr>inst = \<lparr>memory = [0, 7, 9, 0, 0, 0, 0, 0, 0, 0, 0, 0, 0, 0, 0, 0], internals = 17\<rparr>,
        calls = [(0, [9]), (1, [8])]\<rparr>
   \<and> writeStringToWasm td [1, 2, 3, 4, 5, 6, 7, 8, 9] td_world =
       (Inl (ErrorsNew ''failed to write string to WASM memory''),
        \<lparr>inst = \<lparr>memory = [0, 7, 9, 0, 0, 0, 0, 0, 0, 0, 0, 0, 0, 0, 0, 0], internals = 17\<rparr>,
         calls = [(0, [9]), (1, [8])]\<rparr>)
   \<and> wasmMalloc \<lparr>ExportedFunction = (\<lambda>name. None), run = td_run\<rparr> 5 td_world =
       (Inl (ErrorsNew ''malloc function not found''), td_world)
   \<and> writeStringToWasm \<lparr>ExportedFunction = (\<lambda>name. None), run = td_run\<rparr>
         [104, 101, 108, 108, 111] td_world =
       (Inl (ErrorsNew ''malloc function not found''), td_world)"
proof -
  let ?w' = "\<lparr>inst = \<lparr>memory = [0, 7, 9, 0, 0, 0, 0, 0, 104, 105, 0, 0, 0, 0, 0, 0],
                         internals = 10 :: u32\<rparr>,
                  calls = [(0, [2])]\<rparr>"
  let ?w1 = "\<lparr>inst = \<lparr>memory = [0, 7, 9, 0, 0, 0, 0, 0, 0, 0, 0, 0, 0, 0, 0, 0],
                         internals = 17 :: u32\<rparr>,
                  calls = [(0, [9])]\<rparr>"
  let ?w5 = "\<lparr>inst = \<lparr>memory = [0, 7, 9, 0, 0, 0, 0, 0, 0, 0, 0, 0, 0, 0, 0, 0],
                         internals = 13 :: u32\<rparr>,
                  calls = [(0, [5])]\<rparr>"
  let ?wf = "\<lparr>inst = \<lparr>memory = [0, 7, 9, 0, 0, 0, 0, 0, 0, 0, 0, 0, 0, 0, 0, 0],
                         internals = 17 :: u32\<rparr>,
                  calls = [(0, [9]), (1, [8])]\<rparr>"
  let ?hello = "[104, 101, 108, 108, 111] :: bytes"
  let ?nine = "[1, 2, 3, 4, 5, 6, 7, 8, 9] :: bytes"
  let ?N = "\<lparr>ExportedFunction = (\<lambda>name. None), run = td_run\<rparr> :: u32 Module"
  have h1: "ExportedFunction td ''malloc'' = Some 0" by (simp add: td_defs)
  have h2: "writeStringToWasm td [104, 105] td_world = (Inr 8, ?w')"
    by (simp add: td_defs shared_defs)
  have h3: "wasmMalloc td (of_nat (length ?nine)) td_world = (Inr 8, ?w1)"
    by (simp add: td_defs shared_defs)
  have h4: "Memory_Write ?w1 8 ?nine = None"
    by (simp add: Memory_Write_def)
  have h5: "ExportedFunction td ''free'' = Some 1" by (simp add: td_defs)
  have h6: "?nine \<noteq> []" by simp
  have h7: "?hello \<noteq> []" by simp
  have h8: "wasmMalloc td (of_nat (length ?hello)) td_world = (Inr 8, ?w5)"
    by (simp add: td_defs shared_defs)
  have h9: "unat (8 :: u32) + length ?hello \<le> length (memory (inst ?w5))" by simp
  have h10: "length ?hello < 2 ^ 32" by simp
  have h11: "length (memory (inst ?w1)) < unat (8 :: u32) + length ?nine" by simp
  have h12: "Call td 0 [ucast (of_nat (length ?hello) :: u32)] td_world = (Inr (8 # []), ?w5)"
    by (simp add: td_defs shared_defs)
  have h13: "unat (ucast (8 :: u64) :: u32) + length ?hello \<le> length (memory (inst ?w5))"
    by simp
  have h14: "wasmMalloc ?N (of_nat (length ?hello)) td_world =
               (Inl (ErrorsNew ''malloc function not found''), td_world)"
    by (simp add: wasmMalloc_def)
  have h15: "snd (wasmFree td 8 ?w1) = ?wf" by (simp add: td_defs shared_defs)
  note T1 = writeStringToWasm_allocates_truncated_length_and_copies
      [of td td_world td_parser "[104, 105]" 0 8 ?w' ?w1]
  note T2 = writeStringToWasm_allocates_truncated_length_and_copies
      [of td td_world td_parser ?nine 0 8 ?w' ?w1]
  note T3 = writeStringToWasm_allocates_truncated_length_and_copies
      [of td td_world td_parser ?hello 0 8 ?w' ?w5 PanicIndex 8 "[]" ?w5]
  note T4 = writeStringToWasm_allocates_truncated_length_and_copies
      [of ?N td_world td_parser ?hello 0 8 ?w' td_world "ErrorsNew ''malloc function not found''"]
  from T1 h2 have a: "Memory_Read ?w' 8 2 = Some [104, 105]" by simp
  from T1 h2 cache_ok_td_parser
  have b: "fst (Parser_writeStringToWasm td [104, 105] td_parser) = Inr 8"
    by (simp add: td_parser_def)
  from T2 h3 h4 h6
  have c: "writeStringToWasm td ?nine td_world =
             (Inl (ErrorsNew ''failed to write string to WASM memory''), snd (wasmFree td 8 ?w1))"
    and d: "calls (snd (writeStringToWasm td ?nine td_world)) =
             calls ?w1 @ (case ExportedFunction td ''free'' of
                            None \<Rightarrow> []
                          | Some f \<Rightarrow> [(f, [ucast (8 :: u32)])])"
    by blast+
  from c have c': "fst (writeStringToWasm td ?nine td_world) =
             Inl (ErrorsNew ''failed to write string to WASM memory'')" by simp
  from d h5 have d': "calls (snd (writeStringToWasm td ?nine td_world)) =
             [(0, [9]), (1, [8])]" by simp
  from h7 h8 h9 T3
  have e: "writeStringToWasm td ?hello td_world =
          (Inr 8, ?w5\<lparr>inst := (inst ?w5)\<lparr>memory :=
             take (unat (8 :: u32)) (memory (inst ?w5)) @ ?hello @
             drop (unat (8 :: u32) + length ?hello) (memory (inst ?w5))\<rparr>\<rparr>)"
    by blast
  from h7 h8 h9 h10 T3
  have f: "Memory_Read (snd (writeStringToWasm td ?hello td_world)) 8 (of_nat (length ?hello))
             = Some ?hello"
    by blast
  from h7 h1 h12 h13 T3
  have g: "writeStringToWasm td ?hello td_world =
          (Inr (ucast (8 :: u64)), ?w5\<lparr>inst := (inst ?w5)\<lparr>memory :=
             take (unat (ucast (8 :: u64) :: u32)) (memory (inst ?w5)) @ ?hello @
             drop (unat (ucast (8 :: u64) :: u32) + length ?hello) (memory (inst ?w5))\<rparr>\<rparr>)"
    by blast
  from h6 h3 h11 T2
  have k: "writeStringToWasm td ?nine td_world =
             (Inl (ErrorsNew ''failed to write string to WASM memory''), snd (wasmFree td 8 ?w1))"
    by blast
  from h7 h14 T4
  have l: "writeStringToWasm ?N ?hello td_world =
             (Inl (ErrorsNew ''malloc function not found''), td_world)"
    by blast
  from e have e': "writeStringToWasm td ?hello td_world =
       (Inr 8, \<lparr>inst = \<lparr>memory = [0, 7, 9, 0, 0, 0, 0, 0, 104, 101, 108, 108, 111, 0, 0, 0],
                        internals = 13\<rparr>,
                 calls = [(0, [5])]\<rparr>)" by simp
  from f have f': "Memory_Read (snd (writeStringToWasm td ?hello td_world)) 8 5 = Some ?hello"
    by simp
  from k h15 have k': "writeStringToWasm td ?nine td_world =
       (Inl (ErrorsNew ''failed to write string to WASM memory''), ?wf)" by simp
  from h12 have h12': "Call td 0 [5] td_world = (Inr [8], ?w5)" by simp
  from h1 h2 h3 h4 h8 h12' h14 h15 cache_ok_td_parser a b c' d' e' f' k' l show ?thesis by simp
qed


section \<open>Reading a result string\<close>

lemma byte_bit_bound: "bit (b :: 8 word) n \<Longrightarrow> n < 8"
  by (auto dest: bit_imp_le_length)

lemma le32_decode:
  fixes b0 b1 b2 b3 :: "8 word"
  shows "(ucast b0 OR push_bit 8 (ucast b1) OR push_bit 16 (ucast b2) OR push_bit 24 (ucast b3) :: u32)
    = of_nat (unat b0 + 256 * (unat b1 + 256 * (unat b2 + 256 * unat b3)))"
proof -
  let ?a = "ucast b0 :: u32" and ?b = "push_bit 8 (ucast b1) :: u32"
    and ?c = "push_bit 16 (ucast b2) :: u32" and ?d = "push_bit 24 (ucast b3) :: u32"
  have cd: "?c AND ?d = 0"
    by (auto simp add: bit_eq_iff bit_simps dest!: byte_bit_bound)
  have bcd: "?b AND (?c OR ?d) = 0"
    by (auto simp add: bit_eq_iff bit_simps dest!: byte_bit_bound)
  have abcd: "?a AND (?b OR ?c OR ?d) = 0"
    by (auto simp add: bit_eq_iff bit_simps dest!: byte_bit_bound)
  have "?a OR ?b OR ?c OR ?d = ?a + (?b + (?c + ?d))"
    using cd bcd abcd by (simp add: disjunctive_add_eq_or)
  also have "\<dots> = of_nat (unat b0 + 256 * (unat b1 + 256 * (unat b2 + 256 * unat b3)))"
    by (simp add: push_bit_eq_mult of_nat_unat algebra_simps)
  finally show ?thesis .
qed

lemma length_8E:
  assumes "length (rb :: 'a list) = 8"
  obtains b0 b1 b2 b3 b4 b5 b6 b7 where "rb = [b0, b1, b2, b3, b4, b5, b6, b7]"
  using assms by (auto simp add: numeral_eq_Suc length_Suc_conv)

lemma decode_result_struct:
  assumes "length (rb :: bytes) = 8"
  shows "(ucast (rb ! 0) OR push_bit 8 (ucast (rb ! 1)) OR push_bit 16 (ucast (rb ! 2))
            OR push_bit 24 (ucast (rb ! 3)) :: u32) = le_uint32 (take 4 rb)"
    and "(ucast (rb ! 4) OR push_bit 8 (ucast (rb ! 5)) OR push_bit 16 (ucast (rb ! 6))
            OR push_bit 24 (ucast (rb ! 7)) :: u32) = le_uint32 (drop 4 rb)"
proof -
  from assms obtain b0 b1 b2 b3 b4 b5 b6 b7 where rb: "rb = [b0, b1, b2, b3, b4, b5, b6, b7]"
    by (rule length_8E)
  show "(ucast (rb ! 0) OR push_bit 8 (ucast (rb ! 1)) OR push_bit 16 (ucast (rb ! 2))
            OR push_bit 24 (ucast (rb ! 3)) :: u32) = le_uint32 (take 4 rb)"
    unfolding rb le_uint32_def by (simp add: le32_decode)
  show "(ucast (rb ! 4) OR push_bit 8 (ucast (rb ! 5)) OR push_bit 16 (ucast (rb ! 6))
            OR push_bit 24 (ucast (rb ! 7)) :: u32) = le_uint32 (drop 4 rb)"
    unfolding rb le_uint32_def by (simp add: le32_decode)
qed

lemma Memory_Read_SomeD:
  assumes "Memory_Read w offset n = Some bs"
  shows "length bs = unat n"
    and "bs = take (unat n) (drop (unat offset) (memory (inst w)))"
  using assms by (auto simp add: Memory_Read_def split: if_splits)

lemma readAdaString_after_malloc:
  assumes "wasmMalloc M 8 w = (Inr resultPtr, w1)"
  shows "snd (readAdaString M fn urlPtr w) =
           snd (wasmFree M resultPtr (snd (Call M fn [ucast resultPtr, ucast urlPtr] w1)))"
  using assms
  by (simp add: readAdaString_def Let_def case_prod_beta split: sum.splits option.splits)

lemma readAdaString_calls:
  assumes "wasmMalloc M 8 w = (Inr resultPtr, w1)"
  shows "calls (snd (readAdaString M fn urlPtr w)) =
           calls w1 @ [(fn, [ucast resultPtr, ucast urlPtr])] @
           (case ExportedFunction M ''free'' of
              None \<Rightarrow> []
            | Some f \<Rightarrow> [(f, [ucast resultPtr])])"
  by (simp add: readAdaString_after_malloc [OF assms] wasmFree_calls Call_calls)

lemma readAdaString_call_error:
  assumes "wasmMalloc M 8 w = (Inr resultPtr, w1)"
    and "Call M fn [ucast resultPtr, ucast urlPtr] w1 = (Inl err, w2)"
  shows "fst (readAdaString M fn urlPtr w) = Inl err"
  using assms by (simp add: readAdaString_def)

lemma readAdaString_struct_unreadable:
  assumes "wasmMalloc M 8 w = (Inr resultPtr, w1)"
    and "Call M fn [ucast resultPtr, ucast urlPtr] w1 = (Inr rs, w2)"
    and "Memory_Read w2 resultPtr 8 = None"
  shows "fst (readAdaString M fn urlPtr w) =
           Inl (ErrorsNew ''failed to read result struct from memory'')"
  using assms by (simp add: readAdaString_def)

lemma readAdaString_decoded:
  assumes "wasmMalloc M 8 w = (Inr resultPtr, w1)"
    and "Call M fn [ucast resultPtr, ucast urlPtr] w1 = (Inr rs, w2)"
    and "Memory_Read w2 resultPtr 8 = Some rb"
  shows "fst (readAdaString M fn urlPtr w) =
           (if le_uint32 (take 4 rb) = 0 \<or> le_uint32 (drop 4 rb) = 0 then Inr []
            else (case Memory_Read w2 (le_uint32 (take 4 rb)) (le_uint32 (drop 4 rb)) of
                    None \<Rightarrow> Inl (ErrorsNew ''failed to read string from memory'')
                  | Some stringBytes \<Rightarrow> Inr stringBytes))"
proof -
  from assms(3) have "length rb = 8" by (simp add: Memory_Read_SomeD(1))
  note d = decode_result_struct [OF this, simplified]
  from assms show ?thesis
    unfolding readAdaString_def
    by (simp add: Let_def d split: option.splits)
qed


text \<open>
  C4. Once the 8-byte scratch buffer is allocated, \<open>readAdaString\<close> calls the getter with
  (scratch pointer, object pointer), and on every path out the last thing it does is
  \<open>wasmFree\<close> of the scratch pointer: the world it leaves is the world after the getter call
  with that release applied, so the log is the getter call followed by the call of \<open>free\<close>
  on the scratch pointer (when \<open>free\<close> is exported). This covers the error paths: a failed
  getter call returns its error, an unreadable struct returns an error. When the 8 bytes
  are read, the first four and the last four, each as a little-endian unsigned 32-bit
  number, are the buffer pointer and the length; if either is zero the result is the empty
  string and no error; otherwise the result is what the read of \<open>length\<close> bytes at
  \<open>bufferPtr\<close> gives: exactly those bytes of the memory, or an error if the range is outside
  the memory. The parser variant returns the same value and leaves the same world.
\<close>

theorem readAdaString_decodes_little_endian_struct_and_frees_scratch:
  "(wasmMalloc M 8 w = (Inr resultPtr, w1) \<longrightarrow>
      snd (readAdaString M fn urlPtr w) =
        snd (wasmFree M resultPtr (snd (Call M fn [ucast resultPtr, ucast urlPtr] w1)))
      \<and> calls (snd (readAdaString M fn urlPtr w)) =
          calls w1 @ [(fn, [ucast resultPtr, ucast urlPtr])] @
          (case ExportedFunction M ''free'' of
             None \<Rightarrow> []
           | Some f \<Rightarrow> [(f, [ucast resultPtr])])
      \<and> (Call M fn [ucast resultPtr, ucast urlPtr] w1 = (Inl err, w2) \<longrightarrow>
            fst (readAdaString M fn urlPtr w) = Inl err)
      \<and> (Call M fn [ucast resultPtr, ucast urlPtr] w1 = (Inr rs, w2) \<longrightarrow>
            Memory_Read w2 resultPtr 8 = None \<longrightarrow>
            fst (readAdaString M fn urlPtr w) =
              Inl (ErrorsNew ''failed to read result struct from memory''))
      \<and> (Call M fn [ucast resultPtr, ucast urlPtr] w1 = (Inr rs, w2) \<longrightarrow>
            Memory_Read w2 resultPtr 8 = Some rb \<longrightarrow>
            length rb = 8
            \<and> fst (readAdaString M fn urlPtr w) =
                (if le_uint32 (take 4 rb) = 0 \<or> le_uint32 (drop 4 rb) = 0 then Inr []
                 else (case Memory_Read w2 (le_uint32 (take 4 rb)) (le_uint32 (drop 4 rb)) of
                         None \<Rightarrow> Inl (ErrorsNew ''failed to read string from memory'')
                       | Some stringBytes \<Rightarrow> Inr stringBytes))
            \<and> (Memory_Read w2 (le_uint32 (take 4 rb)) (le_uint32 (drop 4 rb)) = Some sb \<longrightarrow>
                  length sb = unat (le_uint32 (drop 4 rb))
                  \<and> sb = take (unat (le_uint32 (drop 4 rb)))
                            (drop (unat (le_uint32 (take 4 rb))) (memory (inst w2))))))
   \<and> (cache_ok M p \<longrightarrow>
        fst (Parser_readAdaString M fn urlPtr p) = fst (readAdaString M fn urlPtr (module p))
        \<and> module (snd (Parser_readAdaString M fn urlPtr p)) =
            snd (readAdaString M fn urlPtr (module p)))"
proof -
  have len: "length rb = 8" if "Memory_Read w2 resultPtr 8 = Some rb"
    using Memory_Read_SomeD(1) [OF that] by simp
  note a = readAdaString_after_malloc [of M w resultPtr w1 fn urlPtr]
    and b = readAdaString_calls [of M w resultPtr w1 fn urlPtr]
    and c = readAdaString_call_error [of M w resultPtr w1 fn urlPtr err w2]
    and d = readAdaString_struct_unreadable [of M w resultPtr w1 fn urlPtr rs w2]
    and e = readAdaString_decoded [of M w resultPtr w1 fn urlPtr rs w2 rb]
    and f = Memory_Read_SomeD [of w2 "le_uint32 (take 4 rb)" "le_uint32 (drop 4 rb)" sb]
    and g = Parser_readAdaString_proj(1,2) [of M p fn urlPtr]
  show ?thesis
    using len a b c d e f g by blast
qed

theorem readAdaString_decodes_little_endian_struct_and_frees_scratch_witness:
  "wasmMalloc td 8 td_world =
     (Inr 8, \<lparr>inst = \<lparr>memory = [0, 7, 9, 0, 0, 0, 0, 0, 0, 0, 0, 0, 0, 0, 0, 0], internals = 16\<rparr>,
               calls = [(0, [8])]\<rparr>)
   \<and> Call td 5 [8, 32]
        \<lparr>inst = \<lparr>memory = [0, 7, 9, 0, 0, 0, 0, 0, 0, 0, 0, 0, 0, 0, 0, 0], internals = 16\<rparr>,
          calls = [(0, [8])]\<rparr> =
     (Inr [], \<lparr>inst = \<lparr>memory = [0, 7, 9, 0, 0, 0, 0, 0, 1, 0, 0, 0, 2, 0, 0, 0], internals = 16\<rparr>,
                calls = [(0, [8]), (5, [8, 32])]\<rparr>)
   \<and> Memory_Read
        \<lparr>inst = \<lparr>memory = [0, 7, 9, 0, 0, 0, 0, 0, 1, 0, 0, 0, 2, 0, 0, 0], internals = 16 :: u32\<rparr>,
          calls = [(0, [8]), (5, [8, 32])]\<rparr> 8 8 = Some [1, 0, 0, 0, 2, 0, 0, 0]
   \<and> le_uint32 (take 4 [1, 0, 0, 0, 2, 0, 0, 0]) = 1
   \<and> le_uint32 (drop 4 [1, 0, 0, 0, 2, 0, 0, 0]) = 2
   \<and> Memory_Read
        \<lparr>inst = \<lparr>memory = [0, 7, 9, 0, 0, 0, 0, 0, 1, 0, 0, 0, 2, 0, 0, 0], internals = 16 :: u32\<rparr>,
          calls = [(0, [8]), (5, [8, 32])]\<rparr> 1 2 = Some [7, 9]
   \<and> cache_ok td td_parser
   \<and> fst (readAdaString td 5 32 td_world) = Inr [7, 9]
   \<and> calls (snd (readAdaString td 5 32 td_world)) = [(0, [8]), (5, [8, 32]), (1, [8])]
   \<and> Call td 6 [8, 32] \<lparr>inst = \<lparr>memory = [0, 7, 9, 0, 0, 0, 0, 0, 0, 0, 0, 0, 0, 0, 0, 0], internals = 16 :: u32\<rparr>, calls = [(0, [8])]\<rparr> = (Inl (CallError ''trap''), \<lparr>inst = \<lparr>memory = [0, 7, 9, 0, 0, 0, 0, 0, 0, 0, 0, 0, 0, 0, 0, 0], internals = 16 :: u32\<rparr>, calls = [(0, [8]), (6, [8, 32])]\<rparr>)
   \<and> fst (readAdaString td 6 32 td_world) = Inl (CallError ''trap'')
   \<and> calls (snd (readAdaString td 6 32 td_world)) = [(0, [8]), (6, [8, 32]), (1, [8])]
   \<and> wasmMalloc td 8 \<lparr>inst = \<lparr>memory = [0, 7, 9, 0, 0, 0, 0, 0, 0, 0, 0, 0, 0, 0, 0, 0], internals = 12 :: u32\<rparr>, calls = [(0, [4])]\<rparr> = (Inr 12, \<lparr>inst = \<lparr>memory = [0, 7, 9, 0, 0, 0, 0, 0, 0, 0, 0, 0, 0, 0, 0, 0], internals = 20 :: u32\<rparr>, calls = [(0, [4]), (0, [8])]\<rparr>)
   \<and> Call td 1 [12, 32] \<lparr>inst = \<lparr>memory = [0, 7, 9, 0, 0, 0, 0, 0, 0, 0, 0, 0, 0, 0, 0, 0], internals = 20 :: u32\<rparr>, calls = [(0, [4]), (0, [8])]\<rparr> = (Inr [], \<lparr>inst = \<lparr>memory = [0, 7, 9, 0, 0, 0, 0, 0, 0, 0, 0, 0, 0, 0, 0, 0], internals = 20 :: u32\<rparr>, calls = [(0, [4]), (0, [8]), (1, [12, 32])]\<rparr>)
   \<and> Memory_Read \<lparr>inst = \<lparr>memory = [0, 7, 9, 0, 0, 0, 0, 0, 0, 0, 0, 0, 0, 0, 0, 0], internals = 20 :: u32\<rparr>, calls = [(0, [4]), (0, [8]), (1, [12, 32])]\<rparr> 12 8 = None
   \<and> fst (readAdaString td 1 32 \<lparr>inst = \<lparr>memory = [0, 7, 9, 0, 0, 0, 0, 0, 0, 0, 0, 0, 0, 0, 0, 0], internals = 12 :: u32\<rparr>, calls = [(0, [4])]\<rparr>) =
       Inl (ErrorsNew ''failed to read result struct from memory'')
   \<and> calls (snd (readAdaString td 1 32 \<lparr>inst = \<lparr>memory = [0, 7, 9, 0, 0, 0, 0, 0, 0, 0, 0, 0, 0, 0, 0, 0], internals = 12 :: u32\<rparr>, calls = [(0, [4])]\<rparr>)) =
       [(0, [4]), (0, [8]), (1, [12, 32]), (1, [12])]
   \<and> fst (Parser_readAdaString td 5 32 td_parser) = Inr [7, 9]
   \<and> calls (module (snd (Parser_readAdaString td 5 32 td_parser))) =
       [(0, [8]), (5, [8, 32]), (1, [8])]"
proof -
  let ?w1 = "\<lparr>inst = \<lparr>memory = [0, 7, 9, 0, 0, 0, 0, 0, 0, 0, 0, 0, 0, 0, 0, 0],
                         internals = 16 :: u32\<rparr>,
                  calls = [(0, [8])]\<rparr>"
  let ?w2 = "\<lparr>inst = \<lparr>memory = [0, 7, 9, 0, 0, 0, 0, 0, 1, 0, 0, 0, 2, 0, 0, 0],
                         internals = 16 :: u32\<rparr>,
                  calls = [(0, [8]), (5, [8, 32])]\<rparr>"
  let ?rb = "[1, 0, 0, 0, 2, 0, 0, 0] :: bytes"
  have h1: "wasmMalloc td 8 td_world = (Inr 8, ?w1)" by (simp add: td_defs shared_defs)
  have h2: "Call td 5 [ucast (8 :: u32), ucast (32 :: u32)] ?w1 = (Inr [], ?w2)"
    by (simp add: td_defs shared_defs)
  have h3: "Memory_Read ?w2 8 8 = Some ?rb" by (simp add: Memory_Read_def)
  have h4: "le_uint32 (take 4 ?rb) = 1" by (simp add: le_uint32_def)
  have h5: "le_uint32 (drop 4 ?rb) = 2" by (simp add: le_uint32_def)
  have h6: "Memory_Read ?w2 1 2 = Some [7, 9]" by (simp add: Memory_Read_def)
  have h7: "ExportedFunction td ''free'' = Some 1" by (simp add: td_defs)
  note T = readAdaString_decodes_little_endian_struct_and_frees_scratch
      [of td td_world 8 ?w1 5 32 "CallError ''trap''" ?w2 "[]" ?rb "[7, 9]" td_parser]
  from h1 h2 h3 h4 h5 h6 T have a: "fst (readAdaString td 5 32 td_world) = Inr [7, 9]"
    by simp
  from h1 T have "calls (snd (readAdaString td 5 32 td_world)) =
      calls ?w1 @ [(5, [ucast (8 :: u32), ucast (32 :: u32)])] @
        (case ExportedFunction td ''free'' of
           None \<Rightarrow> []
         | Some f \<Rightarrow> [(f, [ucast (8 :: u32)])])"
    by blast
  with h7 have b: "calls (snd (readAdaString td 5 32 td_world)) =
      [(0, [8]), (5, [8, 32]), (1, [8])]"
    by simp
  from cache_ok_td_parser a b T
  have c: "fst (Parser_readAdaString td 5 32 td_parser) = Inr [7, 9]"
    and d: "calls (module (snd (Parser_readAdaString td 5 32 td_parser))) =
       [(0, [8]), (5, [8, 32]), (1, [8])]"
    by (simp_all add: td_parser_def)
  let ?a2 = "\<lparr>inst = \<lparr>memory = [0, 7, 9, 0, 0, 0, 0, 0, 0, 0, 0, 0, 0, 0, 0, 0], internals = 16 :: u32\<rparr>, calls = [(0, [8]), (6, [8, 32])]\<rparr>"
  let ?b0 = "\<lparr>inst = \<lparr>memory = [0, 7, 9, 0, 0, 0, 0, 0, 0, 0, 0, 0, 0, 0, 0, 0], internals = 12 :: u32\<rparr>, calls = [(0, [4])]\<rparr>"
  let ?b1 = "\<lparr>inst = \<lparr>memory = [0, 7, 9, 0, 0, 0, 0, 0, 0, 0, 0, 0, 0, 0, 0, 0], internals = 20 :: u32\<rparr>, calls = [(0, [4]), (0, [8])]\<rparr>"
  let ?b2 = "\<lparr>inst = \<lparr>memory = [0, 7, 9, 0, 0, 0, 0, 0, 0, 0, 0, 0, 0, 0, 0, 0], internals = 20 :: u32\<rparr>, calls = [(0, [4]), (0, [8]), (1, [12, 32])]\<rparr>"
  have k1: "Call td 6 [ucast (8 :: u32), ucast (32 :: u32)] ?w1 = (Inl (CallError ''trap''), ?a2)"
    by (simp add: td_defs shared_defs)
  have k2: "wasmMalloc td 8 ?b0 = (Inr 12, ?b1)" by (simp add: td_defs shared_defs)
  have k3: "Call td 1 [ucast (12 :: u32), ucast (32 :: u32)] ?b1 = (Inr [], ?b2)"
    by (simp add: td_defs shared_defs)
  have k4: "Memory_Read ?b2 12 8 = None" by (simp add: Memory_Read_def)
  note TA = readAdaString_decodes_little_endian_struct_and_frees_scratch
      [of td td_world 8 ?w1 6 32 "CallError ''trap''" ?a2 "[]" ?rb "[7, 9]" td_parser]
  note TB = readAdaString_decodes_little_endian_struct_and_frees_scratch
      [of td ?b0 12 ?b1 1 32 "CallError ''trap''" ?b2 "[]" ?rb "[7, 9]" td_parser]
  from h1 k1 TA have e: "fst (readAdaString td 6 32 td_world) = Inl (CallError ''trap'')"
    by blast
  from h1 TA have "calls (snd (readAdaString td 6 32 td_world)) =
      calls ?w1 @ [(6, [ucast (8 :: u32), ucast (32 :: u32)])] @
        (case ExportedFunction td ''free'' of
           None \<Rightarrow> []
         | Some f \<Rightarrow> [(f, [ucast (8 :: u32)])])"
    by blast
  with h7 have f: "calls (snd (readAdaString td 6 32 td_world)) =
      [(0, [8]), (6, [8, 32]), (1, [8])]"
    by simp
  from k2 k3 k4 TB have g: "fst (readAdaString td 1 32 ?b0) =
      Inl (ErrorsNew ''failed to read result struct from memory'')"
    by blast
  from k2 TB have "calls (snd (readAdaString td 1 32 ?b0)) =
      calls ?b1 @ [(1, [ucast (12 :: u32), ucast (32 :: u32)])] @
        (case ExportedFunction td ''free'' of
           None \<Rightarrow> []
         | Some f \<Rightarrow> [(f, [ucast (12 :: u32)])])"
    by blast
  with h7 have h: "calls (snd (readAdaString td 1 32 ?b0)) =
      [(0, [4]), (0, [8]), (1, [12, 32]), (1, [12])]"
    by simp
  from h1 h2 h3 h4 h5 h6 k1 k2 k3 k4 cache_ok_td_parser a b c d e f g h show ?thesis by simp
qed


section \<open>Creation of a handle\<close>

lemma New_after_parse:
  assumes "s \<noteq> []" and "writeStringToWasm M s w = (Inr urlPtr, w1)"
    and "ExportedFunction M ''ada_parse'' = Some parseFunc"
    and "Call M parseFunc [ucast urlPtr, of_nat (length s)] w1 = (Inr (r # rs), w2)"
    and "(ucast r :: u32) \<noteq> 0"
    and "callAdaBoolFunction M ''ada_is_valid'' (ucast r) w2 = (Inr valid, w3)"
  shows "New M s w =
    (if valid then (Inr \<lparr>cpointer = ucast r\<rparr>, snd (wasmFree M urlPtr w3))
     else (Inl ErrInvalidUrl,
           snd (wasmFree M urlPtr
                 (case ExportedFunction M ''ada_free'' of
                    None \<Rightarrow> w3
                  | Some adaFree \<Rightarrow> snd (Call M adaFree [ucast (ucast r :: u32)] w3)))))"
  using assms unfolding New_def
  by (simp add: Let_def split: option.splits)

lemma New_invalid_calls:
  assumes "s \<noteq> []" and "writeStringToWasm M s w = (Inr urlPtr, w1)"
    and "ExportedFunction M ''ada_parse'' = Some parseFunc"
    and "Call M parseFunc [ucast urlPtr, of_nat (length s)] w1 = (Inr (r # rs), w2)"
    and "(ucast r :: u32) \<noteq> 0"
    and "callAdaBoolFunction M ''ada_is_valid'' (ucast r) w2 = (Inr False, w3)"
  shows "calls (snd (New M s w)) =
           calls w3 @
           (case ExportedFunction M ''ada_free'' of
              None \<Rightarrow> []
            | Some adaFree \<Rightarrow> [(adaFree, [ucast (ucast r :: u32)])]) @
           (case ExportedFunction M ''free'' of
              None \<Rightarrow> []
            | Some f \<Rightarrow> [(f, [ucast urlPtr])])"
  by (simp add: New_after_parse [OF assms] wasmFree_calls Call_calls split: option.splits)

lemma New_handle_only_when:
  assumes "fst (New M s w) = Inr u"
  shows "s \<noteq> [] \<and> cpointer u \<noteq> 0 \<and>
    (\<exists>urlPtr w1 parseFunc r rs w2 w3.
       writeStringToWasm M s w = (Inr urlPtr, w1)
       \<and> ExportedFunction M ''ada_parse'' = Some parseFunc
       \<and> Call M parseFunc [ucast urlPtr, of_nat (length s)] w1 = (Inr (r # rs), w2)
       \<and> ucast r = cpointer u
       \<and> callAdaBoolFunction M ''ada_is_valid'' (cpointer u) w2 = (Inr True, w3)
       \<and> snd (New M s w) = snd (wasmFree M urlPtr w3))"
proof -
  from assms have ne: "s \<noteq> []" by (auto simp add: New_def)
  obtain r0 w1 where ws: "writeStringToWasm M s w = (r0, w1)"
    by (cases "writeStringToWasm M s w")
  from assms ne ws obtain urlPtr where r0: "r0 = Inr urlPtr"
    by (cases r0) (simp_all add: New_def)
  from assms ne ws r0 obtain parseFunc where pf: "ExportedFunction M ''ada_parse'' = Some parseFunc"
    by (cases "ExportedFunction M ''ada_parse''") (simp_all add: New_def)
  obtain c w2 where cl: "Call M parseFunc [ucast urlPtr, of_nat (length s)] w1 = (c, w2)"
    by (cases "Call M parseFunc [ucast urlPtr, of_nat (length s)] w1")
  from assms ne ws r0 pf cl obtain results where c: "c = Inr results"
    by (cases c) (simp_all add: New_def)
  from assms ne ws r0 pf cl c obtain r rs where res: "results = r # rs"
    by (cases results) (simp_all add: New_def)
  from assms ne ws r0 pf cl c res have nz: "(ucast r :: u32) \<noteq> 0"
    by (auto simp add: New_def Let_def)
  obtain v w3 where va: "callAdaBoolFunction M ''ada_is_valid'' (ucast r) w2 = (v, w3)"
    by (cases "callAdaBoolFunction M ''ada_is_valid'' (ucast r) w2")
  from assms ne ws r0 pf cl c res nz va obtain valid where v: "v = Inr valid"
    by (cases v) (simp_all add: New_def Let_def)
  note n = New_after_parse [OF ne ws [unfolded r0] pf cl [unfolded c res] nz va [unfolded v]]
  from assms n have valid: "valid" and u: "u = \<lparr>cpointer = ucast r\<rparr>"
    by (auto split: if_splits)
  from ne nz ws r0 pf cl c res va v valid u n show ?thesis by auto
qed

lemma NewWithBase_after_parse:
  assumes "s \<noteq> []" and "b \<noteq> []" and "writeStringToWasm M s w = (Inr urlPtr, w1)"
    and "writeStringToWasm M b w1 = (Inr basePtr, w1')"
    and "ExportedFunction M ''ada_parse_with_base'' = Some parseFunc"
    and "Call M parseFunc [ucast urlPtr, of_nat (length s), ucast basePtr, of_nat (length b)] w1'
           = (Inr (r # rs), w2)"
    and "(ucast r :: u32) \<noteq> 0"
    and "callAdaBoolFunction M ''ada_is_valid'' (ucast r) w2 = (Inr valid, w3)"
  shows "NewWithBase M s b w =
    (if valid then (Inr \<lparr>cpointer = ucast r\<rparr>, snd (wasmFree M urlPtr (snd (wasmFree M basePtr w3))))
     else (Inl ErrInvalidUrl,
           snd (wasmFree M urlPtr (snd (wasmFree M basePtr
                 (case ExportedFunction M ''ada_free'' of
                    None \<Rightarrow> w3
                  | Some adaFree \<Rightarrow> snd (Call M adaFree [ucast (ucast r :: u32)] w3)))))))"
  using assms unfolding NewWithBase_def
  by (simp add: Let_def split: option.splits)

lemma NewWithBase_handle_only_when:
  assumes "fst (NewWithBase M s b w) = Inr u"
  shows "s \<noteq> [] \<and> b \<noteq> [] \<and> cpointer u \<noteq> 0 \<and>
    (\<exists>urlPtr w1 basePtr w1' parseFunc r rs w2 w3.
       writeStringToWasm M s w = (Inr urlPtr, w1)
       \<and> writeStringToWasm M b w1 = (Inr basePtr, w1')
       \<and> ExportedFunction M ''ada_parse_with_base'' = Some parseFunc
       \<and> Call M parseFunc [ucast urlPtr, of_nat (length s), ucast basePtr, of_nat (length b)] w1'
            = (Inr (r # rs), w2)
       \<and> ucast r = cpointer u
       \<and> callAdaBoolFunction M ''ada_is_valid'' (cpointer u) w2 = (Inr True, w3)
       \<and> snd (NewWithBase M s b w) = snd (wasmFree M urlPtr (snd (wasmFree M basePtr w3))))"
proof -
  from assms have ne: "s \<noteq> []" and nb: "b \<noteq> []" by (auto simp add: NewWithBase_def)
  obtain r0 w1 where ws: "writeStringToWasm M s w = (r0, w1)"
    by (cases "writeStringToWasm M s w")
  from assms ne nb ws obtain urlPtr where r0: "r0 = Inr urlPtr"
    by (cases r0) (simp_all add: NewWithBase_def)
  obtain r1 w1' where wb: "writeStringToWasm M b w1 = (r1, w1')"
    by (cases "writeStringToWasm M b w1")
  from assms ne nb ws r0 wb obtain basePtr where r1: "r1 = Inr basePtr"
    by (cases r1) (simp_all add: NewWithBase_def)
  from assms ne nb ws r0 wb r1 obtain parseFunc
    where pf: "ExportedFunction M ''ada_parse_with_base'' = Some parseFunc"
    by (cases "ExportedFunction M ''ada_parse_with_base''") (simp_all add: NewWithBase_def)
  obtain c w2 where cl:
    "Call M parseFunc [ucast urlPtr, of_nat (length s), ucast basePtr, of_nat (length b)] w1'
       = (c, w2)"
    by (cases "Call M parseFunc
                 [ucast urlPtr, of_nat (length s), ucast basePtr, of_nat (length b)] w1'")
  from assms ne nb ws r0 wb r1 pf cl obtain results where c: "c = Inr results"
    by (cases c) (simp_all add: NewWithBase_def)
  from assms ne nb ws r0 wb r1 pf cl c obtain r rs where res: "results = r # rs"
    by (cases results) (simp_all add: NewWithBase_def)
  from assms ne nb ws r0 wb r1 pf cl c res have nz: "(ucast r :: u32) \<noteq> 0"
    by (auto simp add: NewWithBase_def Let_def)
  obtain v w3 where va: "callAdaBoolFunction M ''ada_is_valid'' (ucast r) w2 = (v, w3)"
    by (cases "callAdaBoolFunction M ''ada_is_valid'' (ucast r) w2")
  from assms ne nb ws r0 wb r1 pf cl c res nz va obtain valid where v: "v = Inr valid"
    by (cases v) (simp_all add: NewWithBase_def Let_def)
  note n = NewWithBase_after_parse
    [OF ne nb ws [unfolded r0] wb [unfolded r1] pf cl [unfolded c res] nz va [unfolded v]]
  from assms n have valid: "valid" and u: "u = \<lparr>cpointer = ucast r\<rparr>"
    by (auto split: if_splits)
  from ne nb nz ws r0 wb r1 pf cl c res va v valid u n show ?thesis by auto
qed

lemma NewWithBase_invalid_calls:
  assumes "s \<noteq> []" and "b \<noteq> []" and "writeStringToWasm M s w = (Inr urlPtr, w1)"
    and "writeStringToWasm M b w1 = (Inr basePtr, w1')"
    and "ExportedFunction M ''ada_parse_with_base'' = Some parseFunc"
    and "Call M parseFunc [ucast urlPtr, of_nat (length s), ucast basePtr, of_nat (length b)] w1'
           = (Inr (r # rs), w2)"
    and "(ucast r :: u32) \<noteq> 0"
    and "callAdaBoolFunction M ''ada_is_valid'' (ucast r) w2 = (Inr False, w3)"
  shows "calls (snd (NewWithBase M s b w)) =
           calls w3 @
           (case ExportedFunction M ''ada_free'' of
              None \<Rightarrow> []
            | Some adaFree \<Rightarrow> [(adaFree, [ucast (ucast r :: u32)])]) @
           (case ExportedFunction M ''free'' of
              None \<Rightarrow> []
            | Some f \<Rightarrow> [(f, [ucast basePtr]), (f, [ucast urlPtr])])"
  by (simp add: NewWithBase_after_parse [OF assms] wasmFree_calls Call_calls split: option.splits)


text \<open>
  C2. \<open>New\<close> and \<open>NewWithBase\<close> return a handle only when the input strings were written,
  the guest parse call returned a first result word whose low 32 bits are not zero, and
  \<open>ada_is_valid\<close> on that pointer returned true; the handle then holds that pointer. When
  the parse call returned a non-null pointer and the validity check comes back false, the
  caller gets \<open>ErrInvalidUrl\<close> and no handle, and the guest calls after the validity check
  are exactly: \<open>ada_free\<close> on the object (when the module exports it), then the deferred
  release of the input strings. When the check comes back true, the handle is returned.
  The parser variant returns the same value and leaves the same world.
\<close>

theorem New_hands_out_only_validated_objects:
  "(fst (New M s w) = Inr u \<longrightarrow>
      s \<noteq> [] \<and> cpointer u \<noteq> 0 \<and>
      (\<exists>urlPtr w1 parseFunc r rs w2 w3.
         writeStringToWasm M s w = (Inr urlPtr, w1)
         \<and> ExportedFunction M ''ada_parse'' = Some parseFunc
         \<and> Call M parseFunc [ucast urlPtr, of_nat (length s)] w1 = (Inr (r # rs), w2)
         \<and> ucast r = cpointer u
         \<and> callAdaBoolFunction M ''ada_is_valid'' (cpointer u) w2 = (Inr True, w3)
         \<and> snd (New M s w) = snd (wasmFree M urlPtr w3)))
   \<and> (s \<noteq> [] \<longrightarrow> writeStringToWasm M s w = (Inr urlPtr, w1) \<longrightarrow>
        ExportedFunction M ''ada_parse'' = Some parseFunc \<longrightarrow>
        Call M parseFunc [ucast urlPtr, of_nat (length s)] w1 = (Inr (r # rs), w2) \<longrightarrow>
        (ucast r :: u32) \<noteq> 0 \<longrightarrow>
        (callAdaBoolFunction M ''ada_is_valid'' (ucast r) w2 = (Inr False, w3) \<longrightarrow>
           fst (New M s w) = Inl ErrInvalidUrl
           \<and> calls (snd (New M s w)) =
               calls w3 @
               (case ExportedFunction M ''ada_free'' of
                  None \<Rightarrow> []
                | Some adaFree \<Rightarrow> [(adaFree, [ucast (ucast r :: u32)])]) @
               (case ExportedFunction M ''free'' of
                  None \<Rightarrow> []
                | Some f \<Rightarrow> [(f, [ucast urlPtr])]))
        \<and> (callAdaBoolFunction M ''ada_is_valid'' (ucast r) w2 = (Inr True, w3) \<longrightarrow>
             New M s w = (Inr \<lparr>cpointer = ucast r\<rparr>, snd (wasmFree M urlPtr w3))))
   \<and> (fst (NewWithBase M s b w) = Inr u \<longrightarrow>
      s \<noteq> [] \<and> b \<noteq> [] \<and> cpointer u \<noteq> 0 \<and>
      (\<exists>urlPtr w1 basePtr w1' parseFunc r rs w2 w3.
         writeStringToWasm M s w = (Inr urlPtr, w1)
         \<and> writeStringToWasm M b w1 = (Inr basePtr, w1')
         \<and> ExportedFunction M ''ada_parse_with_base'' = Some parseFunc
         \<and> Call M parseFunc
               [ucast urlPtr, of_nat (length s), ucast basePtr, of_nat (length b)] w1'
              = (Inr (r # rs), w2)
         \<and> ucast r = cpointer u
         \<and> callAdaBoolFunction M ''ada_is_valid'' (cpointer u) w2 = (Inr True, w3)
         \<and> snd (NewWithBase M s b w) = snd (wasmFree M urlPtr (snd (wasmFree M basePtr w3)))))
   \<and> (s \<noteq> [] \<longrightarrow> b \<noteq> [] \<longrightarrow> writeStringToWasm M s w = (Inr urlPtr, w1) \<longrightarrow>
        writeStringToWasm M b w1 = (Inr basePtr, w1') \<longrightarrow>
        ExportedFunction M ''ada_parse_with_base'' = Some parseBase \<longrightarrow>
        Call M parseBase [ucast urlPtr, of_nat (length s), ucast basePtr, of_nat (length b)] w1'
          = (Inr (r' # rs'), w2') \<longrightarrow>
        (ucast r' :: u32) \<noteq> 0 \<longrightarrow>
        (callAdaBoolFunction M ''ada_is_valid'' (ucast r') w2' = (Inr False, w3') \<longrightarrow>
           fst (NewWithBase M s b w) = Inl ErrInvalidUrl
           \<and> calls (snd (NewWithBase M s b w)) =
               calls w3' @
               (case ExportedFunction M ''ada_free'' of
                  None \<Rightarrow> []
                | Some adaFree \<Rightarrow> [(adaFree, [ucast (ucast r' :: u32)])]) @
               (case ExportedFunction M ''free'' of
                  None \<Rightarrow> []
                | Some f \<Rightarrow> [(f, [ucast basePtr]), (f, [ucast urlPtr])]))
        \<and> (callAdaBoolFunction M ''ada_is_valid'' (ucast r') w2' = (Inr True, w3') \<longrightarrow>
             NewWithBase M s b w =
               (Inr \<lparr>cpointer = ucast r'\<rparr>,
                snd (wasmFree M urlPtr (snd (wasmFree M basePtr w3'))))))
   \<and> (cache_ok M p \<longrightarrow>
        fst (Parser_New M s p) = fst (New M s (module p))
        \<and> module (snd (Parser_New M s p)) = snd (New M s (module p))
        \<and> fst (Parser_NewWithBase M s b p) = fst (NewWithBase M s b (module p))
        \<and> module (snd (Parser_NewWithBase M s b p)) = snd (NewWithBase M s b (module p)))"
proof -
  note a = New_handle_only_when [of M s w u]
    and b = New_after_parse [of s M w urlPtr w1 parseFunc r rs w2 False w3]
    and c = New_invalid_calls [of s M w urlPtr w1 parseFunc r rs w2 w3]
    and d = New_after_parse [of s M w urlPtr w1 parseFunc r rs w2 True w3]
    and e = NewWithBase_handle_only_when [of M s b w u]
    and f = NewWithBase_after_parse
              [of s b M w urlPtr w1 basePtr w1' parseBase r' rs' w2' False w3']
    and g = NewWithBase_invalid_calls [of s b M w urlPtr w1 basePtr w1' parseBase r' rs' w2' w3']
    and h = NewWithBase_after_parse
              [of s b M w urlPtr w1 basePtr w1' parseBase r' rs' w2' True w3']
    and i = Parser_New_ok [of M p s, unfolded corresponds_def]
    and j = Parser_NewWithBase_ok [of M p s b, unfolded corresponds_def]
  have b': "fst (New M s w) = Inl ErrInvalidUrl"
    if "s \<noteq> []" "writeStringToWasm M s w = (Inr urlPtr, w1)"
      "ExportedFunction M ''ada_parse'' = Some parseFunc"
      "Call M parseFunc [ucast urlPtr, of_nat (length s)] w1 = (Inr (r # rs), w2)"
      "(ucast r :: u32) \<noteq> 0"
      "callAdaBoolFunction M ''ada_is_valid'' (ucast r) w2 = (Inr False, w3)"
    using b [OF that] by simp
  have d': "New M s w = (Inr \<lparr>cpointer = ucast r\<rparr>, snd (wasmFree M urlPtr w3))"
    if "s \<noteq> []" "writeStringToWasm M s w = (Inr urlPtr, w1)"
      "ExportedFunction M ''ada_parse'' = Some parseFunc"
      "Call M parseFunc [ucast urlPtr, of_nat (length s)] w1 = (Inr (r # rs), w2)"
      "(ucast r :: u32) \<noteq> 0"
      "callAdaBoolFunction M ''ada_is_valid'' (ucast r) w2 = (Inr True, w3)"
    using d [OF that] by simp
  have f': "fst (NewWithBase M s b w) = Inl ErrInvalidUrl"
    if "s \<noteq> []" "b \<noteq> []" "writeStringToWasm M s w = (Inr urlPtr, w1)"
      "writeStringToWasm M b w1 = (Inr basePtr, w1')"
      "ExportedFunction M ''ada_parse_with_base'' = Some parseBase"
      "Call M parseBase [ucast urlPtr, of_nat (length s), ucast basePtr, of_nat (length b)] w1'
         = (Inr (r' # rs'), w2')"
      "(ucast r' :: u32) \<noteq> 0"
      "callAdaBoolFunction M ''ada_is_valid'' (ucast r') w2' = (Inr False, w3')"
    using f [OF that] by simp
  have h': "NewWithBase M s b w =
               (Inr \<lparr>cpointer = ucast r'\<rparr>,
                snd (wasmFree M urlPtr (snd (wasmFree M basePtr w3'))))"
    if "s \<noteq> []" "b \<noteq> []" "writeStringToWasm M s w = (Inr urlPtr, w1)"
      "writeStringToWasm M b w1 = (Inr basePtr, w1')"
      "ExportedFunction M ''ada_parse_with_base'' = Some parseBase"
      "Call M parseBase [ucast urlPtr, of_nat (length s), ucast basePtr, of_nat (length b)] w1'
         = (Inr (r' # rs'), w2')"
      "(ucast r' :: u32) \<noteq> 0"
      "callAdaBoolFunction M ''ada_is_valid'' (ucast r') w2' = (Inr True, w3')"
    using h [OF that] by simp
  show ?thesis
    apply (intro conjI impI)
    using a apply blast
    using a apply blast
    using a apply blast
    using b' apply blast
    using c apply blast
    using d' apply blast
    using e apply blast
    using e apply blast
    using e apply blast
    using e apply blast
    using f' apply blast
    using g apply blast
    using h' apply blast
    using i apply blast
    using i apply blast
    using j apply blast
    using j apply blast
    done
qed


theorem New_hands_out_only_validated_objects_witness:
  "fst (New td [104, 105] td_world) = Inr \<lparr>cpointer = 32\<rparr>
   \<and> fst (NewWithBase td [104, 105] [104] td_world) = Inr \<lparr>cpointer = 32\<rparr>
   \<and> ([98, 105] :: bytes) \<noteq> [] \<and> ([104] :: bytes) \<noteq> []
   \<and> writeStringToWasm td [98, 105] td_world = (Inr 8, \<lparr>inst = \<lparr>memory = [0, 7, 9, 0, 0, 0, 0, 0, 98, 105, 0, 0, 0, 0, 0, 0], internals = 10 :: u32\<rparr>, calls = [(0, [2])]\<rparr>)
   \<and> ExportedFunction td ''ada_parse'' = Some 2
   \<and> Call td 2 [8, 2] \<lparr>inst = \<lparr>memory = [0, 7, 9, 0, 0, 0, 0, 0, 98, 105, 0, 0, 0, 0, 0, 0], internals = 10 :: u32\<rparr>, calls = [(0, [2])]\<rparr> = (Inr [40], \<lparr>inst = \<lparr>memory = [0, 7, 9, 0, 0, 0, 0, 0, 98, 105, 0, 0, 0, 0, 0, 0], internals = 10 :: u32\<rparr>, calls = [(0, [2]), (2, [8, 2])]\<rparr>)
   \<and> (ucast (40 :: u64) :: u32) \<noteq> 0
   \<and> callAdaBoolFunction td ''ada_is_valid'' 40 \<lparr>inst = \<lparr>memory = [0, 7, 9, 0, 0, 0, 0, 0, 98, 105, 0, 0, 0, 0, 0, 0], internals = 10 :: u32\<rparr>, calls = [(0, [2]), (2, [8, 2])]\<rparr> = (Inr False, \<lparr>inst = \<lparr>memory = [0, 7, 9, 0, 0, 0, 0, 0, 98, 105, 0, 0, 0, 0, 0, 0], internals = 10 :: u32\<rparr>, calls = [(0, [2]), (2, [8, 2]), (3, [40])]\<rparr>)
   \<and> fst (New td [98, 105] td_world) = Inl ErrInvalidUrl
   \<and> calls (snd (New td [98, 105] td_world)) =
       [(0, [2]), (2, [8, 2]), (3, [40]), (4, [40]), (1, [8])]
   \<and> writeStringToWasm td [104] \<lparr>inst = \<lparr>memory = [0, 7, 9, 0, 0, 0, 0, 0, 98, 105, 0, 0, 0, 0, 0, 0], internals = 10 :: u32\<rparr>, calls = [(0, [2])]\<rparr> = (Inr 10, \<lparr>inst = \<lparr>memory = [0, 7, 9, 0, 0, 0, 0, 0, 98, 105, 104, 0, 0, 0, 0, 0], internals = 11 :: u32\<rparr>, calls = [(0, [2]), (0, [1])]\<rparr>)
   \<and> ExportedFunction td ''ada_parse_with_base'' = Some 7
   \<and> Call td 7 [8, 2, 10, 1] \<lparr>inst = \<lparr>memory = [0, 7, 9, 0, 0, 0, 0, 0, 98, 105, 104, 0, 0, 0, 0, 0], internals = 11 :: u32\<rparr>, calls = [(0, [2]), (0, [1])]\<rparr> = (Inr [40], \<lparr>inst = \<lparr>memory = [0, 7, 9, 0, 0, 0, 0, 0, 98, 105, 104, 0, 0, 0, 0, 0], internals = 11 :: u32\<rparr>, calls = [(0, [2]), (0, [1]), (7, [8, 2, 10, 1])]\<rparr>)
   \<and> callAdaBoolFunction td ''ada_is_valid'' 40 \<lparr>inst = \<lparr>memory = [0, 7, 9, 0, 0, 0, 0, 0, 98, 105, 104, 0, 0, 0, 0, 0], internals = 11 :: u32\<rparr>, calls = [(0, [2]), (0, [1]), (7, [8, 2, 10, 1])]\<rparr> = (Inr False, \<lparr>inst = \<lparr>memory = [0, 7, 9, 0, 0, 0, 0, 0, 98, 105, 104, 0, 0, 0, 0, 0], internals = 11 :: u32\<rparr>, calls = [(0, [2]), (0, [1]), (7, [8, 2, 10, 1]), (3, [40])]\<rparr>)
   \<and> fst (NewWithBase td [98, 105] [104] td_world) = Inl ErrInvalidUrl
   \<and> calls (snd (NewWithBase td [98, 105] [104] td_world)) =
       [(0, [2]), (0, [1]), (7, [8, 2, 10, 1]), (3, [40]), (4, [40]), (1, [10]), (1, [8])]
   \<and> callAdaBoolFunction td ''ada_is_valid'' 32 \<lparr>inst = \<lparr>memory = [0, 7, 9, 0, 0, 0, 0, 0, 104, 105, 0, 0, 0, 0, 0, 0], internals = 10 :: u32\<rparr>, calls = [(0, [2]), (2, [8, 2])]\<rparr> = (Inr True, \<lparr>inst = \<lparr>memory = [0, 7, 9, 0, 0, 0, 0, 0, 104, 105, 0, 0, 0, 0, 0, 0], internals = 10 :: u32\<rparr>, calls = [(0, [2]), (2, [8, 2]), (3, [32])]\<rparr>)
   \<and> fst (New td [104, 105] td_world) = Inr \<lparr>cpointer = 32\<rparr>
   \<and> callAdaBoolFunction td ''ada_is_valid'' 32 \<lparr>inst = \<lparr>memory = [0, 7, 9, 0, 0, 0, 0, 0, 104, 105, 104, 0, 0, 0, 0, 0], internals = 11 :: u32\<rparr>, calls = [(0, [2]), (0, [1]), (7, [8, 2, 10, 1])]\<rparr> = (Inr True, \<lparr>inst = \<lparr>memory = [0, 7, 9, 0, 0, 0, 0, 0, 104, 105, 104, 0, 0, 0, 0, 0], internals = 11 :: u32\<rparr>, calls = [(0, [2]), (0, [1]), (7, [8, 2, 10, 1]), (3, [32])]\<rparr>)
   \<and> cache_ok td td_parser
   \<and> fst (Parser_New td [98, 105] td_parser) = Inl ErrInvalidUrl
   \<and> fst (Parser_New td [104, 105] td_parser) = Inr \<lparr>cpointer = 32\<rparr>
   \<and> calls (module (snd (Parser_New td [98, 105] td_parser))) =
       [(0, [2]), (2, [8, 2]), (3, [40]), (4, [40]), (1, [8])]
   \<and> fst (Parser_NewWithBase td [98, 105] [104] td_parser) = Inl ErrInvalidUrl"
proof -
  let ?I1 = "\<lparr>inst = \<lparr>memory = [0, 7, 9, 0, 0, 0, 0, 0, 98, 105, 0, 0, 0, 0, 0, 0], internals = 10 :: u32\<rparr>, calls = [(0, [2])]\<rparr>"
  let ?I2 = "\<lparr>inst = \<lparr>memory = [0, 7, 9, 0, 0, 0, 0, 0, 98, 105, 0, 0, 0, 0, 0, 0], internals = 10 :: u32\<rparr>, calls = [(0, [2]), (2, [8, 2])]\<rparr>"
  let ?I3 = "\<lparr>inst = \<lparr>memory = [0, 7, 9, 0, 0, 0, 0, 0, 98, 105, 0, 0, 0, 0, 0, 0], internals = 10 :: u32\<rparr>, calls = [(0, [2]), (2, [8, 2]), (3, [40])]\<rparr>"
  let ?J1 = "\<lparr>inst = \<lparr>memory = [0, 7, 9, 0, 0, 0, 0, 0, 98, 105, 104, 0, 0, 0, 0, 0], internals = 11 :: u32\<rparr>, calls = [(0, [2]), (0, [1])]\<rparr>"
  let ?J2 = "\<lparr>inst = \<lparr>memory = [0, 7, 9, 0, 0, 0, 0, 0, 98, 105, 104, 0, 0, 0, 0, 0], internals = 11 :: u32\<rparr>, calls = [(0, [2]), (0, [1]), (7, [8, 2, 10, 1])]\<rparr>"
  let ?J3 = "\<lparr>inst = \<lparr>memory = [0, 7, 9, 0, 0, 0, 0, 0, 98, 105, 104, 0, 0, 0, 0, 0], internals = 11 :: u32\<rparr>, calls = [(0, [2]), (0, [1]), (7, [8, 2, 10, 1]), (3, [40])]\<rparr>"
  let ?V1 = "\<lparr>inst = \<lparr>memory = [0, 7, 9, 0, 0, 0, 0, 0, 104, 105, 0, 0, 0, 0, 0, 0], internals = 10 :: u32\<rparr>, calls = [(0, [2])]\<rparr>"
  let ?V2 = "\<lparr>inst = \<lparr>memory = [0, 7, 9, 0, 0, 0, 0, 0, 104, 105, 0, 0, 0, 0, 0, 0], internals = 10 :: u32\<rparr>, calls = [(0, [2]), (2, [8, 2])]\<rparr>"
  let ?V3 = "\<lparr>inst = \<lparr>memory = [0, 7, 9, 0, 0, 0, 0, 0, 104, 105, 0, 0, 0, 0, 0, 0], internals = 10 :: u32\<rparr>, calls = [(0, [2]), (2, [8, 2]), (3, [32])]\<rparr>"
  let ?X1 = "\<lparr>inst = \<lparr>memory = [0, 7, 9, 0, 0, 0, 0, 0, 104, 105, 104, 0, 0, 0, 0, 0], internals = 11 :: u32\<rparr>, calls = [(0, [2]), (0, [1])]\<rparr>"
  let ?X2 = "\<lparr>inst = \<lparr>memory = [0, 7, 9, 0, 0, 0, 0, 0, 104, 105, 104, 0, 0, 0, 0, 0], internals = 11 :: u32\<rparr>, calls = [(0, [2]), (0, [1]), (7, [8, 2, 10, 1])]\<rparr>"
  let ?X3 = "\<lparr>inst = \<lparr>memory = [0, 7, 9, 0, 0, 0, 0, 0, 104, 105, 104, 0, 0, 0, 0, 0], internals = 11 :: u32\<rparr>, calls = [(0, [2]), (0, [1]), (7, [8, 2, 10, 1]), (3, [32])]\<rparr>"
  have ha: "fst (New td [104, 105] td_world) = Inr \<lparr>cpointer = 32\<rparr>"
    by (simp add: td_defs shared_defs)
  have ha': "fst (NewWithBase td [104, 105] [104] td_world) = Inr \<lparr>cpointer = 32\<rparr>"
    by (simp add: td_defs shared_defs)
  have hs: "([98, 105] :: bytes) \<noteq> []" "([104] :: bytes) \<noteq> []" "([104, 105] :: bytes) \<noteq> []"
    by simp_all
  have i1: "writeStringToWasm td [98, 105] td_world = (Inr 8, ?I1)"
    by (simp add: td_defs shared_defs)
  have pf: "ExportedFunction td ''ada_parse'' = Some 2" by (simp add: td_defs)
  have i2: "Call td 2 [ucast (8 :: u32), of_nat (length ([98, 105] :: bytes))] ?I1
              = (Inr [40], ?I2)"
    by (simp add: td_defs shared_defs)
  have nz: "(ucast (40 :: u64) :: u32) \<noteq> 0" "(ucast (32 :: u64) :: u32) \<noteq> 0" by simp_all
  have i3: "callAdaBoolFunction td ''ada_is_valid'' (ucast (40 :: u64)) ?I2 = (Inr False, ?I3)"
    by (simp add: td_defs shared_defs)
  have j1: "writeStringToWasm td [104] ?I1 = (Inr 10, ?J1)"
    by (simp add: td_defs shared_defs)
  have pb: "ExportedFunction td ''ada_parse_with_base'' = Some 7" by (simp add: td_defs)
  have j2: "Call td 7 [ucast (8 :: u32), of_nat (length ([98, 105] :: bytes)),
                       ucast (10 :: u32), of_nat (length ([104] :: bytes))] ?J1
              = (Inr [40], ?J2)"
    by (simp add: td_defs shared_defs)
  have j3: "callAdaBoolFunction td ''ada_is_valid'' (ucast (40 :: u64)) ?J2 = (Inr False, ?J3)"
    by (simp add: td_defs shared_defs)
  have v1: "writeStringToWasm td [104, 105] td_world = (Inr 8, ?V1)"
    by (simp add: td_defs shared_defs)
  have v2: "Call td 2 [ucast (8 :: u32), of_nat (length ([104, 105] :: bytes))] ?V1
              = (Inr [32], ?V2)"
    by (simp add: td_defs shared_defs)
  have v3: "callAdaBoolFunction td ''ada_is_valid'' (ucast (32 :: u64)) ?V2 = (Inr True, ?V3)"
    by (simp add: td_defs shared_defs)
  have x1: "writeStringToWasm td [104] ?V1 = (Inr 10, ?X1)"
    by (simp add: td_defs shared_defs)
  have x2: "Call td 7 [ucast (8 :: u32), of_nat (length ([104, 105] :: bytes)),
                       ucast (10 :: u32), of_nat (length ([104] :: bytes))] ?X1
              = (Inr [32], ?X2)"
    by (simp add: td_defs shared_defs)
  have x3: "callAdaBoolFunction td ''ada_is_valid'' (ucast (32 :: u64)) ?X2 = (Inr True, ?X3)"
    by (simp add: td_defs shared_defs)
  have fr: "ExportedFunction td ''ada_free'' = Some 4" "ExportedFunction td ''free'' = Some 1"
    by (simp_all add: td_defs)
  note TI = New_hands_out_only_validated_objects
    [of td "[98, 105]" td_world "\<lparr>cpointer = 32\<rparr>" 8 ?I1 2 40 "[]" ?I2 ?I3
        "[104]" 10 ?J1 7 40 "[]" ?J2 ?J3 td_parser]
  note TV = New_hands_out_only_validated_objects
    [of td "[104, 105]" td_world "\<lparr>cpointer = 32\<rparr>" 8 ?V1 2 32 "[]" ?V2 ?V3
        "[104]" 10 ?X1 7 32 "[]" ?X2 ?X3 td_parser]
  from hs i1 pf i2 nz i3 TI
  have a: "fst (New td [98, 105] td_world) = Inl ErrInvalidUrl"
    and b: "calls (snd (New td [98, 105] td_world)) =
               calls ?I3 @
               (case ExportedFunction td ''ada_free'' of
                  None \<Rightarrow> []
                | Some adaFree \<Rightarrow> [(adaFree, [ucast (ucast (40 :: u64) :: u32)])]) @
               (case ExportedFunction td ''free'' of
                  None \<Rightarrow> []
                | Some f \<Rightarrow> [(f, [ucast (8 :: u32)])])"
    by blast+
  from b fr have b': "calls (snd (New td [98, 105] td_world)) =
       [(0, [2]), (2, [8, 2]), (3, [40]), (4, [40]), (1, [8])]" by simp
  from hs i1 j1 pb j2 nz j3 TI
  have c: "fst (NewWithBase td [98, 105] [104] td_world) = Inl ErrInvalidUrl"
    and d: "calls (snd (NewWithBase td [98, 105] [104] td_world)) =
               calls ?J3 @
               (case ExportedFunction td ''ada_free'' of
                  None \<Rightarrow> []
                | Some adaFree \<Rightarrow> [(adaFree, [ucast (ucast (40 :: u64) :: u32)])]) @
               (case ExportedFunction td ''free'' of
                  None \<Rightarrow> []
                | Some f \<Rightarrow> [(f, [ucast (10 :: u32)]), (f, [ucast (8 :: u32)])])"
    by blast+
  from d fr have d': "calls (snd (NewWithBase td [98, 105] [104] td_world)) =
       [(0, [2]), (0, [1]), (7, [8, 2, 10, 1]), (3, [40]), (4, [40]), (1, [10]), (1, [8])]"
    by simp
  from hs v1 pf v2 nz v3 TV
  have e: "New td [104, 105] td_world = (Inr \<lparr>cpointer = ucast (32 :: u64)\<rparr>, snd (wasmFree td 8 ?V3))"
    by blast
  from hs v1 x1 pb x2 nz x3 TV
  have f: "NewWithBase td [104, 105] [104] td_world =
             (Inr \<lparr>cpointer = ucast (32 :: u64)\<rparr>, snd (wasmFree td 8 (snd (wasmFree td 10 ?X3))))"
    by blast
  from cache_ok_td_parser TI
  have g: "fst (Parser_New td [98, 105] td_parser) = fst (New td [98, 105] (module td_parser))"
    and h: "module (snd (Parser_New td [98, 105] td_parser)) = snd (New td [98, 105] (module td_parser))"
    and i: "fst (Parser_NewWithBase td [98, 105] [104] td_parser) =
              fst (NewWithBase td [98, 105] [104] (module td_parser))"
    by blast+
  from cache_ok_td_parser TV
  have j: "fst (Parser_New td [104, 105] td_parser) = fst (New td [104, 105] (module td_parser))"
    by blast
  from ha TV have k: "cpointer \<lparr>cpointer = 32\<rparr> \<noteq> 0" by blast
  from ha' TV have l: "([104] :: bytes) \<noteq> []" by blast
  have m: "module td_parser = td_world" by (simp add: td_parser_def)
  from ha ha' hs i1 pf i2 nz i3 a b' j1 pb j2 j3 c d' v3 x3 cache_ok_td_parser g h i j e m
  show ?thesis by simp
qed


section \<open>Predicates and accessors\<close>

lemma Call_error_is_CallError: "fst (Call M fn args w) = Inl err \<Longrightarrow> \<exists>e. err = CallError e"
  by (auto simp add: Call_def split: prod.splits sum.splits)

lemma callAdaBoolFunction_missing:
  "ExportedFunction M name = None \<Longrightarrow> callAdaBoolFunction M name ptr w = (Inr False, w)"
  by (simp add: callAdaBoolFunction_def)

lemma callAdaBoolFunction_exported:
  assumes "ExportedFunction M name = Some fn"
  shows "fst (callAdaBoolFunction M name ptr w) =
           (case fst (Call M fn [ucast ptr] w) of
              Inl err \<Rightarrow> Inr False
            | Inr [] \<Rightarrow> Inl PanicIndex
            | Inr (r # rs) \<Rightarrow> Inr (r \<noteq> 0))"
    and "snd (callAdaBoolFunction M name ptr w) = snd (Call M fn [ucast ptr] w)"
  using assms
  by (simp_all add: callAdaBoolFunction_def case_prod_beta split: sum.splits list.splits)

lemma callAdaBoolFunction_calls:
  "ExportedFunction M name = Some fn \<Longrightarrow>
     calls (snd (callAdaBoolFunction M name ptr w)) = calls w @ [(fn, [ucast ptr])]"
  by (simp add: callAdaBoolFunction_exported(2) Call_calls)

lemma callAdaBoolFunction_True_iff:
  "fst (callAdaBoolFunction M name ptr w) = Inr True \<longleftrightarrow>
     (\<exists>fn r rs. ExportedFunction M name = Some fn
        \<and> fst (Call M fn [ucast ptr] w) = Inr (r # rs) \<and> r \<noteq> 0)"
proof (cases "ExportedFunction M name")
  case None
  then show ?thesis by (simp add: callAdaBoolFunction_missing)
next
  case (Some fn)
  then show ?thesis
    by (auto simp add: callAdaBoolFunction_exported(1) split: sum.splits list.splits)
qed

lemma callAdaBoolFunction_error_is_panic:
  assumes "fst (callAdaBoolFunction M name ptr w) = Inl e"
  shows "e = PanicIndex \<and>
     (\<exists>fn. ExportedFunction M name = Some fn \<and> fst (Call M fn [ucast ptr] w) = Inr [])"
proof (cases "ExportedFunction M name")
  case None
  with assms show ?thesis by (simp add: callAdaBoolFunction_missing)
next
  case (Some fn)
  with assms show ?thesis
    by (auto simp add: callAdaBoolFunction_exported(1) split: sum.splits list.splits)
qed

lemma Url_accessor_missing:
  "ExportedFunction M (accessor_export a) = None \<Longrightarrow> Url_accessor M a u w = (Inr [], w)"
  by (simp add: Url_accessor_def)

lemma Url_accessor_exported:
  assumes "ExportedFunction M (accessor_export a) = Some fn"
  shows "fst (Url_accessor M a u w) =
           (case fst (readAdaString M fn (cpointer u) w) of
              Inl err \<Rightarrow> if err = PanicIndex then Inl PanicIndex else Inr []
            | Inr result \<Rightarrow> Inr result)"
    and "snd (Url_accessor M a u w) = snd (readAdaString M fn (cpointer u) w)"
  using assms
  by (simp_all add: Url_accessor_def case_prod_beta split: sum.splits)

lemma Url_accessor_error_is_panic:
  assumes "fst (Url_accessor M a u w) = Inl e"
  shows "e = PanicIndex"
proof (cases "ExportedFunction M (accessor_export a)")
  case None
  with assms show ?thesis by (simp add: Url_accessor_missing)
next
  case (Some fn)
  with assms show ?thesis
    by (auto simp add: Url_accessor_exported(1) split: sum.splits if_splits)
qed

lemma Url_accessor_call_fails:
  assumes "ExportedFunction M (accessor_export a) = Some fn"
    and "wasmMalloc M 8 w = (Inr resultPtr, w1)"
    and "fst (Call M fn [ucast resultPtr, ucast (cpointer u)] w1) = Inl err"
  shows "fst (Url_accessor M a u w) = Inr []"
proof -
  from assms(3) obtain w2 where c: "Call M fn [ucast resultPtr, ucast (cpointer u)] w1 = (Inl err, w2)"
    by (cases "Call M fn [ucast resultPtr, ucast (cpointer u)] w1") simp
  from Call_error_is_CallError [OF assms(3)] have "err \<noteq> PanicIndex" by auto
  with readAdaString_call_error [OF assms(2) c] assms(1) show ?thesis
    by (simp add: Url_accessor_exported(1))
qed

lemma Parser_predicate_ok:
  "cache_ok M p \<Longrightarrow> corresponds M p (Parser_predicate M q u p) (Url_predicate M q u (module p))"
  by (simp add: Parser_predicate_def Url_predicate_def Parser_callAdaBoolFunction_ok)

text \<open>
  C6. For each of the ten boolean predicates and each of the ten field accessors, in both
  variants: when the export the operation needs is missing, the predicate returns false
  and the accessor the empty string, and the state is untouched; when the guest call
  returns an error, the predicate returns false and the accessor the empty string; so does
  the accessor for every other error inside \<open>readAdaString\<close>. No error value ever comes
  out of either (the only \<open>Inl\<close> is the panic of indexing an empty result slice). A
  predicate returns true exactly when its export exists and the guest call returned a
  first result word that is not zero.
\<close>

theorem predicates_and_accessors_swallow_guest_failures:
  "(ExportedFunction M (predicate_export q) = None \<longrightarrow>
      Url_predicate M q u w = (Inr False, w))
   \<and> (ExportedFunction M (predicate_export q) = Some fn \<longrightarrow>
        fst (Call M fn [ucast (cpointer u)] w) = Inl err \<longrightarrow>
        fst (Url_predicate M q u w) = Inr False)
   \<and> (fst (Url_predicate M q u w) = Inr True \<longleftrightarrow>
        (\<exists>fn r rs. ExportedFunction M (predicate_export q) = Some fn
           \<and> fst (Call M fn [ucast (cpointer u)] w) = Inr (r # rs) \<and> r \<noteq> 0))
   \<and> ((\<exists>v. fst (Url_predicate M q u w) = Inr v) \<or> fst (Url_predicate M q u w) = Inl PanicIndex)
   \<and> (ExportedFunction M (accessor_export a) = None \<longrightarrow>
        Url_accessor M a u w = (Inr [], w))
   \<and> (ExportedFunction M (accessor_export a) = Some fn' \<longrightarrow>
        wasmMalloc M 8 w = (Inr resultPtr, w1) \<longrightarrow>
        fst (Call M fn' [ucast resultPtr, ucast (cpointer u)] w1) = Inl err' \<longrightarrow>
        fst (Url_accessor M a u w) = Inr [])
   \<and> (ExportedFunction M (accessor_export a) = Some fn' \<longrightarrow>
        fst (readAdaString M fn' (cpointer u) w) = Inl err' \<longrightarrow> err' \<noteq> PanicIndex \<longrightarrow>
        fst (Url_accessor M a u w) = Inr [])
   \<and> ((\<exists>v. fst (Url_accessor M a u w) = Inr v) \<or> fst (Url_accessor M a u w) = Inl PanicIndex)
   \<and> (cache_ok M p \<longrightarrow>
        fst (Parser_predicate M q u p) = fst (Url_predicate M q u (module p))
        \<and> module (snd (Parser_predicate M q u p)) = snd (Url_predicate M q u (module p))
        \<and> fst (Parser_accessor M a u p) = fst (Url_accessor M a u (module p))
        \<and> module (snd (Parser_accessor M a u p)) = snd (Url_accessor M a u (module p)))"
proof -
  note a = callAdaBoolFunction_missing [of M "predicate_export q" "cpointer u" w]
    and b = callAdaBoolFunction_exported(1) [of M "predicate_export q" fn "cpointer u" w]
    and c = callAdaBoolFunction_True_iff [of M "predicate_export q" "cpointer u" w]
    and d = callAdaBoolFunction_error_is_panic [of M "predicate_export q" "cpointer u" w]
    and e = Url_accessor_missing [of M a u w]
    and f = Url_accessor_call_fails [of M a fn' w resultPtr w1 u err']
    and g = Url_accessor_exported(1) [of M a fn' u w]
    and h = Url_accessor_error_is_panic [of M a u w]
    and i = Parser_predicate_ok [of M p q u, unfolded corresponds_def]
    and j = Parser_accessor_ok [of M p a u, unfolded corresponds_def]
  have b': "fst (Url_predicate M q u w) = Inr False"
    if "ExportedFunction M (predicate_export q) = Some fn"
      and "fst (Call M fn [ucast (cpointer u)] w) = Inl err"
    using b [OF that(1)] that(2) by (simp add: Url_predicate_def)
  have g': "fst (Url_accessor M a u w) = Inr []"
    if "ExportedFunction M (accessor_export a) = Some fn'"
      and "fst (readAdaString M fn' (cpointer u) w) = Inl err'" and "err' \<noteq> PanicIndex"
    using g [OF that(1)] that(2,3) by simp
  show ?thesis
    apply (intro conjI impI)
    using a apply (simp add: Url_predicate_def)
    using b' apply blast
    using c apply (simp add: Url_predicate_def)
    using d apply (cases "fst (Url_predicate M q u w)"; simp add: Url_predicate_def)
    using e apply blast
    using f apply blast
    using g' apply blast
    using h apply (cases "fst (Url_accessor M a u w)"; simp)
    using i apply blast
    using i apply blast
    using j apply blast
    using j apply blast
    done
qed


theorem predicates_and_accessors_swallow_guest_failures_witness:
  "ExportedFunction td (predicate_export HasPort) = None
   \<and> Url_predicate td HasPort \<lparr>cpointer = 32\<rparr> td_world = (Inr False, td_world)
   \<and> ExportedFunction td (predicate_export HasHash) = Some 6
   \<and> fst (Call td 6 [32] td_world) = Inl (CallError ''trap'')
   \<and> fst (Url_predicate td HasHash \<lparr>cpointer = 32\<rparr> td_world) = Inr False
   \<and> ExportedFunction td (predicate_export Valid) = Some 3
   \<and> fst (Call td 3 [32] td_world) = Inr [1]
   \<and> fst (Url_predicate td Valid \<lparr>cpointer = 32\<rparr> td_world) = Inr True
   \<and> ExportedFunction td (accessor_export Port) = None
   \<and> Url_accessor td Port \<lparr>cpointer = 32\<rparr> td_world = (Inr [], td_world)
   \<and> ExportedFunction td (accessor_export Host) = Some 6
   \<and> wasmMalloc td 8 td_world = (Inr 8, \<lparr>inst = \<lparr>memory = [0, 7, 9, 0, 0, 0, 0, 0, 0, 0, 0, 0, 0, 0, 0, 0], internals = 16 :: u32\<rparr>, calls = [(0, [8])]\<rparr>)
   \<and> fst (Call td 6 [8, 32] \<lparr>inst = \<lparr>memory = [0, 7, 9, 0, 0, 0, 0, 0, 0, 0, 0, 0, 0, 0, 0, 0], internals = 16 :: u32\<rparr>, calls = [(0, [8])]\<rparr>) = Inl (CallError ''trap'')
   \<and> fst (readAdaString td 6 32 td_world) = Inl (CallError ''trap'')
   \<and> CallError ''trap'' \<noteq> PanicIndex
   \<and> fst (Url_accessor td Host \<lparr>cpointer = 32\<rparr> td_world) = Inr []
   \<and> cache_ok td td_parser
   \<and> fst (Parser_predicate td HasHash \<lparr>cpointer = 32\<rparr> td_parser) = Inr False
   \<and> fst (Parser_accessor td Host \<lparr>cpointer = 32\<rparr> td_parser) = Inr []"
proof -
  let ?u = "\<lparr>cpointer = 32\<rparr>"
  let ?w1 = "\<lparr>inst = \<lparr>memory = [0, 7, 9, 0, 0, 0, 0, 0, 0, 0, 0, 0, 0, 0, 0, 0], internals = 16 :: u32\<rparr>, calls = [(0, [8])]\<rparr>"
  have h1: "ExportedFunction td (predicate_export HasPort) = None" by (simp add: td_defs)
  have h2: "ExportedFunction td (predicate_export HasHash) = Some 6" by (simp add: td_defs)
  have h3: "fst (Call td 6 [ucast (cpointer ?u)] td_world) = Inl (CallError ''trap'')"
    by (simp add: td_defs shared_defs)
  have h4: "ExportedFunction td (predicate_export Valid) = Some 3" by (simp add: td_defs)
  have h5: "fst (Call td 3 [ucast (cpointer ?u)] td_world) = Inr [1]"
    by (simp add: td_defs shared_defs)
  have h6: "ExportedFunction td (accessor_export Port) = None" by (simp add: td_defs)
  have h7: "ExportedFunction td (accessor_export Host) = Some 6" by (simp add: td_defs)
  have h8: "wasmMalloc td 8 td_world = (Inr 8, ?w1)" by (simp add: td_defs shared_defs)
  have h9: "fst (Call td 6 [ucast (8 :: u32), ucast (cpointer ?u)] ?w1) = Inl (CallError ''trap'')"
    by (simp add: td_defs shared_defs)
  have h10: "fst (readAdaString td 6 (cpointer ?u) td_world) = Inl (CallError ''trap'')"
    by (simp add: td_defs shared_defs)
  have h11: "CallError ''trap'' \<noteq> PanicIndex" by simp
  note T1 = predicates_and_accessors_swallow_guest_failures
    [of td HasPort ?u td_world 6 "CallError ''trap''" Port 6 8 ?w1 "CallError ''trap''" td_parser]
  note T2 = predicates_and_accessors_swallow_guest_failures
    [of td HasHash ?u td_world 6 "CallError ''trap''" Host 6 8 ?w1 "CallError ''trap''" td_parser]
  note T3 = predicates_and_accessors_swallow_guest_failures
    [of td Valid ?u td_world 3 "CallError ''trap''" Host 6 8 ?w1 "CallError ''trap''" td_parser]
  from h1 T1 have a: "Url_predicate td HasPort ?u td_world = (Inr False, td_world)" by blast
  from h2 h3 T2 have b: "fst (Url_predicate td HasHash ?u td_world) = Inr False" by blast
  from h4 h5 T3 have c: "fst (Url_predicate td Valid ?u td_world) = Inr True" by auto
  from h6 T1 have d: "Url_accessor td Port ?u td_world = (Inr [], td_world)" by blast
  from h7 h8 h9 T2 have e: "fst (Url_accessor td Host ?u td_world) = Inr []" by blast
  from h7 h10 h11 T2 have e': "fst (Url_accessor td Host ?u td_world) = Inr []" by blast
  from cache_ok_td_parser T2
  have f: "fst (Parser_predicate td HasHash ?u td_parser) =
             fst (Url_predicate td HasHash ?u (module td_parser))"
    and g: "fst (Parser_accessor td Host ?u td_parser) =
             fst (Url_accessor td Host ?u (module td_parser))"
    by blast+
  have m: "module td_parser = td_world" by (simp add: td_parser_def)
  from h1 h2 h3 h4 h5 h6 h7 h8 h9 h10 h11 a b c d e f g m cache_ok_td_parser
  show ?thesis by simp
qed


section \<open>Operations on a freed handle\<close>

lemma free_fst: "fst (free M u w) = u\<lparr>cpointer := 0\<rparr>"
  by (simp add: free_def split: option.splits)

lemma ada_free_fst: "fst (ada_free M u p) = u\<lparr>cpointer := 0\<rparr>"
  by (simp add: ada_free_def split: option.splits prod.splits)

lemma allSetterBoolWithLock_calls:
  assumes "ExportedFunction M name = Some fn" and "writeStringToWasm M v w = (Inr valuePtr, w1)"
  shows "calls (snd (allSetterBoolWithLock M name v u w)) =
           calls w1 @ [(fn, [ucast (cpointer u), ucast valuePtr, of_nat (length v)])] @
           (case ExportedFunction M ''free'' of
              None \<Rightarrow> []
            | Some f \<Rightarrow> [(f, [ucast valuePtr])])"
proof -
  let ?args = "[ucast (cpointer u), ucast valuePtr, of_nat (length v)]"
  have "snd (allSetterBoolWithLock M name v u w) = snd (wasmFree M valuePtr (snd (Call M fn ?args w1)))"
    using assms
    by (simp add: allSetterBoolWithLock_def case_prod_beta split: sum.splits list.splits)
  then show ?thesis by (simp add: wasmFree_calls Call_calls)
qed

lemma callSetterVoidWithLock_calls:
  assumes "ExportedFunction M name = Some fn" and "writeStringToWasm M v w = (Inr valuePtr, w1)"
  shows "calls (snd (callSetterVoidWithLock M name v u w)) =
           calls w1 @ [(fn, [ucast (cpointer u), ucast valuePtr, of_nat (length v)])] @
           (case ExportedFunction M ''free'' of
              None \<Rightarrow> []
            | Some f \<Rightarrow> [(f, [ucast valuePtr])])"
  using assms by (simp add: callSetterVoidWithLock_def wasmFree_calls Call_calls)

lemma Parser_setter_ok:
  "cache_ok M p \<Longrightarrow> corresponds M p (Parser_setter M t v u p) (Url_setter M t v u (module p))"
  by (simp add: Parser_setter_def Url_setter_def callSetterBool_ok)

lemma Parser_SetSearch_ok:
  "cache_ok M p \<Longrightarrow> corresponds M p (Parser_SetSearch M v u p) (SetSearch M v u (module p))"
  by (simp add: Parser_SetSearch_def SetSearch_def callSetterVoid_ok)

lemma Parser_SetHash_ok:
  "cache_ok M p \<Longrightarrow> corresponds M p (Parser_SetHash M v u p) (SetHash M v u (module p))"
  by (simp add: Parser_SetHash_def SetHash_def callSetterVoid_ok)

lemma Url_predicate_exported:
  assumes "ExportedFunction M (predicate_export q) = Some fn"
  shows "Url_predicate M q u w =
           ((case fst (Call M fn [ucast (cpointer u)] w) of
               Inl err \<Rightarrow> Inr False
             | Inr [] \<Rightarrow> Inl PanicIndex
             | Inr (r # rs) \<Rightarrow> Inr (r \<noteq> 0)),
            snd (Call M fn [ucast (cpointer u)] w))"
  using callAdaBoolFunction_exported [OF assms, of "cpointer u" w]
  by (simp add: Url_predicate_def prod_eq_iff)

lemma Url_accessor_decoded:
  assumes "ExportedFunction M (accessor_export a) = Some fn"
    and "wasmMalloc M 8 w = (Inr resultPtr, w1)"
    and "Call M fn [ucast resultPtr, ucast (cpointer u)] w1 = (Inr rs, w2)"
    and "Memory_Read w2 resultPtr 8 = Some rb"
  shows "Url_accessor M a u w =
           ((if le_uint32 (take 4 rb) = 0 \<or> le_uint32 (drop 4 rb) = 0 then Inr []
             else (case Memory_Read w2 (le_uint32 (take 4 rb)) (le_uint32 (drop 4 rb)) of
                     None \<Rightarrow> Inr []
                   | Some stringBytes \<Rightarrow> Inr stringBytes)),
            snd (wasmFree M resultPtr w2))"
proof -
  have "fst (Url_accessor M a u w) =
           (if le_uint32 (take 4 rb) = 0 \<or> le_uint32 (drop 4 rb) = 0 then Inr []
             else (case Memory_Read w2 (le_uint32 (take 4 rb)) (le_uint32 (drop 4 rb)) of
                     None \<Rightarrow> Inr []
                   | Some stringBytes \<Rightarrow> Inr stringBytes))"
    using readAdaString_decoded [OF assms(2-4)]
    by (simp add: Url_accessor_exported(1) [OF assms(1)] split: option.splits)
  moreover have "snd (Url_accessor M a u w) = snd (wasmFree M resultPtr w2)"
    using readAdaString_after_malloc [OF assms(2), of fn "cpointer u"] assms(3)
    by (simp add: Url_accessor_exported(2) [OF assms(1)])
  ultimately show ?thesis by (simp add: prod_eq_iff)
qed

lemma Url_accessor_call_error:
  assumes "ExportedFunction M (accessor_export a) = Some fn"
    and "wasmMalloc M 8 w = (Inr resultPtr, w1)"
    and "Call M fn [ucast resultPtr, ucast (cpointer u)] w1 = (Inl err, w2)"
  shows "Url_accessor M a u w = (Inr [], snd (wasmFree M resultPtr w2))"
proof -
  from assms(3) have "fst (Call M fn [ucast resultPtr, ucast (cpointer u)] w1) = Inl err"
    by simp
  from Url_accessor_call_fails [OF assms(1,2) this]
  have "fst (Url_accessor M a u w) = Inr []" .
  moreover have "snd (Url_accessor M a u w) = snd (wasmFree M resultPtr w2)"
    using readAdaString_after_malloc [OF assms(2), of fn "cpointer u"] assms(3)
    by (simp add: Url_accessor_exported(2) [OF assms(1)])
  ultimately show ?thesis by (simp add: prod_eq_iff)
qed

lemma allSetterBoolWithLock_result:
  assumes "ExportedFunction M name = Some fn" and "writeStringToWasm M v w = (Inr valuePtr, w1)"
  shows "allSetterBoolWithLock M name v u w =
           ((case fst (Call M fn [ucast (cpointer u), ucast valuePtr, of_nat (length v)] w1) of
               Inl err \<Rightarrow> Inr False
             | Inr [] \<Rightarrow> Inl PanicIndex
             | Inr (r # rs) \<Rightarrow> Inr (r \<noteq> 0)),
            snd (wasmFree M valuePtr
                   (snd (Call M fn [ucast (cpointer u), ucast valuePtr, of_nat (length v)] w1))))"
  using assms
  by (simp add: allSetterBoolWithLock_def case_prod_beta split: sum.splits list.splits)

lemma allSetterBoolWithLock_write_fails:
  assumes "ExportedFunction M name = Some fn" and "writeStringToWasm M v w = (Inl err, w1)"
  shows "allSetterBoolWithLock M name v u w =
           ((if err = PanicIndex then Inl PanicIndex else Inr False), w1)"
  using assms by (simp add: allSetterBoolWithLock_def)

lemma callSetterVoidWithLock_result:
  assumes "ExportedFunction M name = Some fn" and "writeStringToWasm M v w = (Inr valuePtr, w1)"
  shows "callSetterVoidWithLock M name v u w =
           (Inr (), snd (wasmFree M valuePtr
                      (snd (Call M fn [ucast (cpointer u), ucast valuePtr, of_nat (length v)] w1))))"
  using assms by (simp add: callSetterVoidWithLock_def)

lemma callSetterVoidWithLock_write_fails:
  assumes "ExportedFunction M name = Some fn" and "writeStringToWasm M v w = (Inl err, w1)"
  shows "callSetterVoidWithLock M name v u w =
           ((if err = PanicIndex then Inl PanicIndex else Inr ()), w1)"
  using assms by (simp add: callSetterVoidWithLock_def)

text \<open>
  C8, as the code has it. No operation tests whether its handle has been freed. After
  \<open>Free\<close> the handle's pointer is 0, and a predicate, an accessor or a setter invoked on it
  runs as on any handle: it calls its guest export with 0 (the null sentinel, not the
  pointer the handle had) as the object argument, and what it returns is what the guest's
  answer to that call yields. A predicate returns true exactly when the guest answers with
  a non-zero first result word, false for a zero word or a failed call (an empty result
  list is the panic of \<open>results[0]\<close>), and leaves the world the call left. An accessor returns
  what \<open>readAdaString\<close> gives for the pointer 0, an error of it becoming the empty string:
  when the getter call succeeds and the result struct is read, the bytes the struct points
  at, or the empty string when the struct holds a zero or points outside the memory; when
  the getter call fails, the empty string; and the scratch buffer is released after the
  call. A setter whose value was written to guest memory at \<open>valuePtr\<close> calls its export
  with \<open>(0, valuePtr, len(value))\<close> and releases the block after the call; the boolean
  setters return whether the first result word is non-zero (false when the call fails),
  \<open>SetSearch\<close> and \<open>SetHash\<close> return no error. When the value cannot be written, no setter
  call is made: the boolean setters return false, the other two nothing. The parser
  variant returns the same values and leaves the same world.
\<close>

theorem operations_on_freed_handle_call_guest_with_null_pointer:
  "cpointer (fst (Free M u w)) = 0
   \<and> fst (Parser_Free M u p) = fst (Free M u w)
   \<and> (ExportedFunction M (predicate_export q) = Some fn \<longrightarrow>
        calls (snd (Url_predicate M q (fst (Free M u w)) w')) = calls w' @ [(fn, [0])]
        \<and> (fst (Url_predicate M q (fst (Free M u w)) w') = Inr True \<longleftrightarrow>
             (\<exists>r rs. fst (Call M fn [0] w') = Inr (r # rs) \<and> r \<noteq> 0)))
   \<and> (ExportedFunction M (accessor_export a) = Some getter \<longrightarrow>
        wasmMalloc M 8 w' = (Inr resultPtr, w1) \<longrightarrow>
        calls (snd (Url_accessor M a (fst (Free M u w)) w')) =
          calls w1 @ [(getter, [ucast resultPtr, 0])] @
          (case ExportedFunction M ''free'' of
             None \<Rightarrow> []
           | Some f \<Rightarrow> [(f, [ucast resultPtr])]))
   \<and> (ExportedFunction M (setter_export t) = Some setter \<longrightarrow>
        writeStringToWasm M v w' = (Inr valuePtr, w2) \<longrightarrow>
        calls (snd (Url_setter M t v (fst (Free M u w)) w')) =
          calls w2 @ [(setter, [0, ucast valuePtr, of_nat (length v)])] @
          (case ExportedFunction M ''free'' of
             None \<Rightarrow> []
           | Some f \<Rightarrow> [(f, [ucast valuePtr])]))
   \<and> (ExportedFunction M ''ada_set_search'' = Some setSearch \<longrightarrow>
        writeStringToWasm M v w' = (Inr valuePtr, w2) \<longrightarrow>
        calls (snd (SetSearch M v (fst (Free M u w)) w')) =
          calls w2 @ [(setSearch, [0, ucast valuePtr, of_nat (length v)])] @
          (case ExportedFunction M ''free'' of
             None \<Rightarrow> []
           | Some f \<Rightarrow> [(f, [ucast valuePtr])]))
   \<and> (ExportedFunction M ''ada_set_hash'' = Some setHash \<longrightarrow>
        writeStringToWasm M v w' = (Inr valuePtr, w2) \<longrightarrow>
        calls (snd (SetHash M v (fst (Free M u w)) w')) =
          calls w2 @ [(setHash, [0, ucast valuePtr, of_nat (length v)])] @
          (case ExportedFunction M ''free'' of
             None \<Rightarrow> []
           | Some f \<Rightarrow> [(f, [ucast valuePtr])]))
   \<and> (cache_ok M p' \<longrightarrow>
        fst (Parser_predicate M q (fst (Parser_Free M u p)) p') =
          fst (Url_predicate M q (fst (Free M u w)) (module p'))
        \<and> module (snd (Parser_predicate M q (fst (Parser_Free M u p)) p')) =
            snd (Url_predicate M q (fst (Free M u w)) (module p'))
        \<and> fst (Parser_accessor M a (fst (Parser_Free M u p)) p') =
            fst (Url_accessor M a (fst (Free M u w)) (module p'))
        \<and> module (snd (Parser_accessor M a (fst (Parser_Free M u p)) p')) =
            snd (Url_accessor M a (fst (Free M u w)) (module p'))
        \<and> fst (Parser_setter M t v (fst (Parser_Free M u p)) p') =
            fst (Url_setter M t v (fst (Free M u w)) (module p'))
        \<and> module (snd (Parser_setter M t v (fst (Parser_Free M u p)) p')) =
            snd (Url_setter M t v (fst (Free M u w)) (module p'))
        \<and> module (snd (Parser_SetSearch M v (fst (Parser_Free M u p)) p')) =
            snd (SetSearch M v (fst (Free M u w)) (module p'))
        \<and> module (snd (Parser_SetHash M v (fst (Parser_Free M u p)) p')) =
            snd (SetHash M v (fst (Free M u w)) (module p')))
   \<and> (ExportedFunction M (predicate_export q) = Some fn \<longrightarrow>
        Url_predicate M q (fst (Free M u w)) w' =
          ((case fst (Call M fn [0] w') of
              Inl err \<Rightarrow> Inr False
            | Inr [] \<Rightarrow> Inl PanicIndex
            | Inr (r # rs) \<Rightarrow> Inr (r \<noteq> 0)),
           snd (Call M fn [0] w')))
   \<and> (ExportedFunction M (accessor_export a) = Some getter \<longrightarrow>
        Url_accessor M a (fst (Free M u w)) w' =
          ((case fst (readAdaString M getter 0 w') of
              Inl err \<Rightarrow> if err = PanicIndex then Inl PanicIndex else Inr []
            | Inr result \<Rightarrow> Inr result),
           snd (readAdaString M getter 0 w')))
   \<and> (ExportedFunction M (accessor_export a) = Some getter \<longrightarrow>
        wasmMalloc M 8 w' = (Inr resultPtr, w1) \<longrightarrow>
        Call M getter [ucast resultPtr, 0] w1 = (Inr rs, w3) \<longrightarrow>
        Memory_Read w3 resultPtr 8 = Some rb \<longrightarrow>
        Url_accessor M a (fst (Free M u w)) w' =
          ((if le_uint32 (take 4 rb) = 0 \<or> le_uint32 (drop 4 rb) = 0 then Inr []
            else (case Memory_Read w3 (le_uint32 (take 4 rb)) (le_uint32 (drop 4 rb)) of
                    None \<Rightarrow> Inr []
                  | Some stringBytes \<Rightarrow> Inr stringBytes)),
           snd (wasmFree M resultPtr w3)))
   \<and> (ExportedFunction M (accessor_export a) = Some getter \<longrightarrow>
        wasmMalloc M 8 w' = (Inr resultPtr, w1) \<longrightarrow>
        Call M getter [ucast resultPtr, 0] w1 = (Inl err, w3) \<longrightarrow>
        Url_accessor M a (fst (Free M u w)) w' = (Inr [], snd (wasmFree M resultPtr w3)))
   \<and> (ExportedFunction M (setter_export t) = Some setter \<longrightarrow>
        writeStringToWasm M v w' = (Inr valuePtr, w2) \<longrightarrow>
        Url_setter M t v (fst (Free M u w)) w' =
          ((case fst (Call M setter [0, ucast valuePtr, of_nat (length v)] w2) of
              Inl err \<Rightarrow> Inr False
            | Inr [] \<Rightarrow> Inl PanicIndex
            | Inr (r # rs) \<Rightarrow> Inr (r \<noteq> 0)),
           snd (wasmFree M valuePtr
                  (snd (Call M setter [0, ucast valuePtr, of_nat (length v)] w2)))))
   \<and> (ExportedFunction M ''ada_set_search'' = Some setSearch \<longrightarrow>
        writeStringToWasm M v w' = (Inr valuePtr, w2) \<longrightarrow>
        SetSearch M v (fst (Free M u w)) w' =
          (Inr (), snd (wasmFree M valuePtr
                          (snd (Call M setSearch [0, ucast valuePtr, of_nat (length v)] w2)))))
   \<and> (ExportedFunction M ''ada_set_hash'' = Some setHash \<longrightarrow>
        writeStringToWasm M v w' = (Inr valuePtr, w2) \<longrightarrow>
        SetHash M v (fst (Free M u w)) w' =
          (Inr (), snd (wasmFree M valuePtr
                          (snd (Call M setHash [0, ucast valuePtr, of_nat (length v)] w2)))))
   \<and> (writeStringToWasm M v w' = (Inl err, w2) \<longrightarrow>
        (ExportedFunction M (setter_export t) = Some setter \<longrightarrow>
           Url_setter M t v (fst (Free M u w)) w' =
             ((if err = PanicIndex then Inl PanicIndex else Inr False), w2))
        \<and> (ExportedFunction M ''ada_set_search'' = Some setSearch \<longrightarrow>
             SetSearch M v (fst (Free M u w)) w' =
               ((if err = PanicIndex then Inl PanicIndex else Inr ()), w2))
        \<and> (ExportedFunction M ''ada_set_hash'' = Some setHash \<longrightarrow>
             SetHash M v (fst (Free M u w)) w' =
               ((if err = PanicIndex then Inl PanicIndex else Inr ()), w2)))
   \<and> (cache_ok M p' \<longrightarrow>
        fst (Parser_SetSearch M v (fst (Parser_Free M u p)) p') =
          fst (SetSearch M v (fst (Free M u w)) (module p'))
        \<and> fst (Parser_SetHash M v (fst (Parser_Free M u p)) p') =
            fst (SetHash M v (fst (Free M u w)) (module p')))"
proof -
  let ?u = "fst (Free M u w)"
  have z: "cpointer ?u = 0" by (simp add: Free_def free_cleared)
  have same: "fst (Parser_Free M u p) = ?u"
    by (simp add: Parser_Free_def Free_def free_fst ada_free_fst)
  have a: "calls (snd (Url_predicate M q ?u w')) = calls w' @ [(fn, [0])]"
    if "ExportedFunction M (predicate_export q) = Some fn"
    using callAdaBoolFunction_calls [OF that, of "cpointer ?u" w'] z
    by (simp add: Url_predicate_def)
  have b: "fst (Url_predicate M q ?u w') = Inr True \<longleftrightarrow>
             (\<exists>r rs. fst (Call M fn [0] w') = Inr (r # rs) \<and> r \<noteq> 0)"
    if "ExportedFunction M (predicate_export q) = Some fn"
    using callAdaBoolFunction_True_iff [of M "predicate_export q" "cpointer ?u" w'] that z
    by (simp add: Url_predicate_def)
  have c: "calls (snd (Url_accessor M a ?u w')) =
          calls w1 @ [(getter, [ucast resultPtr, 0])] @
          (case ExportedFunction M ''free'' of
             None \<Rightarrow> []
           | Some f \<Rightarrow> [(f, [ucast resultPtr])])"
    if "ExportedFunction M (accessor_export a) = Some getter"
      and "wasmMalloc M 8 w' = (Inr resultPtr, w1)"
    using Url_accessor_exported(2) [OF that(1), of ?u w']
      readAdaString_calls [OF that(2), of getter "cpointer ?u"] z
    by simp
  have d: "calls (snd (Url_setter M t v ?u w')) =
          calls w2 @ [(setter, [0, ucast valuePtr, of_nat (length v)])] @
          (case ExportedFunction M ''free'' of
             None \<Rightarrow> []
           | Some f \<Rightarrow> [(f, [ucast valuePtr])])"
    if "ExportedFunction M (setter_export t) = Some setter"
      and "writeStringToWasm M v w' = (Inr valuePtr, w2)"
    using allSetterBoolWithLock_calls [OF that, of ?u] z by (simp add: Url_setter_def)
  have e: "calls (snd (SetSearch M v ?u w')) =
          calls w2 @ [(setSearch, [0, ucast valuePtr, of_nat (length v)])] @
          (case ExportedFunction M ''free'' of
             None \<Rightarrow> []
           | Some f \<Rightarrow> [(f, [ucast valuePtr])])"
    if "ExportedFunction M ''ada_set_search'' = Some setSearch"
      and "writeStringToWasm M v w' = (Inr valuePtr, w2)"
    using callSetterVoidWithLock_calls [OF that, of ?u] z by (simp add: SetSearch_def)
  have f: "calls (snd (SetHash M v ?u w')) =
          calls w2 @ [(setHash, [0, ucast valuePtr, of_nat (length v)])] @
          (case ExportedFunction M ''free'' of
             None \<Rightarrow> []
           | Some f \<Rightarrow> [(f, [ucast valuePtr])])"
    if "ExportedFunction M ''ada_set_hash'' = Some setHash"
      and "writeStringToWasm M v w' = (Inr valuePtr, w2)"
    using callSetterVoidWithLock_calls [OF that, of ?u] z by (simp add: SetHash_def)
  note g = Parser_predicate_ok [of M p' q ?u, unfolded corresponds_def]
    and h = Parser_accessor_ok [of M p' a ?u, unfolded corresponds_def]
    and i = Parser_setter_ok [of M p' t v ?u, unfolded corresponds_def]
    and j = Parser_SetSearch_ok [of M p' v ?u, unfolded corresponds_def]
    and k = Parser_SetHash_ok [of M p' v ?u, unfolded corresponds_def]
  have pa: "Url_predicate M q ?u w' =
          ((case fst (Call M fn [0] w') of
              Inl err \<Rightarrow> Inr False
            | Inr [] \<Rightarrow> Inl PanicIndex
            | Inr (r # rs) \<Rightarrow> Inr (r \<noteq> 0)),
           snd (Call M fn [0] w'))"
    if "ExportedFunction M (predicate_export q) = Some fn"
    using Url_predicate_exported [where u = ?u and w = w', OF that] z by simp
  have aa: "Url_accessor M a ?u w' =
          ((case fst (readAdaString M getter 0 w') of
              Inl err \<Rightarrow> if err = PanicIndex then Inl PanicIndex else Inr []
            | Inr result \<Rightarrow> Inr result),
           snd (readAdaString M getter 0 w'))"
    if "ExportedFunction M (accessor_export a) = Some getter"
    using Url_accessor_exported [where u = ?u and w = w', OF that] z by (simp add: prod_eq_iff)
  have ab: "Url_accessor M a ?u w' =
          ((if le_uint32 (take 4 rb) = 0 \<or> le_uint32 (drop 4 rb) = 0 then Inr []
            else (case Memory_Read w3 (le_uint32 (take 4 rb)) (le_uint32 (drop 4 rb)) of
                    None \<Rightarrow> Inr []
                  | Some stringBytes \<Rightarrow> Inr stringBytes)),
           snd (wasmFree M resultPtr w3))"
    if "ExportedFunction M (accessor_export a) = Some getter"
      and "wasmMalloc M 8 w' = (Inr resultPtr, w1)"
      and "Call M getter [ucast resultPtr, 0] w1 = (Inr rs, w3)"
      and "Memory_Read w3 resultPtr 8 = Some rb"
    using Url_accessor_decoded [where u = ?u and rs = rs and ?w2.0 = w3 and rb = rb, OF that(1,2)] that(3,4) z by simp
  have ac: "Url_accessor M a ?u w' = (Inr [], snd (wasmFree M resultPtr w3))"
    if "ExportedFunction M (accessor_export a) = Some getter"
      and "wasmMalloc M 8 w' = (Inr resultPtr, w1)"
      and "Call M getter [ucast resultPtr, 0] w1 = (Inl err, w3)"
    using Url_accessor_call_error [where u = ?u and err = err and ?w2.0 = w3, OF that(1,2)] that(3) z by simp
  have sa: "Url_setter M t v ?u w' =
          ((case fst (Call M setter [0, ucast valuePtr, of_nat (length v)] w2) of
              Inl err \<Rightarrow> Inr False
            | Inr [] \<Rightarrow> Inl PanicIndex
            | Inr (r # rs) \<Rightarrow> Inr (r \<noteq> 0)),
           snd (wasmFree M valuePtr
                  (snd (Call M setter [0, ucast valuePtr, of_nat (length v)] w2))))"
    if "ExportedFunction M (setter_export t) = Some setter"
      and "writeStringToWasm M v w' = (Inr valuePtr, w2)"
    using allSetterBoolWithLock_result [where u = ?u, OF that] z by (simp add: Url_setter_def)
  have sb: "SetSearch M v ?u w' =
          (Inr (), snd (wasmFree M valuePtr
                          (snd (Call M setSearch [0, ucast valuePtr, of_nat (length v)] w2))))"
    if "ExportedFunction M ''ada_set_search'' = Some setSearch"
      and "writeStringToWasm M v w' = (Inr valuePtr, w2)"
    using callSetterVoidWithLock_result [where u = ?u, OF that] z by (simp add: SetSearch_def)
  have sc: "SetHash M v ?u w' =
          (Inr (), snd (wasmFree M valuePtr
                          (snd (Call M setHash [0, ucast valuePtr, of_nat (length v)] w2))))"
    if "ExportedFunction M ''ada_set_hash'' = Some setHash"
      and "writeStringToWasm M v w' = (Inr valuePtr, w2)"
    using callSetterVoidWithLock_result [where u = ?u, OF that] z by (simp add: SetHash_def)
  have sd: "Url_setter M t v ?u w' = ((if err = PanicIndex then Inl PanicIndex else Inr False), w2)"
    if "writeStringToWasm M v w' = (Inl err, w2)"
      and "ExportedFunction M (setter_export t) = Some setter"
    using allSetterBoolWithLock_write_fails [where u = ?u, OF that(2,1)] by (simp add: Url_setter_def)
  have se: "SetSearch M v ?u w' = ((if err = PanicIndex then Inl PanicIndex else Inr ()), w2)"
    if "writeStringToWasm M v w' = (Inl err, w2)"
      and "ExportedFunction M ''ada_set_search'' = Some setSearch"
    using callSetterVoidWithLock_write_fails [where u = ?u, OF that(2,1)] by (simp add: SetSearch_def)
  have sf: "SetHash M v ?u w' = ((if err = PanicIndex then Inl PanicIndex else Inr ()), w2)"
    if "writeStringToWasm M v w' = (Inl err, w2)"
      and "ExportedFunction M ''ada_set_hash'' = Some setHash"
    using callSetterVoidWithLock_write_fails [where u = ?u, OF that(2,1)] by (simp add: SetHash_def)
  show ?thesis
    unfolding same
    apply (intro conjI impI)
    using z apply blast
    apply (rule refl)
    using a apply blast
    using b apply blast
    using c apply blast
    using d apply blast
    using e apply blast
    using f apply blast
    using g apply blast
    using g apply blast
    using h apply blast
    using h apply blast
    using i apply blast
    using i apply blast
    using j apply blast
    using k apply blast
    using pa apply blast
    using aa apply blast
    using ab apply blast
    using ac apply blast
    using sa apply blast
    using sb apply blast
    using sc apply blast
    using sd apply blast
    using se apply blast
    using sf apply blast
    using j apply blast
    using k apply blast
    done
qed

theorem operations_on_freed_handle_call_guest_with_null_pointer_witness:
  "ExportedFunction td (predicate_export Valid) = Some 3
   \<and> fst (Free td \<lparr>cpointer = 32\<rparr> td_world) = \<lparr>cpointer = 0\<rparr>
   \<and> calls (snd (Url_predicate td Valid (fst (Free td \<lparr>cpointer = 32\<rparr> td_world)) \<lparr>inst = \<lparr>memory = [0, 7, 9, 0, 0, 0, 0, 0, 0, 0, 0, 0, 0, 0, 0, 0], internals = 8 :: u32\<rparr>, calls = [(4, [32])]\<rparr>))
       = [(4, [32]), (3, [0])]
   \<and> fst (Call td 3 [0] \<lparr>inst = \<lparr>memory = [0, 7, 9, 0, 0, 0, 0, 0, 0, 0, 0, 0, 0, 0, 0, 0], internals = 8 :: u32\<rparr>, calls = [(4, [32])]\<rparr>) = Inr [1]
   \<and> fst (Url_predicate td Valid (fst (Free td \<lparr>cpointer = 32\<rparr> td_world)) \<lparr>inst = \<lparr>memory = [0, 7, 9, 0, 0, 0, 0, 0, 0, 0, 0, 0, 0, 0, 0, 0], internals = 8 :: u32\<rparr>, calls = [(4, [32])]\<rparr>) = Inr True
   \<and> ExportedFunction td (accessor_export Href) = Some 5
   \<and> wasmMalloc td 8 \<lparr>inst = \<lparr>memory = [0, 7, 9, 0, 0, 0, 0, 0, 0, 0, 0, 0, 0, 0, 0, 0], internals = 8 :: u32\<rparr>, calls = [(4, [32])]\<rparr> = (Inr 8, \<lparr>inst = \<lparr>memory = [0, 7, 9, 0, 0, 0, 0, 0, 0, 0, 0, 0, 0, 0, 0, 0], internals = 16 :: u32\<rparr>, calls = [(4, [32]), (0, [8])]\<rparr>)
   \<and> calls (snd (Url_accessor td Href (fst (Free td \<lparr>cpointer = 32\<rparr> td_world)) \<lparr>inst = \<lparr>memory = [0, 7, 9, 0, 0, 0, 0, 0, 0, 0, 0, 0, 0, 0, 0, 0], internals = 8 :: u32\<rparr>, calls = [(4, [32])]\<rparr>))
       = [(4, [32]), (0, [8]), (5, [8, 0]), (1, [8])]
   \<and> ExportedFunction td (setter_export SetProtocol) = Some 8
   \<and> ExportedFunction td ''ada_set_search'' = Some 1
   \<and> ExportedFunction td ''ada_set_hash'' = Some 1
   \<and> writeStringToWasm td [104] \<lparr>inst = \<lparr>memory = [0, 7, 9, 0, 0, 0, 0, 0, 0, 0, 0, 0, 0, 0, 0, 0], internals = 8 :: u32\<rparr>, calls = [(4, [32])]\<rparr> = (Inr 8, \<lparr>inst = \<lparr>memory = [0, 7, 9, 0, 0, 0, 0, 0, 104, 0, 0, 0, 0, 0, 0, 0], internals = 9 :: u32\<rparr>, calls = [(4, [32]), (0, [1])]\<rparr>)
   \<and> calls (snd (Url_setter td SetProtocol [104] (fst (Free td \<lparr>cpointer = 32\<rparr> td_world)) \<lparr>inst = \<lparr>memory = [0, 7, 9, 0, 0, 0, 0, 0, 0, 0, 0, 0, 0, 0, 0, 0], internals = 8 :: u32\<rparr>, calls = [(4, [32])]\<rparr>))
       = [(4, [32]), (0, [1]), (8, [0, 8, 1]), (1, [8])]
   \<and> calls (snd (SetSearch td [104] (fst (Free td \<lparr>cpointer = 32\<rparr> td_world)) \<lparr>inst = \<lparr>memory = [0, 7, 9, 0, 0, 0, 0, 0, 0, 0, 0, 0, 0, 0, 0, 0], internals = 8 :: u32\<rparr>, calls = [(4, [32])]\<rparr>))
       = [(4, [32]), (0, [1]), (1, [0, 8, 1]), (1, [8])]
   \<and> calls (snd (SetHash td [104] (fst (Free td \<lparr>cpointer = 32\<rparr> td_world)) \<lparr>inst = \<lparr>memory = [0, 7, 9, 0, 0, 0, 0, 0, 0, 0, 0, 0, 0, 0, 0, 0], internals = 8 :: u32\<rparr>, calls = [(4, [32])]\<rparr>))
       = [(4, [32]), (0, [1]), (1, [0, 8, 1]), (1, [8])]
   \<and> cache_ok td td_parser
   \<and> fst (Parser_predicate td Valid (fst (Parser_Free td \<lparr>cpointer = 32\<rparr> td_parser)) td_parser)
       = fst (Url_predicate td Valid (fst (Free td \<lparr>cpointer = 32\<rparr> td_world)) td_world)
   \<and> Url_predicate td Valid (fst (Free td \<lparr>cpointer = 32\<rparr> td_world)) \<lparr>inst = \<lparr>memory = [0, 7, 9, 0, 0, 0, 0, 0, 0, 0, 0, 0, 0, 0, 0, 0], internals = 8 :: u32\<rparr>, calls = [(4, [32])]\<rparr>
       = (Inr True, \<lparr>inst = \<lparr>memory = [0, 7, 9, 0, 0, 0, 0, 0, 0, 0, 0, 0, 0, 0, 0, 0], internals = 8 :: u32\<rparr>, calls = [(4, [32]), (3, [0])]\<rparr>)
   \<and> Call td 5 [8, 0] \<lparr>inst = \<lparr>memory = [0, 7, 9, 0, 0, 0, 0, 0, 0, 0, 0, 0, 0, 0, 0, 0], internals = 16 :: u32\<rparr>, calls = [(4, [32]), (0, [8])]\<rparr>
       = (Inr [], \<lparr>inst = \<lparr>memory = [0, 7, 9, 0, 0, 0, 0, 0, 1, 0, 0, 0, 2, 0, 0, 0], internals = 16 :: u32\<rparr>, calls = [(4, [32]), (0, [8]), (5, [8, 0])]\<rparr>)
   \<and> Memory_Read \<lparr>inst = \<lparr>memory = [0, 7, 9, 0, 0, 0, 0, 0, 1, 0, 0, 0, 2, 0, 0, 0], internals = 16 :: u32\<rparr>, calls = [(4, [32]), (0, [8]), (5, [8, 0])]\<rparr> 8 8 = Some [1, 0, 0, 0, 2, 0, 0, 0]
   \<and> Url_accessor td Href (fst (Free td \<lparr>cpointer = 32\<rparr> td_world)) \<lparr>inst = \<lparr>memory = [0, 7, 9, 0, 0, 0, 0, 0, 0, 0, 0, 0, 0, 0, 0, 0], internals = 8 :: u32\<rparr>, calls = [(4, [32])]\<rparr>
       = (Inr [7, 9], \<lparr>inst = \<lparr>memory = [0, 7, 9, 0, 0, 0, 0, 0, 1, 0, 0, 0, 2, 0, 0, 0], internals = 16 :: u32\<rparr>, calls = [(4, [32]), (0, [8]), (5, [8, 0]), (1, [8])]\<rparr>)
   \<and> readAdaString td 5 0 \<lparr>inst = \<lparr>memory = [0, 7, 9, 0, 0, 0, 0, 0, 0, 0, 0, 0, 0, 0, 0, 0], internals = 8 :: u32\<rparr>, calls = [(4, [32])]\<rparr>
       = (Inr [7, 9], \<lparr>inst = \<lparr>memory = [0, 7, 9, 0, 0, 0, 0, 0, 1, 0, 0, 0, 2, 0, 0, 0], internals = 16 :: u32\<rparr>, calls = [(4, [32]), (0, [8]), (5, [8, 0]), (1, [8])]\<rparr>)
   \<and> ExportedFunction td (accessor_export Host) = Some 6
   \<and> Call td 6 [8, 0] \<lparr>inst = \<lparr>memory = [0, 7, 9, 0, 0, 0, 0, 0, 0, 0, 0, 0, 0, 0, 0, 0], internals = 16 :: u32\<rparr>, calls = [(4, [32]), (0, [8])]\<rparr>
       = (Inl (CallError ''trap''), \<lparr>inst = \<lparr>memory = [0, 7, 9, 0, 0, 0, 0, 0, 0, 0, 0, 0, 0, 0, 0, 0], internals = 16 :: u32\<rparr>, calls = [(4, [32]), (0, [8]), (6, [8, 0])]\<rparr>)
   \<and> Url_accessor td Host (fst (Free td \<lparr>cpointer = 32\<rparr> td_world)) \<lparr>inst = \<lparr>memory = [0, 7, 9, 0, 0, 0, 0, 0, 0, 0, 0, 0, 0, 0, 0, 0], internals = 8 :: u32\<rparr>, calls = [(4, [32])]\<rparr>
       = (Inr [], \<lparr>inst = \<lparr>memory = [0, 7, 9, 0, 0, 0, 0, 0, 0, 0, 0, 0, 0, 0, 0, 0], internals = 16 :: u32\<rparr>, calls = [(4, [32]), (0, [8]), (6, [8, 0]), (1, [8])]\<rparr>)
   \<and> Call td 8 [0, 8, 1] \<lparr>inst = \<lparr>memory = [0, 7, 9, 0, 0, 0, 0, 0, 104, 0, 0, 0, 0, 0, 0, 0], internals = 9 :: u32\<rparr>, calls = [(4, [32]), (0, [1])]\<rparr>
       = (Inr [1], \<lparr>inst = \<lparr>memory = [0, 7, 9, 0, 0, 0, 0, 0, 104, 0, 0, 0, 0, 0, 0, 0], internals = 9 :: u32\<rparr>, calls = [(4, [32]), (0, [1]), (8, [0, 8, 1])]\<rparr>)
   \<and> Url_setter td SetProtocol [104] (fst (Free td \<lparr>cpointer = 32\<rparr> td_world)) \<lparr>inst = \<lparr>memory = [0, 7, 9, 0, 0, 0, 0, 0, 0, 0, 0, 0, 0, 0, 0, 0], internals = 8 :: u32\<rparr>, calls = [(4, [32])]\<rparr>
       = (Inr True, \<lparr>inst = \<lparr>memory = [0, 7, 9, 0, 0, 0, 0, 0, 104, 0, 0, 0, 0, 0, 0, 0], internals = 9 :: u32\<rparr>, calls = [(4, [32]), (0, [1]), (8, [0, 8, 1]), (1, [8])]\<rparr>)
   \<and> SetSearch td [104] (fst (Free td \<lparr>cpointer = 32\<rparr> td_world)) \<lparr>inst = \<lparr>memory = [0, 7, 9, 0, 0, 0, 0, 0, 0, 0, 0, 0, 0, 0, 0, 0], internals = 8 :: u32\<rparr>, calls = [(4, [32])]\<rparr>
       = (Inr (), \<lparr>inst = \<lparr>memory = [0, 7, 9, 0, 0, 0, 0, 0, 104, 0, 0, 0, 0, 0, 0, 0], internals = 9 :: u32\<rparr>, calls = [(4, [32]), (0, [1]), (1, [0, 8, 1]), (1, [8])]\<rparr>)
   \<and> SetHash td [104] (fst (Free td \<lparr>cpointer = 32\<rparr> td_world)) \<lparr>inst = \<lparr>memory = [0, 7, 9, 0, 0, 0, 0, 0, 0, 0, 0, 0, 0, 0, 0, 0], internals = 8 :: u32\<rparr>, calls = [(4, [32])]\<rparr>
       = (Inr (), \<lparr>inst = \<lparr>memory = [0, 7, 9, 0, 0, 0, 0, 0, 104, 0, 0, 0, 0, 0, 0, 0], internals = 9 :: u32\<rparr>, calls = [(4, [32]), (0, [1]), (1, [0, 8, 1]), (1, [8])]\<rparr>)
   \<and> writeStringToWasm td [1, 2, 3, 4, 5, 6, 7, 8, 9] \<lparr>inst = \<lparr>memory = [0, 7, 9, 0, 0, 0, 0, 0, 0, 0, 0, 0, 0, 0, 0, 0], internals = 8 :: u32\<rparr>, calls = [(4, [32])]\<rparr>
       = (Inl (ErrorsNew ''failed to write string to WASM memory''), \<lparr>inst = \<lparr>memory = [0, 7, 9, 0, 0, 0, 0, 0, 0, 0, 0, 0, 0, 0, 0, 0], internals = 17 :: u32\<rparr>, calls = [(4, [32]), (0, [9]), (1, [8])]\<rparr>)
   \<and> Url_setter td SetProtocol [1, 2, 3, 4, 5, 6, 7, 8, 9] (fst (Free td \<lparr>cpointer = 32\<rparr> td_world)) \<lparr>inst = \<lparr>memory = [0, 7, 9, 0, 0, 0, 0, 0, 0, 0, 0, 0, 0, 0, 0, 0], internals = 8 :: u32\<rparr>, calls = [(4, [32])]\<rparr>
       = (Inr False, \<lparr>inst = \<lparr>memory = [0, 7, 9, 0, 0, 0, 0, 0, 0, 0, 0, 0, 0, 0, 0, 0], internals = 17 :: u32\<rparr>, calls = [(4, [32]), (0, [9]), (1, [8])]\<rparr>)
   \<and> SetSearch td [1, 2, 3, 4, 5, 6, 7, 8, 9] (fst (Free td \<lparr>cpointer = 32\<rparr> td_world)) \<lparr>inst = \<lparr>memory = [0, 7, 9, 0, 0, 0, 0, 0, 0, 0, 0, 0, 0, 0, 0, 0], internals = 8 :: u32\<rparr>, calls = [(4, [32])]\<rparr>
       = (Inr (), \<lparr>inst = \<lparr>memory = [0, 7, 9, 0, 0, 0, 0, 0, 0, 0, 0, 0, 0, 0, 0, 0], internals = 17 :: u32\<rparr>, calls = [(4, [32]), (0, [9]), (1, [8])]\<rparr>)
   \<and> SetHash td [1, 2, 3, 4, 5, 6, 7, 8, 9] (fst (Free td \<lparr>cpointer = 32\<rparr> td_world)) \<lparr>inst = \<lparr>memory = [0, 7, 9, 0, 0, 0, 0, 0, 0, 0, 0, 0, 0, 0, 0, 0], internals = 8 :: u32\<rparr>, calls = [(4, [32])]\<rparr>
       = (Inr (), \<lparr>inst = \<lparr>memory = [0, 7, 9, 0, 0, 0, 0, 0, 0, 0, 0, 0, 0, 0, 0, 0], internals = 17 :: u32\<rparr>, calls = [(4, [32]), (0, [9]), (1, [8])]\<rparr>)
   \<and> fst (Parser_SetSearch td [104] (fst (Parser_Free td \<lparr>cpointer = 32\<rparr> td_parser)) td_parser)
       = fst (SetSearch td [104] (fst (Free td \<lparr>cpointer = 32\<rparr> td_world)) td_world)
   \<and> fst (Parser_SetHash td [104] (fst (Parser_Free td \<lparr>cpointer = 32\<rparr> td_parser)) td_parser)
       = fst (SetHash td [104] (fst (Free td \<lparr>cpointer = 32\<rparr> td_world)) td_world)"
proof -
  let ?u = "\<lparr>cpointer = 32\<rparr>"
  let ?w0 = "\<lparr>inst = \<lparr>memory = [0, 7, 9, 0, 0, 0, 0, 0, 0, 0, 0, 0, 0, 0, 0, 0], internals = 8 :: u32\<rparr>, calls = [(4, [32])]\<rparr>"
  let ?wm = "\<lparr>inst = \<lparr>memory = [0, 7, 9, 0, 0, 0, 0, 0, 0, 0, 0, 0, 0, 0, 0, 0], internals = 16 :: u32\<rparr>, calls = [(4, [32]), (0, [8])]\<rparr>"
  let ?ws = "\<lparr>inst = \<lparr>memory = [0, 7, 9, 0, 0, 0, 0, 0, 104, 0, 0, 0, 0, 0, 0, 0], internals = 9 :: u32\<rparr>, calls = [(4, [32]), (0, [1])]\<rparr>"
  let ?wg = "\<lparr>inst = \<lparr>memory = [0, 7, 9, 0, 0, 0, 0, 0, 1, 0, 0, 0, 2, 0, 0, 0], internals = 16 :: u32\<rparr>, calls = [(4, [32]), (0, [8]), (5, [8, 0])]\<rparr>"
  let ?wgf = "\<lparr>inst = \<lparr>memory = [0, 7, 9, 0, 0, 0, 0, 0, 1, 0, 0, 0, 2, 0, 0, 0], internals = 16 :: u32\<rparr>, calls = [(4, [32]), (0, [8]), (5, [8, 0]), (1, [8])]\<rparr>"
  let ?wt = "\<lparr>inst = \<lparr>memory = [0, 7, 9, 0, 0, 0, 0, 0, 0, 0, 0, 0, 0, 0, 0, 0], internals = 16 :: u32\<rparr>, calls = [(4, [32]), (0, [8]), (6, [8, 0])]\<rparr>"
  let ?wtf = "\<lparr>inst = \<lparr>memory = [0, 7, 9, 0, 0, 0, 0, 0, 0, 0, 0, 0, 0, 0, 0, 0], internals = 16 :: u32\<rparr>, calls = [(4, [32]), (0, [8]), (6, [8, 0]), (1, [8])]\<rparr>"
  let ?wsp = "\<lparr>inst = \<lparr>memory = [0, 7, 9, 0, 0, 0, 0, 0, 104, 0, 0, 0, 0, 0, 0, 0], internals = 9 :: u32\<rparr>, calls = [(4, [32]), (0, [1]), (8, [0, 8, 1])]\<rparr>"
  let ?wspf = "\<lparr>inst = \<lparr>memory = [0, 7, 9, 0, 0, 0, 0, 0, 104, 0, 0, 0, 0, 0, 0, 0], internals = 9 :: u32\<rparr>, calls = [(4, [32]), (0, [1]), (8, [0, 8, 1]), (1, [8])]\<rparr>"
  let ?wssf = "\<lparr>inst = \<lparr>memory = [0, 7, 9, 0, 0, 0, 0, 0, 104, 0, 0, 0, 0, 0, 0, 0], internals = 9 :: u32\<rparr>, calls = [(4, [32]), (0, [1]), (1, [0, 8, 1]), (1, [8])]\<rparr>"
  let ?wf = "\<lparr>inst = \<lparr>memory = [0, 7, 9, 0, 0, 0, 0, 0, 0, 0, 0, 0, 0, 0, 0, 0], internals = 17 :: u32\<rparr>, calls = [(4, [32]), (0, [9]), (1, [8])]\<rparr>"
  let ?wp = "\<lparr>inst = \<lparr>memory = [0, 7, 9, 0, 0, 0, 0, 0, 0, 0, 0, 0, 0, 0, 0, 0], internals = 8 :: u32\<rparr>, calls = [(4, [32]), (3, [0])]\<rparr>"
  let ?rb = "[1, 0, 0, 0, 2, 0, 0, 0] :: bytes"
  let ?nine = "[1, 2, 3, 4, 5, 6, 7, 8, 9] :: bytes"
  let ?F = "fst (Free td ?u td_world)"
  have h1: "ExportedFunction td (predicate_export Valid) = Some 3" by (simp add: td_defs)
  have h2: "fst (Call td 3 [0] ?w0) = Inr [1]" by (simp add: td_defs shared_defs)
  have h3: "ExportedFunction td (accessor_export Href) = Some 5" by (simp add: td_defs)
  have h4: "wasmMalloc td 8 ?w0 = (Inr 8, ?wm)" by (simp add: td_defs shared_defs)
  have h5: "ExportedFunction td (setter_export SetProtocol) = Some 8" by (simp add: td_defs)
  have h6: "ExportedFunction td ''ada_set_search'' = Some 1" by (simp add: td_defs)
  have h7: "ExportedFunction td ''ada_set_hash'' = Some 1" by (simp add: td_defs)
  have h8: "writeStringToWasm td [104] ?w0 = (Inr 8, ?ws)" by (simp add: td_defs shared_defs)
  have h9: "ExportedFunction td ''free'' = Some 1" by (simp add: td_defs)
  have h10: "fst (Free td ?u td_world) = \<lparr>cpointer = 0\<rparr>" by (simp add: td_defs shared_defs)
  have h11: "Call td 5 [ucast (8 :: u32), 0] ?wm = (Inr [], ?wg)" by (simp add: td_defs shared_defs)
  have h12: "Memory_Read ?wg 8 8 = Some ?rb" by (simp add: Memory_Read_def)
  have h13: "le_uint32 (take 4 ?rb) = 1" by (simp add: le_uint32_def)
  have h14: "le_uint32 (drop 4 ?rb) = 2" by (simp add: le_uint32_def)
  have h15: "Memory_Read ?wg 1 2 = Some [7, 9]" by (simp add: Memory_Read_def)
  have h16: "snd (wasmFree td 8 ?wg) = ?wgf" by (simp add: td_defs shared_defs)
  have h17: "ExportedFunction td (accessor_export Host) = Some 6" by (simp add: td_defs)
  have h18: "Call td 6 [ucast (8 :: u32), 0] ?wm = (Inl (CallError ''trap''), ?wt)"
    by (simp add: td_defs shared_defs)
  have h19: "snd (wasmFree td 8 ?wt) = ?wtf" by (simp add: td_defs shared_defs)
  have h20: "Call td 8 [0, ucast (8 :: u32), of_nat (length ([104] :: bytes))] ?ws = (Inr [1], ?wsp)"
    by (simp add: td_defs shared_defs)
  have h21: "snd (wasmFree td 8 ?wsp) = ?wspf" by (simp add: td_defs shared_defs)
  have h22: "snd (wasmFree td 8 (snd (Call td 1 [0, ucast (8 :: u32), of_nat (length ([104] :: bytes))] ?ws)))
               = ?wssf"
    by (simp add: td_defs shared_defs)
  have h23: "writeStringToWasm td ?nine ?w0 = (Inl (ErrorsNew ''failed to write string to WASM memory''), ?wf)"
    by (simp add: td_defs shared_defs)
  have h24: "Call td 3 [0] ?w0 = (Inr [1], ?wp)" by (simp add: td_defs shared_defs)
  have h25: "readAdaString td 5 0 ?w0 = (Inr [7, 9], ?wgf)"
    by (simp add: td_defs shared_defs Let_def)
  note T = operations_on_freed_handle_call_guest_with_null_pointer
    [of td ?u td_world td_parser Valid 3 ?w0 Href 5 8 ?wm SetProtocol 8 "[104]" 8 ?ws 1 1 td_parser
        "[]" ?wg ?rb "CallError ''trap''"]
  note T2 = operations_on_freed_handle_call_guest_with_null_pointer
    [of td ?u td_world td_parser Valid 3 ?w0 Host 6 8 ?wm SetProtocol 8 "[104]" 8 ?ws 1 1 td_parser
        "[]" ?wt ?rb "CallError ''trap''"]
  note T3 = operations_on_freed_handle_call_guest_with_null_pointer
    [of td ?u td_world td_parser Valid 3 ?w0 Href 5 8 ?wm SetProtocol 8 ?nine 8 ?wf 1 1 td_parser
        "[]" ?wg ?rb "ErrorsNew ''failed to write string to WASM memory''"]
  note p3 = T
    [THEN conjunct2, THEN conjunct2, THEN conjunct1, THEN mp, OF h1]
  note a = p3 [THEN conjunct1] and b = p3 [THEN conjunct2]
  note c = T
    [THEN conjunct2, THEN conjunct2, THEN conjunct2, THEN conjunct1, THEN mp, THEN mp, OF h3 h4]
  note d = T
    [THEN conjunct2, THEN conjunct2, THEN conjunct2, THEN conjunct2, THEN conjunct1, THEN mp, THEN mp, OF h5 h8]
  note e = T
    [THEN conjunct2, THEN conjunct2, THEN conjunct2, THEN conjunct2, THEN conjunct2, THEN conjunct1, THEN mp, THEN mp, OF h6 h8]
  note f = T
    [THEN conjunct2, THEN conjunct2, THEN conjunct2, THEN conjunct2, THEN conjunct2, THEN conjunct2, THEN conjunct1, THEN mp, THEN mp, OF h7 h8]
  note g = T
    [THEN conjunct2, THEN conjunct2, THEN conjunct2, THEN conjunct2, THEN conjunct2, THEN conjunct2, THEN conjunct2, THEN conjunct1, THEN mp, OF cache_ok_td_parser, THEN conjunct1]
  note n1 = T
    [THEN conjunct2, THEN conjunct2, THEN conjunct2, THEN conjunct2, THEN conjunct2, THEN conjunct2, THEN conjunct2, THEN conjunct2, THEN conjunct1, THEN mp, OF h1]
  note n2 = T
    [THEN conjunct2, THEN conjunct2, THEN conjunct2, THEN conjunct2, THEN conjunct2, THEN conjunct2, THEN conjunct2, THEN conjunct2, THEN conjunct2, THEN conjunct1, THEN mp, OF h3]
  note n3 = T
    [THEN conjunct2, THEN conjunct2, THEN conjunct2, THEN conjunct2, THEN conjunct2, THEN conjunct2, THEN conjunct2, THEN conjunct2, THEN conjunct2, THEN conjunct2, THEN conjunct1, THEN mp, THEN mp, THEN mp, THEN mp, OF h3 h4 h11 h12]
  note n4 = T2
    [THEN conjunct2, THEN conjunct2, THEN conjunct2, THEN conjunct2, THEN conjunct2, THEN conjunct2, THEN conjunct2, THEN conjunct2, THEN conjunct2, THEN conjunct2, THEN conjunct2, THEN conjunct1, THEN mp, THEN mp, THEN mp, OF h17 h4 h18]
  note n5 = T
    [THEN conjunct2, THEN conjunct2, THEN conjunct2, THEN conjunct2, THEN conjunct2, THEN conjunct2, THEN conjunct2, THEN conjunct2, THEN conjunct2, THEN conjunct2, THEN conjunct2, THEN conjunct2, THEN conjunct1, THEN mp, THEN mp, OF h5 h8]
  note n6 = T
    [THEN conjunct2, THEN conjunct2, THEN conjunct2, THEN conjunct2, THEN conjunct2, THEN conjunct2, THEN conjunct2, THEN conjunct2, THEN conjunct2, THEN conjunct2, THEN conjunct2, THEN conjunct2, THEN conjunct2, THEN conjunct1, THEN mp, THEN mp, OF h6 h8]
  note n7 = T
    [THEN conjunct2, THEN conjunct2, THEN conjunct2, THEN conjunct2, THEN conjunct2, THEN conjunct2, THEN conjunct2, THEN conjunct2, THEN conjunct2, THEN conjunct2, THEN conjunct2, THEN conjunct2, THEN conjunct2, THEN conjunct2, THEN conjunct1, THEN mp, THEN mp, OF h7 h8]
  note p16 = T3
    [THEN conjunct2, THEN conjunct2, THEN conjunct2, THEN conjunct2, THEN conjunct2, THEN conjunct2, THEN conjunct2, THEN conjunct2, THEN conjunct2, THEN conjunct2, THEN conjunct2, THEN conjunct2, THEN conjunct2, THEN conjunct2, THEN conjunct2, THEN conjunct1, THEN mp, OF h23]
  note n8 = p16 [THEN conjunct1, THEN mp, OF h5]
    and n9 = p16 [THEN conjunct2, THEN conjunct1, THEN mp, OF h6]
    and n10 = p16 [THEN conjunct2, THEN conjunct2, THEN mp, OF h7]
  note p17 = T
    [THEN conjunct2, THEN conjunct2, THEN conjunct2, THEN conjunct2, THEN conjunct2, THEN conjunct2, THEN conjunct2, THEN conjunct2, THEN conjunct2, THEN conjunct2, THEN conjunct2, THEN conjunct2, THEN conjunct2, THEN conjunct2, THEN conjunct2, THEN conjunct2, THEN mp, OF cache_ok_td_parser]
  note n11 = p17 [THEN conjunct1] and n12 = p17 [THEN conjunct2]
  have m: "module td_parser = td_world" by (simp add: td_parser_def)
  from b h2 have b': "fst (Url_predicate td Valid ?F ?w0) = Inr True" by simp
  from a have a': "calls (snd (Url_predicate td Valid ?F ?w0)) = [(4, [32]), (3, [0])]" by simp
  from c h9 have c': "calls (snd (Url_accessor td Href ?F ?w0)) =
      [(4, [32]), (0, [8]), (5, [8, 0]), (1, [8])]" by simp
  from d h9 have d': "calls (snd (Url_setter td SetProtocol [104] ?F ?w0)) =
      [(4, [32]), (0, [1]), (8, [0, 8, 1]), (1, [8])]" by simp
  from e h9 have e': "calls (snd (SetSearch td [104] ?F ?w0)) =
      [(4, [32]), (0, [1]), (1, [0, 8, 1]), (1, [8])]" by simp
  from f h9 have f': "calls (snd (SetHash td [104] ?F ?w0)) =
      [(4, [32]), (0, [1]), (1, [0, 8, 1]), (1, [8])]" by simp
  from g m
  have g': "fst (Parser_predicate td Valid (fst (Parser_Free td ?u td_parser)) td_parser) =
      fst (Url_predicate td Valid ?F td_world)" by simp
  from n1 h24 have n1': "Url_predicate td Valid ?F ?w0 = (Inr True, ?wp)" by simp
  from n2 h25 have n2': "Url_accessor td Href ?F ?w0 = (Inr [7, 9], ?wgf)" by simp
  from n3 h13 h14 h15 h16 have n3': "Url_accessor td Href ?F ?w0 = (Inr [7, 9], ?wgf)"
    by simp
  from n4 h19 have n4': "Url_accessor td Host ?F ?w0 = (Inr [], ?wtf)" by simp
  from n5 h20 h21 have n5': "Url_setter td SetProtocol [104] ?F ?w0 = (Inr True, ?wspf)"
    by simp
  from n6 h22 have n6': "SetSearch td [104] ?F ?w0 = (Inr (), ?wssf)" by simp
  from n7 h22 have n7': "SetHash td [104] ?F ?w0 = (Inr (), ?wssf)" by simp
  from n8 have n8': "Url_setter td SetProtocol ?nine ?F ?w0 = (Inr False, ?wf)" by simp
  from n9 have n9': "SetSearch td ?nine ?F ?w0 = (Inr (), ?wf)" by simp
  from n10 have n10': "SetHash td ?nine ?F ?w0 = (Inr (), ?wf)" by simp
  from n11 m
  have n11': "fst (Parser_SetSearch td [104] (fst (Parser_Free td ?u td_parser)) td_parser) =
      fst (SetSearch td [104] ?F td_world)" by simp
  from n12 m
  have n12': "fst (Parser_SetHash td [104] (fst (Parser_Free td ?u td_parser)) td_parser) =
      fst (SetHash td [104] ?F td_world)" by simp
  from h11 have h11': "Call td 5 [8, 0] ?wm = (Inr [], ?wg)" by simp
  from h18 have h18': "Call td 6 [8, 0] ?wm = (Inl (CallError ''trap''), ?wt)" by simp
  from h20 have h20': "Call td 8 [0, 8, 1] ?ws = (Inr [1], ?wsp)" by simp
  show ?thesis
    apply (intro conjI)
    apply (rule h1)
    apply (rule h10)
    apply (rule a')
    apply (rule h2)
    apply (rule b')
    apply (rule h3)
    apply (rule h4)
    apply (rule c')
    apply (rule h5)
    apply (rule h6)
    apply (rule h7)
    apply (rule h8)
    apply (rule d')
    apply (rule e')
    apply (rule f')
    apply (rule cache_ok_td_parser)
    apply (rule g')
    apply (rule n1')
    apply (rule h11')
    apply (rule h12)
    apply (rule n3')
    apply (rule h25)
    apply (rule h17)
    apply (rule h18')
    apply (rule n4')
    apply (rule h20')
    apply (rule n5')
    apply (rule n6')
    apply (rule n7')
    apply (rule h23)
    apply (rule n8')
    apply (rule n9')
    apply (rule n10')
    apply (rule n11')
    apply (rule n12')
    done
qed

text \<open>
  C8 as the specification words it (an operation on a freed handle is refused) fails: on
  the test double, \<open>Valid\<close> on a handle that was just freed calls the guest's \<open>ada_is_valid\<close>
  (function 3) with pointer 0 and returns true, and \<open>Href\<close> on it calls \<open>ada_get_href\<close>
  (function 5) with pointer 0 and returns the two bytes the guest points at; the parser
  variant does the same.
\<close>

theorem operations_on_freed_handle_are_not_refused:
  "Free td \<lparr>cpointer = 32\<rparr> td_world = (\<lparr>cpointer = 0\<rparr>, \<lparr>inst = \<lparr>memory = [0, 7, 9, 0, 0, 0, 0, 0, 0, 0, 0, 0, 0, 0, 0, 0], internals = 8 :: u32\<rparr>, calls = [(4, [32])]\<rparr>)
   \<and> Url_predicate td Valid \<lparr>cpointer = 0\<rparr> \<lparr>inst = \<lparr>memory = [0, 7, 9, 0, 0, 0, 0, 0, 0, 0, 0, 0, 0, 0, 0, 0], internals = 8 :: u32\<rparr>, calls = [(4, [32])]\<rparr> = (Inr True, \<lparr>inst = \<lparr>memory = [0, 7, 9, 0, 0, 0, 0, 0, 0, 0, 0, 0, 0, 0, 0, 0], internals = 8 :: u32\<rparr>, calls = [(4, [32]), (3, [0])]\<rparr>)
   \<and> fst (Url_accessor td Href \<lparr>cpointer = 0\<rparr> \<lparr>inst = \<lparr>memory = [0, 7, 9, 0, 0, 0, 0, 0, 0, 0, 0, 0, 0, 0, 0, 0], internals = 8 :: u32\<rparr>, calls = [(4, [32])]\<rparr>) = Inr [7, 9]
   \<and> calls (snd (Url_accessor td Href \<lparr>cpointer = 0\<rparr> \<lparr>inst = \<lparr>memory = [0, 7, 9, 0, 0, 0, 0, 0, 0, 0, 0, 0, 0, 0, 0, 0], internals = 8 :: u32\<rparr>, calls = [(4, [32])]\<rparr>)) =
       [(4, [32]), (0, [8]), (5, [8, 0]), (1, [8])]
   \<and> fst (Parser_predicate td Valid (fst (Parser_Free td \<lparr>cpointer = 32\<rparr> td_parser))
             (snd (Parser_Free td \<lparr>cpointer = 32\<rparr> td_parser))) = Inr True
   \<and> calls (module (snd (Parser_predicate td Valid
                             (fst (Parser_Free td \<lparr>cpointer = 32\<rparr> td_parser))
                             (snd (Parser_Free td \<lparr>cpointer = 32\<rparr> td_parser))))) =
       [(4, [32]), (3, [0])]"
  by (simp add: td_defs shared_defs Parser_Free_def ada_free_def Parser_predicate_def
        Parser_callAdaBoolFunction_def getFunction_def getFunction_locked_def Parser_Call_alt)


section \<open>The function cache\<close>

lemma may_RLock_iff:
  "may_RLock c \<longleftrightarrow> (\<forall>j < length (callers c). \<not> holds_write (snd (callers c ! j)))"
  by (simp add: may_RLock_def list_all_length)

lemma may_Lock_iff:
  "may_Lock c \<longleftrightarrow>
     (\<forall>j < length (callers c). \<not> holds_write (snd (callers c ! j)) \<and> \<not> holds_read (snd (callers c ! j)))"
  by (simp add: may_Lock_def list_all_length)

lemma step_eq:
  assumes "i < length (callers c)" and "callers c ! i = (name, at)"
    and "statement M c name at = (ch', at')"
  shows "step M i c = \<lparr>cache = ch', callers = (callers c)[i := (name, at')]\<rparr>"
  using assms by (simp add: step_def)

lemma step_idle: "\<not> i < length (callers c) \<Longrightarrow> step M i c = c"
  by (simp add: step_def)

text \<open>A statement either leaves the cache alone or is the store of a caller at \<open>Missed\<close>.\<close>

lemma statement_cache:
  assumes "statement M c name at = (ch', at')"
  shows "ch' = cache c \<or>
    (at = Missed \<and> (\<exists>fn. ExportedFunction M name = Some fn \<and> ch' = (cache c)(name \<mapsto> fn)))"
  using assms by (cases at) (auto split: option.splits if_splits)

text \<open>A statement takes a lock only when the mutex grants it.\<close>

lemma statement_holds_write:
  assumes "statement M c name at = (ch', at')" and "holds_write at'"
  shows "holds_write at \<or> (at = Waiting \<and> may_Lock c)"
  using assms by (cases at) (auto split: option.splits if_splits)

lemma statement_holds_read:
  assumes "statement M c name at = (ch', at')" and "holds_read at'"
  shows "holds_read at \<or> (at = Start \<and> may_RLock c)"
  using assms by (cases at) (auto split: option.splits if_splits)

text \<open>What the caller itself knows after its statement.\<close>

lemma statement_at_ok:
  assumes "at_ok M (cache c) name at" and "statement M c name at = (ch', at')"
  shows "at_ok M ch' name at'"
  using assms by (cases at) (auto split: option.splits if_splits)

text \<open>What another caller knows survives a store, which only fills an absent name.\<close>

lemma at_ok_after_store:
  assumes "at_ok M ch m at" and "ch name = None" and "ExportedFunction M name = Some fn"
    and "\<not> holds_write at"
  shows "at_ok M (ch(name \<mapsto> fn)) m at"
  using assms by (cases at) auto


lemma step_coherent:
  assumes coh: "coherent M c"
  shows "coherent M (step M i c)" and "cache c \<subseteq>\<^sub>m cache (step M i c)"
proof -
  have "coherent M (step M i c) \<and> cache c \<subseteq>\<^sub>m cache (step M i c)"
  proof (cases "i < length (callers c)")
    case False
    with coh show ?thesis by (simp add: step_idle)
  next
    case True
    obtain name at where ci: "callers c ! i = (name, at)" by (cases "callers c ! i")
    obtain ch' at' where st: "statement M c name at = (ch', at')"
      by (cases "statement M c name at")
    let ?c' = "\<lparr>cache = ch', callers = (callers c)[i := (name, at')]\<rparr>"
    from True ci st have c': "step M i c = ?c'" by (rule step_eq)
    from coh have ex: "exclusive c"
      and ok: "\<And>k. k < length (callers c) \<Longrightarrow>
                 at_ok M (cache c) (fst (callers c ! k)) (snd (callers c ! k))"
      by (simp_all add: coherent_def)
    from ok [OF True] ci have oki: "at_ok M (cache c) name at" by simp
    have exD: "k = j" if "k < length (callers c)" "j < length (callers c)"
      "holds_write (snd (callers c ! k))"
      "holds_write (snd (callers c ! j)) \<or> holds_read (snd (callers c ! j))" for k j
      using ex that unfolding exclusive_def by blast
    have pc': "snd ((callers c)[i := (name, at')] ! k) =
                 (if k = i then at' else snd (callers c ! k))"
      and nm': "fst ((callers c)[i := (name, at')] ! k) = fst (callers c ! k)"
      if "k < length (callers c)" for k
      using that ci by (cases "k = i"; simp)+
    \<comment> \<open>the caller takes a lock only when no other caller stands in its way\<close>
    have alone: "\<not> holds_write (snd (callers c ! k)) \<and>
                 (holds_write at' \<longrightarrow> \<not> holds_read (snd (callers c ! k)))"
      if k: "k < length (callers c)" "k \<noteq> i" and h: "holds_write at' \<or> holds_read at'" for k
    proof -
      from h show ?thesis
      proof
        assume w: "holds_write at'"
        from statement_holds_write [OF st w] show ?thesis
        proof
          assume "holds_write at"
          with exD [OF True k(1)] exD [OF k(1) True] ci k(2) w show ?thesis by auto
        next
          assume "at = Waiting \<and> may_Lock c"
          with k(1) show ?thesis by (simp add: may_Lock_iff)
        qed
      next
        assume r: "holds_read at'"
        from statement_holds_read [OF st r] have "\<not> holds_write (snd (callers c ! k))"
        proof
          assume "holds_read at"
          with exD [OF k(1) True] ci k(2) show ?thesis by auto
        next
          assume "at = Start \<and> may_RLock c"
          with k(1) show ?thesis by (simp add: may_RLock_iff)
        qed
        moreover from r have "\<not> holds_write at'" by (cases at') simp_all
        ultimately show ?thesis by simp
      qed
    qed
    have ex': "exclusive ?c'"
      unfolding exclusive_def
    proof (intro allI impI)
      fix k j
      assume k: "k < length (callers ?c')" and j: "j < length (callers ?c')"
        and w: "holds_write (snd (callers ?c' ! k))"
        and h: "holds_write (snd (callers ?c' ! j)) \<or> holds_read (snd (callers ?c' ! j))"
      from k j have k': "k < length (callers c)" and j': "j < length (callers c)" by simp_all
      show "k = j"
      proof (cases "k = i")
        case ki: True
        show ?thesis
        proof (cases "j = i")
          case True
          with ki show ?thesis by simp
        next
          case False
          from w ki k' have "holds_write at'" by (simp add: pc')
          with alone [OF j' False] h j' False show ?thesis by (simp add: pc')
        qed
      next
        case ki: False
        with w k' have wk: "holds_write (snd (callers c ! k))" by (simp add: pc')
        show ?thesis
        proof (cases "j = i")
          case True
          with h j' have "holds_write at' \<or> holds_read at'" by (simp add: pc')
          from alone [OF k' ki this] wk show ?thesis by simp
        next
          case False
          with h j' have "holds_write (snd (callers c ! j)) \<or> holds_read (snd (callers c ! j))"
            by (simp add: pc')
          with k' j' wk show ?thesis by (rule exD)
        qed
      qed
    qed
    have absent: "cache c name = None" if "at = Missed"
      using oki that by simp
    have ok': "at_ok M ch' (fst (callers ?c' ! k)) (snd (callers ?c' ! k))"
      if k: "k < length (callers ?c')" for k
    proof (cases "k = i")
      case True
      with k statement_at_ok [OF oki st] ci show ?thesis by (simp add: pc' nm')
    next
      case False
      from k have k': "k < length (callers c)" by simp
      from statement_cache [OF st]
      have "at_ok M ch' (fst (callers c ! k)) (snd (callers c ! k))"
      proof
        assume "ch' = cache c"
        with ok [OF k'] show ?thesis by simp
      next
        assume "at = Missed \<and>
          (\<exists>fn. ExportedFunction M name = Some fn \<and> ch' = (cache c)(name \<mapsto> fn))"
        then obtain fn where m: "at = Missed" and e: "ExportedFunction M name = Some fn"
          and ch: "ch' = (cache c)(name \<mapsto> fn)" by blast
        from m ci have "holds_write (snd (callers c ! i))" by simp
        with exD [OF True k'] False have "\<not> holds_write (snd (callers c ! k))" by auto
        with ok [OF k'] absent [OF m] e show ?thesis
          unfolding ch by (rule at_ok_after_store)
      qed
      with False k' show ?thesis by (simp add: pc' nm')
    qed
    from statement_cache [OF st] have "cache c \<subseteq>\<^sub>m ch'"
    proof
      assume "ch' = cache c"
      then show ?thesis by simp
    next
      assume "at = Missed \<and>
        (\<exists>fn. ExportedFunction M name = Some fn \<and> ch' = (cache c)(name \<mapsto> fn))"
      with absent show ?thesis by (auto simp add: map_le_def)
    qed
    with ex' ok' show ?thesis unfolding c' by (simp add: coherent_def)
  qed
  then show "coherent M (step M i c)" and "cache c \<subseteq>\<^sub>m cache (step M i c)" by simp_all
qed

lemma step_callers:
  "length (callers (step M i c)) = length (callers c)"
  "map fst (callers (step M i c)) = map fst (callers c)"
proof -
  show "length (callers (step M i c)) = length (callers c)"
    by (simp add: step_def split: prod.splits)
  show "map fst (callers (step M i c)) = map fst (callers c)"
    by (auto simp add: step_def map_update list_update_same_conv split: prod.splits)
qed

lemma schedule_coherent:
  assumes "coherent M c"
  shows "coherent M (schedule M is c)" and "cache c \<subseteq>\<^sub>m cache (schedule M is c)"
    and "map fst (callers (schedule M is c)) = map fst (callers c)"
proof -
  have "coherent M (schedule M is c) \<and> cache c \<subseteq>\<^sub>m cache (schedule M is c)
          \<and> map fst (callers (schedule M is c)) = map fst (callers c)"
    using assms
  proof (induction "is" arbitrary: c)
    case Nil
    then show ?case by simp
  next
    case (Cons i "is")
    from step_coherent [OF Cons.prems, of i] Cons.IH [of "step M i c"] step_callers(2) [of M i c]
    show ?case by (auto intro: map_le_trans)
  qed
  then show "coherent M (schedule M is c)" and "cache c \<subseteq>\<^sub>m cache (schedule M is c)"
    and "map fst (callers (schedule M is c)) = map fst (callers c)" by simp_all
qed

lemma entering_coherent: "coherent M (entering c0 names)"
  by (simp add: coherent_def exclusive_def entering_def)


text \<open>A caller running alone does what the sequential \<open>getFunction\<close> does.\<close>

lemma lone_caller:
  "schedule M [0, 0, 0, 0, 0, 0, 0] (entering (funcCache p) [name]) =
     \<lparr>cache = funcCache (snd (getFunction M name p)),
      callers = [(name, Returned (fst (getFunction M name p)))]\<rparr>"
proof (cases "funcCache p name")
  case (Some fn)
  then show ?thesis
    by (simp add: entering_def step_def may_RLock_def getFunction_def)
next
  case None
  then show ?thesis
    by (cases "ExportedFunction M name")
      (simp_all add: entering_def step_def may_RLock_def may_Lock_def getFunction_def
         getFunction_locked_def)
qed

lemma getFunction_miss:
  assumes "funcCache p name = None"
  shows "getFunction M name p = getFunction_locked M name p"
    and "getFunction M name p =
      (ExportedFunction M name,
       p\<lparr>funcCache := (case ExportedFunction M name of
                          None \<Rightarrow> funcCache p
                        | Some fn \<Rightarrow> (funcCache p)(name \<mapsto> fn))\<rparr>)"
  using assms by (simp_all add: getFunction_def getFunction_locked_def split: option.splits)

lemma getFunction_locked_hit:
  "funcCache p name = Some fn \<Longrightarrow> getFunction_locked M name p = (Some fn, p)"
  by (simp add: getFunction_locked_def)

lemma getFunction_hit:
  "funcCache p name = Some fn \<Longrightarrow> getFunction M name p = (Some fn, p)"
  by (simp add: getFunction_def)

lemma getFunction_stores:
  "fst (getFunction M name p) = Some fn \<Longrightarrow> funcCache (snd (getFunction M name p)) name = Some fn"
  by (auto simp add: getFunction_def getFunction_locked_def split: option.splits)

lemma Parser_Free_ok:
  "cache_ok M p \<Longrightarrow> corresponds M p (Parser_Free M u p) (Free M u (module p))"
  by (simp add: Parser_Free_def Free_def ada_free_ok)

lemma perform_ok:
  assumes "cache_ok M p"
  shows "cache_ok M (perform M op p) \<and> funcCache p \<subseteq>\<^sub>m funcCache (perform M op p)"
proof (cases op)
  case (Op_getFunction name)
  with getFunction_ok [OF assms, of name] show ?thesis by (simp add: corresponds_def)
next
  case (Op_New s)
  with Parser_New_ok [OF assms, of s] show ?thesis by (simp add: corresponds_def)
next
  case (Op_NewWithBase s b)
  with Parser_NewWithBase_ok [OF assms, of s b] show ?thesis by (simp add: corresponds_def)
next
  case (Op_Free u)
  with Parser_Free_ok [OF assms, of u] show ?thesis by (simp add: corresponds_def)
next
  case (Op_predicate q u)
  with Parser_predicate_ok [OF assms, of q u] show ?thesis by (simp add: corresponds_def)
next
  case (Op_accessor a u)
  with Parser_accessor_ok [OF assms, of a u] show ?thesis by (simp add: corresponds_def)
next
  case (Op_setter t v u)
  with Parser_setter_ok [OF assms, of t v u] show ?thesis by (simp add: corresponds_def)
next
  case (Op_SetSearch v u)
  with Parser_SetSearch_ok [OF assms, of v u] show ?thesis by (simp add: corresponds_def)
next
  case (Op_SetHash v u)
  with Parser_SetHash_ok [OF assms, of v u] show ?thesis by (simp add: corresponds_def)
qed

lemma perform_all_ok:
  assumes "cache_ok M p"
  shows "cache_ok M (perform_all M ops p) \<and> funcCache p \<subseteq>\<^sub>m funcCache (perform_all M ops p)"
  using assms
proof (induction ops arbitrary: p)
  case Nil
  then show ?case by simp
next
  case (Cons op ops)
  from perform_ok [OF Cons.prems, of op] Cons.IH [of "perform M op p"]
  show ?case by (auto intro: map_le_trans)
qed

lemma map_le_SomeD: "m \<subseteq>\<^sub>m m' \<Longrightarrow> m k = Some v \<Longrightarrow> m' k = Some v"
  by (auto simp add: map_le_def dom_def)

lemma perform_all_keeps:
  assumes "cache_ok M p" and "funcCache p name = Some fn"
  shows "getFunction M name (perform_all M ops p) = (Some fn, perform_all M ops p)"
proof -
  from perform_all_ok [OF assms(1), of ops] assms(2)
  have "funcCache (perform_all M ops p) name = Some fn" by (auto dest: map_le_SomeD)
  then show ?thesis by (rule getFunction_hit)
qed


lemma NewParser_cache_ok:
  "NewParser instantiated = Inr p \<Longrightarrow> funcCache p = Map.empty \<and> cache_ok M p"
  by (auto simp add: NewParser_def cache_ok_def split: sum.splits)

text \<open>
  C9. A parser starts with an empty cache, which is sound. Sequentially: a name that is in
  the cache is returned from the optimistic read, and the critical section under the
  exclusive lock returns it too when it finds it there (the re-check), in both cases
  without consulting the module and without changing the parser; a name that is not in
  the cache goes through the critical section, which looks it up in the module and stores
  it when it is exported. Over any sequence of operations on a parser with a sound cache,
  the cache only grows: every entry stays, with the same handle, and a later \<open>getFunction\<close>
  of a stored name returns that handle. Concurrently: for any number of callers and any
  interleaving of their statements, starting from any cache, the cache at every moment
  extends the initial one and every statement extends it further; a caller holding the
  exclusive lock is the only caller holding any lock; a statement that changes the cache
  is executed by a caller holding the exclusive lock; a caller that missed under the
  exclusive lock still finds the name absent when it stores, so the store replaces
  nothing; and a caller that has returned \<open>r\<close> for a name has returned what the cache holds
  for that name. A caller running alone ends as the sequential function does.
\<close>

theorem getFunction_memoizes_and_never_evicts:
  "(NewParser instantiated = Inr p0 \<longrightarrow> funcCache p0 = Map.empty \<and> cache_ok M p0)
   \<and> (funcCache p name = Some fn \<longrightarrow>
      getFunction M name p = (Some fn, p) \<and> getFunction_locked M name p = (Some fn, p))
   \<and> (funcCache p name = None \<longrightarrow>
        getFunction M name p = getFunction_locked M name p
        \<and> getFunction M name p =
            (ExportedFunction M name,
             p\<lparr>funcCache := (case ExportedFunction M name of
                                None \<Rightarrow> funcCache p
                              | Some fn' \<Rightarrow> (funcCache p)(name \<mapsto> fn'))\<rparr>))
   \<and> (cache_ok M p \<longrightarrow>
        cache_ok M (perform_all M ops p)
        \<and> funcCache p \<subseteq>\<^sub>m funcCache (perform_all M ops p)
        \<and> (funcCache p name = Some fn \<longrightarrow>
             getFunction M name (perform_all M ops p) = (Some fn, perform_all M ops p))
        \<and> (fst (getFunction M name p) = Some fn \<longrightarrow>
             getFunction M name (perform_all M ops (snd (getFunction M name p))) =
               (Some fn, perform_all M ops (snd (getFunction M name p)))))
   \<and> schedule M [0, 0, 0, 0, 0, 0, 0] (entering (funcCache p) [name]) =
       \<lparr>cache = funcCache (snd (getFunction M name p)),
        callers = [(name, Returned (fst (getFunction M name p)))]\<rparr>
   \<and> c0 \<subseteq>\<^sub>m cache (schedule M is (entering c0 names))
   \<and> cache (schedule M is (entering c0 names)) \<subseteq>\<^sub>m cache (step M i (schedule M is (entering c0 names)))
   \<and> map fst (callers (schedule M is (entering c0 names))) = names
   \<and> exclusive (schedule M is (entering c0 names))
   \<and> (fst (statement M c name at) \<noteq> cache c \<longrightarrow> holds_write at)
   \<and> (k < length names \<longrightarrow>
        (snd (callers (schedule M is (entering c0 names)) ! k) = Missed \<longrightarrow>
           cache (schedule M is (entering c0 names)) (names ! k) = None)
        \<and> (snd (callers (schedule M is (entering c0 names)) ! k) = Returned r \<longrightarrow>
             cache (schedule M is (entering c0 names)) (names ! k) = r))"
proof -
  let ?c = "schedule M is (entering c0 names)"
  note coh = schedule_coherent [OF entering_coherent [of M c0 names], of "is"]
  from coh(2) have a: "c0 \<subseteq>\<^sub>m cache ?c" by (simp add: entering_def)
  from coh(3) have b: "map fst (callers ?c) = names" by (simp add: entering_def comp_def)
  from coh(1) have ex: "exclusive ?c"
    and ok: "\<And>k. k < length (callers ?c) \<Longrightarrow>
               at_ok M (cache ?c) (fst (callers ?c ! k)) (snd (callers ?c ! k))"
    by (simp_all add: coherent_def)
  from b have len: "length (callers ?c) = length names" by (metis length_map)
  have nm: "fst (callers ?c ! k) = names ! k" if "k < length names"
    using that b len by (metis nth_map)
  have c: "cache ?c (names ! k) = None"
    if "k < length names" and "snd (callers ?c ! k) = Missed"
    using ok [of k] that len nm [OF that(1)] by simp
  have d: "cache ?c (names ! k) = r"
    if "k < length names" and "snd (callers ?c ! k) = Returned r"
    using ok [of k] that len nm [OF that(1)] by simp
  note e = step_coherent(2) [OF coh(1), of i]
  have wr: "holds_write at" if "fst (statement M c name at) \<noteq> cache c"
    using that statement_cache [of M c name at "fst (statement M c name at)"
                                   "snd (statement M c name at)"]
    by auto
  have f: "cache_ok M (perform_all M ops p)"
    and g: "funcCache p \<subseteq>\<^sub>m funcCache (perform_all M ops p)" if "cache_ok M p"
    using perform_all_ok [OF that, of ops] by simp_all
  have h: "getFunction M name (perform_all M ops (snd (getFunction M name p))) =
               (Some fn, perform_all M ops (snd (getFunction M name p)))"
    if "cache_ok M p" and "fst (getFunction M name p) = Some fn"
    using getFunction_ok [OF that(1), of name] getFunction_stores [OF that(2)]
    by (intro perform_all_keeps) (simp_all add: corresponds_def)
  show ?thesis
    apply (intro conjI impI)
    apply (erule NewParser_cache_ok [THEN conjunct1])
    apply (erule NewParser_cache_ok [THEN conjunct2])
    apply (erule getFunction_hit)
    apply (erule getFunction_locked_hit)
    apply (erule getFunction_miss(1))
    apply (erule getFunction_miss(2))
    apply (erule f)
    apply (erule g)
    apply (erule (1) perform_all_keeps)
    apply (erule (1) h)
    apply (rule lone_caller)
    apply (rule a)
    apply (rule e)
    apply (rule b)
    apply (rule ex)
    apply (erule wr)
    apply (erule (1) c)
    apply (erule (1) d)
    done
qed

theorem getFunction_memoizes_and_never_evicts_witness:
  "NewParser (Inr td_world) = Inr td_parser
   \<and> funcCache td_parser = Map.empty
   \<and> getFunction td ''malloc'' td_parser =
       (Some 0, td_parser\<lparr>funcCache := (funcCache td_parser)(''malloc'' \<mapsto> 0)\<rparr>)
   \<and> funcCache (snd (getFunction td ''malloc'' td_parser)) ''malloc'' = Some 0
   \<and> getFunction td ''malloc'' (snd (getFunction td ''malloc'' td_parser)) = (Some 0, snd (getFunction td ''malloc'' td_parser))
   \<and> getFunction_locked td ''malloc'' (snd (getFunction td ''malloc'' td_parser)) = (Some 0, snd (getFunction td ''malloc'' td_parser))
   \<and> funcCache td_parser ''malloc'' = None
   \<and> fst (getFunction td ''malloc'' td_parser) = Some 0
   \<and> cache_ok td td_parser
   \<and> cache_ok td (snd (getFunction td ''malloc'' td_parser))
   \<and> getFunction td ''malloc'' (perform_all td [Op_New [104, 105], Op_predicate Valid \<lparr>cpointer = 32\<rparr>, Op_Free \<lparr>cpointer = 32\<rparr>] (snd (getFunction td ''malloc'' td_parser))) =
       (Some 0, perform_all td [Op_New [104, 105], Op_predicate Valid \<lparr>cpointer = 32\<rparr>, Op_Free \<lparr>cpointer = 32\<rparr>] (snd (getFunction td ''malloc'' td_parser)))
   \<and> (1 :: nat) < length [''malloc'', ''malloc'']
   \<and> callers (schedule td [0, 1, 0, 1, 0, 1, 0, 0, 0, 1, 0, 1, 1, 1] (entering Map.empty [''malloc'', ''malloc''])) = [(''malloc'', Returned (Some 0)), (''malloc'', Returned (Some 0))]
   \<and> cache (schedule td [0, 1, 0, 1, 0, 1, 0, 0, 0, 1, 0, 1, 1, 1] (entering Map.empty [''malloc'', ''malloc''])) ''malloc'' = Some 0
   \<and> exclusive (schedule td [0, 1, 0, 1, 0, 1, 0, 0, 0, 1, 0, 1, 1, 1] (entering Map.empty [''malloc'', ''malloc'']))
   \<and> (0 :: nat) < length [''malloc'']
   \<and> callers (schedule td [0, 0, 0, 0, 0] (entering Map.empty [''malloc''])) = [(''malloc'', Missed)]
   \<and> cache (schedule td [0, 0, 0, 0, 0] (entering Map.empty [''malloc''])) ''malloc'' = None
   \<and> fst (statement td (schedule td [0, 0, 0, 0, 0] (entering Map.empty [''malloc'']))
             ''malloc'' Missed) ''malloc'' = Some 0
   \<and> fst (statement td (schedule td [0, 0, 0, 0, 0] (entering Map.empty [''malloc'']))
             ''malloc'' Missed) \<noteq>
       cache (schedule td [0, 0, 0, 0, 0] (entering Map.empty [''malloc'']))
   \<and> holds_write Missed"
proof -
  let ?p1 = "snd (getFunction td ''malloc'' td_parser)"
  let ?ops = "[Op_New [104, 105], Op_predicate Valid \<lparr>cpointer = 32\<rparr>, Op_Free \<lparr>cpointer = 32\<rparr>]"
  let ?s1 = "schedule td [0, 1, 0, 1, 0, 1, 0, 0, 0, 1, 0, 1, 1, 1] (entering Map.empty [''malloc'', ''malloc''])"
  let ?s2 = "schedule td [0, 0, 0, 0, 0] (entering Map.empty [''malloc''])"
  have h1: "funcCache ?p1 ''malloc'' = Some 0"
    by (simp add: getFunction_def getFunction_locked_def td_defs)
  have h2: "funcCache td_parser ''malloc'' = None" by (simp add: td_defs)
  have h3: "fst (getFunction td ''malloc'' td_parser) = Some 0"
    by (simp add: getFunction_def getFunction_locked_def td_defs)
  have h4: "cache_ok td ?p1"
    using getFunction_ok [OF cache_ok_td_parser, of "''malloc''"] by (simp add: corresponds_def)
  have h5: "(1 :: nat) < length [''malloc'', ''malloc'']" by simp
  have h6: "callers ?s1 = [(''malloc'', Returned (Some 0)), (''malloc'', Returned (Some 0))]"
    by (simp add: entering_def step_def may_RLock_def may_Lock_def td_defs)
  have h7: "(0 :: nat) < length [''malloc'']" by simp
  have h8: "callers ?s2 = [(''malloc'', Missed)]"
    by (simp add: entering_def step_def may_RLock_def may_Lock_def td_defs)
  have h0: "NewParser (Inr td_world) = Inr td_parser" by (simp add: NewParser_def td_parser_def)
  have h9: "ExportedFunction td ''malloc'' = Some 0" by (simp add: td_defs)
  note T1 = getFunction_memoizes_and_never_evicts
    [of "Inr td_world" td_parser td ?p1 "''malloc''" 0 ?ops Map.empty "[0, 1, 0, 1, 0, 1, 0, 0, 0, 1, 0, 1, 1, 1]"
        "[''malloc'', ''malloc'']" 0 ?s2 Missed 1 "Some 0"]
  note T2 = getFunction_memoizes_and_never_evicts
    [of "Inr td_world" td_parser td td_parser "''malloc''" 0 ?ops Map.empty "[0, 0, 0, 0, 0]" "[''malloc'']" 0 ?s2 Missed 0 None]
  from h1 T1 have a: "getFunction td ''malloc'' ?p1 = (Some 0, ?p1)"
    and a': "getFunction_locked td ''malloc'' ?p1 = (Some 0, ?p1)" by blast+
  from h3 cache_ok_td_parser T2
  have b: "getFunction td ''malloc'' (perform_all td ?ops ?p1) = (Some 0, perform_all td ?ops ?p1)"
    by blast
  from h5 h6 T1 have c: "cache ?s1 ([''malloc'', ''malloc''] ! 1) = Some 0" by simp
  from T1 have d: "exclusive ?s1" by blast
  from h7 h8 T2 have e: "cache ?s2 ([''malloc''] ! 0) = None" by simp
  from h0 T1 have f: "funcCache td_parser = Map.empty" and f': "cache_ok td td_parser"
    by blast+
  from h2 T2 have "getFunction td ''malloc'' td_parser =
            (ExportedFunction td ''malloc'',
             td_parser\<lparr>funcCache := (case ExportedFunction td ''malloc'' of
                                None \<Rightarrow> funcCache td_parser
                              | Some fn' \<Rightarrow> (funcCache td_parser)(''malloc'' \<mapsto> fn'))\<rparr>)"
    by blast
  with h9 have g: "getFunction td ''malloc'' td_parser =
       (Some 0, td_parser\<lparr>funcCache := (funcCache td_parser)(''malloc'' \<mapsto> 0)\<rparr>)"
    by simp
  from h1 h4 T1
  have b': "getFunction td ''malloc'' (perform_all td ?ops ?p1) = (Some 0, perform_all td ?ops ?p1)"
    by blast
  have h10: "fst (statement td ?s2 ''malloc'' Missed) ''malloc'' = Some 0"
    by (simp add: td_defs)
  from h10 e have h11: "fst (statement td ?s2 ''malloc'' Missed) \<noteq> cache ?s2"
    by (metis option.distinct(1) nth_Cons_0)
  from h11 T2 have i: "holds_write Missed" by blast
  from h0 h1 h2 h3 h4 h5 h6 h7 h8 h10 h11 a a' b b' c d e f f' g i show ?thesis by simp
qed


end
